theory Spec2Isabelle
  imports Complex_Main
begin

section \<open>Python values and exceptions\<close>

text \<open>
  Exceptions are values. Each constructor is a Python exception class and carries the
  message that \<open>str(e)\<close> returns. \<open>OSError\<close> stands for \<open>OSError\<close> and its
  subclasses (\<open>IOError\<close> is the same class in Python 3); \<open>OperationalError\<close>,
  \<open>IntegrityError\<close> and \<open>DatabaseError\<close> are the classes of \<open>sqlite3\<close>.
\<close>

datatype exn =
    ValueError string
  | IndexError string
  | KeyError string
  | TypeError string
  | ZeroDivisionError string
  | OverflowError string
  | OSError string
  | OperationalError string
  | IntegrityError string
  | DatabaseError string
  | UnboundLocalError string
  | AttributeError string

fun str_exn :: "exn \<Rightarrow> string" where
  "str_exn (ValueError m) = m"
| "str_exn (IndexError m) = m"
| "str_exn (KeyError m) = m"
| "str_exn (TypeError m) = m"
| "str_exn (ZeroDivisionError m) = m"
| "str_exn (OverflowError m) = m"
| "str_exn (OSError m) = m"
| "str_exn (OperationalError m) = m"
| "str_exn (IntegrityError m) = m"
| "str_exn (DatabaseError m) = m"
| "str_exn (UnboundLocalError m) = m"
| "str_exn (AttributeError m) = m"

definition bindE :: "exn + 'a \<Rightarrow> ('a \<Rightarrow> exn + 'b) \<Rightarrow> exn + 'b" where
  "bindE m f = (case m of Inl e \<Rightarrow> Inl e | Inr x \<Rightarrow> f x)"

text \<open>
  A method that changes a state \<open>'w\<close> is a function from the state to the value it
  returns, or the exception it raises, and the new state.
\<close>

type_synonym ('w, 'a) action = "'w \<Rightarrow> (exn + 'a) \<times> 'w"

definition returnA :: "'a \<Rightarrow> ('w, 'a) action" where
  "returnA x w = (Inr x, w)"

definition bindA :: "('w, 'a) action \<Rightarrow> ('a \<Rightarrow> ('w, 'b) action) \<Rightarrow> ('w, 'b) action" where
  "bindA m f w = (case m w of (Inl e, w') \<Rightarrow> (Inl e, w') | (Inr x, w') \<Rightarrow> f x w')"

text \<open>\<open>try: m except Exception as e: h e\<close>\<close>

definition catchA :: "('w, 'a) action \<Rightarrow> (exn \<Rightarrow> ('w, 'a) action) \<Rightarrow> ('w, 'a) action" where
  "catchA m h w = (case m w of (Inl e, w') \<Rightarrow> h e w' | (Inr x, w') \<Rightarrow> (Inr x, w'))"

text \<open>
  \<open>with ... as f: m\<close>: \<open>m\<close>, then \<open>close\<close> whether \<open>m\<close> returned or raised; an
  exception of \<open>close\<close> replaces the one of \<open>m\<close>.
\<close>

definition closingA :: "('w, 'a) action \<Rightarrow> ('w, unit) action \<Rightarrow> ('w, 'a) action" where
  "closingA m close w =
     (case m w of (r, w') \<Rightarrow>
        (case close w' of (Inl e, w'') \<Rightarrow> (Inl e, w'') | (Inr _, w'') \<Rightarrow> (r, w'')))"

text \<open>\<open>for x in xs: body\<close>\<close>

fun for_each :: "('a \<Rightarrow> ('w, unit) action) \<Rightarrow> 'a list \<Rightarrow> ('w, unit) action" where
  "for_each body [] = returnA ()"
| "for_each body (x # xs) = bindA (body x) (\<lambda>_. for_each body xs)"

section \<open>Python numbers\<close>

text \<open>
  A Python float is an IEEE 754 binary64 number: a finite number with its sign and its
  magnitude (so that \<open>0.0\<close> and \<open>-0.0\<close> are two values), an infinity with its sign, or
  a NaN. The sign is \<open>True\<close> for a negative number, and the magnitude is not negative.
\<close>

datatype double = Finite bool real | Infinity bool | NaN

text \<open>
  The numbers on the calculator's stack are floats, the ints that \<open>math.ceil\<close>,
  \<open>round\<close>, ... return, and the complex numbers that \<open>a ** b\<close> returns for a negative
  base and a fractional exponent (a real and an imaginary part).
\<close>

datatype pynum = PyInt int | PyFloat double | PyComplex double double

fun is_zero :: "double \<Rightarrow> bool" where
  "is_zero (Finite s m) = (m = 0)"
| "is_zero (Infinity s) = False"
| "is_zero NaN = False"

text \<open>The test \<open>b == 0\<close>.\<close>

fun eq_zero :: "pynum \<Rightarrow> bool" where
  "eq_zero (PyInt n) = (n = 0)"
| "eq_zero (PyFloat x) = is_zero x"
| "eq_zero (PyComplex re im) = (is_zero re \<and> is_zero im)"

text \<open>
  What the interpreter does for the calculator is not code of this repository, and it
  is a parameter of the model: \<open>float_of\<close> is \<open>float(token)\<close>; \<open>operator\<close> is one of
  the operators \<open>+\<close>, \<open>-\<close>, \<open>*\<close>, \<open>/\<close> and \<open>**\<close> on two numbers; \<open>builtin\<close>
  is a function of the \<open>math\<close> module, \<open>abs\<close>, \<open>round\<close> or \<open>int\<close> on its
  arguments. Each returns a value or raises. The theorems on the evaluator that speak of
  a runtime \<open>rt\<close> hold for every runtime.
\<close>

record runtime =
  float_of :: "string \<Rightarrow> exn + pynum"
  operator :: "string \<Rightarrow> pynum \<Rightarrow> pynum \<Rightarrow> exn + pynum"
  builtin :: "string \<Rightarrow> pynum list \<Rightarrow> exn + pynum"

subsection \<open>Floating-point arithmetic\<close>

text \<open>
  CPython computes \<open>+\<close>, \<open>-\<close>, \<open>*\<close> and \<open>/\<close> on two floats with the operations of
  the machine on binary64 numbers, and reads a decimal literal as the binary64 number
  nearest to it: the result is the exact result rounded to the nearest number of the
  format, to the one with an even significand in a tie.

  \<open>round_half_even x\<close> is the integer nearest to \<open>x\<close>, the even one in a tie.
\<close>

definition round_half_even :: "real \<Rightarrow> int" where
  "round_half_even x =
     (let n = \<lfloor>x\<rfloor>; d = x - of_int n
      in if d < 1 / 2 then n else if 1 / 2 < d then n + 1 else if even n then n else n + 1)"

text \<open>
  The binade of \<open>x > 0\<close> is the integer \<open>k\<close> with \<open>2 ^ k \<le> x < 2 ^ (k + 1)\<close>, found by
  halving a number from 1 on and by doubling a number below 1.
\<close>

function log2_ge1 :: "real \<Rightarrow> nat" where
  "log2_ge1 x = (if x < 2 then 0 else Suc (log2_ge1 (x / 2)))"
  by pat_completeness auto
termination
proof (relation "measure (\<lambda>x. nat \<lfloor>x\<rfloor>)")
  fix x :: real
  assume "\<not> x < 2"
  then have "\<lfloor>x / 2\<rfloor> < \<lfloor>x\<rfloor>" and "0 < \<lfloor>x\<rfloor>"
    by linarith+
  then show "(x / 2, x) \<in> measure (\<lambda>x. nat \<lfloor>x\<rfloor>)"
    by simp
qed simp

function log2_lt1 :: "real \<Rightarrow> nat" where
  "log2_lt1 x = (if x \<le> 0 \<or> 1 \<le> x then 0 else Suc (log2_lt1 (2 * x)))"
  by pat_completeness auto
termination
proof (relation "measure (\<lambda>x. nat \<lceil>1 / x\<rceil>)")
  fix x :: real
  assume "\<not> (x \<le> 0 \<or> 1 \<le> x)"
  have half: "\<lceil>y / 2\<rceil> < \<lceil>y\<rceil>" if "1 < y" for y :: real
  proof -
    from that have "2 \<le> \<lceil>y\<rceil>"
      by linarith
    then have "(2 :: real) \<le> of_int \<lceil>y\<rceil>"
      by linarith
    then have "y / 2 \<le> of_int \<lceil>y\<rceil> - 1"
      using le_of_int_ceiling [of y] by linarith
    then have "y / 2 \<le> of_int (\<lceil>y\<rceil> - 1)"
      by simp
    then have "\<lceil>y / 2\<rceil> \<le> \<lceil>y\<rceil> - 1"
      by (rule ceiling_le)
    then show ?thesis
      by simp
  qed
  from \<open>\<not> (x \<le> 0 \<or> 1 \<le> x)\<close> have "1 < 1 / x"
    by simp
  from half [OF this] have "\<lceil>1 / (2 * x)\<rceil> < \<lceil>1 / x\<rceil>"
    by (simp add: mult.commute)
  moreover have "0 < \<lceil>1 / x\<rceil>"
    using \<open>1 < 1 / x\<close> by linarith
  ultimately show "(2 * x, x) \<in> measure (\<lambda>x. nat \<lceil>1 / x\<rceil>)"
    by simp
qed simp

declare log2_ge1.simps [simp del] log2_lt1.simps [simp del]

definition binade :: "real \<Rightarrow> int" where
  "binade x = (if 1 \<le> x then int (log2_ge1 x) else - int (log2_lt1 x))"

text \<open>
  The binary64 number nearest to \<open>x \<ge> 0\<close>, before the test for overflow. The numbers
  of the format in the binade \<open>k\<close> are the multiples of \<open>2 ^ (k - 52)\<close> (a significand of
  53 bits), and the multiples of \<open>2 ^ (- 1074)\<close> below \<open>2 ^ (- 1022)\<close> (the subnormal
  numbers).
\<close>

definition nearest :: "real \<Rightarrow> real" where
  "nearest x =
     (if x = 0 then 0
      else let e = max (binade x - 52) (- 1074)
           in of_int (round_half_even (x * 2 powi (- e))) * 2 powi e)"

text \<open>
  The float of the sign \<open>s\<close> and the magnitude nearest to \<open>x \<ge> 0\<close>: a rounded
  magnitude of \<open>2 ^ 1024\<close> is beyond the largest number of the format and gives the
  infinity.
\<close>

definition to_double :: "bool \<Rightarrow> real \<Rightarrow> double" where
  "to_double s x = (let y = nearest x in if 2 ^ 1024 \<le> y then Infinity s else Finite s y)"

text \<open>
  The float nearest to the real number \<open>r\<close>; \<open>zero_sign\<close> is the sign of the result
  when \<open>r\<close> is zero.
\<close>

definition double_of_real :: "bool \<Rightarrow> real \<Rightarrow> double" where
  "double_of_real zero_sign r =
     (if r = 0 then Finite zero_sign 0 else to_double (r < 0) \<bar>r\<bar>)"

fun signed :: "bool \<Rightarrow> real \<Rightarrow> real" where
  "signed s m = (if s then - m else m)"

fun magnitude :: "double \<Rightarrow> real" where
  "magnitude (Finite s m) = m"
| "magnitude (Infinity s) = 0"
| "magnitude NaN = 0"

fun double_neg :: "double \<Rightarrow> double" where
  "double_neg (Finite s m) = Finite (\<not> s) m"
| "double_neg (Infinity s) = Infinity (\<not> s)"
| "double_neg NaN = NaN"

text \<open>
  \<open>a + b\<close>: a sum that is exactly zero is \<open>-0.0\<close> when both numbers are negative
  (zeros) and \<open>0.0\<close> otherwise; the sum of the two infinities of opposite signs is a NaN.
\<close>

fun double_add :: "double \<Rightarrow> double \<Rightarrow> double" where
  "double_add (Finite s a) (Finite t b) = double_of_real (s \<and> t) (signed s a + signed t b)"
| "double_add (Finite s a) (Infinity t) = Infinity t"
| "double_add (Infinity s) (Finite t b) = Infinity s"
| "double_add (Infinity s) (Infinity t) = (if s = t then Infinity s else NaN)"
| "double_add NaN y = NaN"
| "double_add x NaN = NaN"

definition double_sub :: "double \<Rightarrow> double \<Rightarrow> double" where
  "double_sub x y = double_add x (double_neg y)"

text \<open>\<open>a * b\<close>: the sign is the product of the signs; infinity times zero is a NaN.\<close>

fun double_mul :: "double \<Rightarrow> double \<Rightarrow> double" where
  "double_mul (Finite s a) (Finite t b) = to_double (s \<noteq> t) (a * b)"
| "double_mul (Finite s a) (Infinity t) = (if a = 0 then NaN else Infinity (s \<noteq> t))"
| "double_mul (Infinity s) (Finite t b) = (if b = 0 then NaN else Infinity (s \<noteq> t))"
| "double_mul (Infinity s) (Infinity t) = Infinity (s \<noteq> t)"
| "double_mul NaN y = NaN"
| "double_mul x NaN = NaN"

text \<open>
  \<open>a / b\<close> of the format. Python raises \<open>ZeroDivisionError\<close> for a divisor that is
  zero and never computes the quotient then; the lines for it are those of the format.
\<close>

fun double_div :: "double \<Rightarrow> double \<Rightarrow> double" where
  "double_div (Finite s a) (Finite t b) =
     (if b = 0 then (if a = 0 then NaN else Infinity (s \<noteq> t))
      else to_double (s \<noteq> t) (a / b))"
| "double_div (Finite s a) (Infinity t) = Finite (s \<noteq> t) 0"
| "double_div (Infinity s) (Finite t b) = Infinity (s \<noteq> t)"
| "double_div (Infinity s) (Infinity t) = NaN"
| "double_div NaN y = NaN"
| "double_div x NaN = NaN"

section \<open>WebCalculator: the expression evaluator\<close>

subsection \<open>Strings\<close>

definition is_digit :: "char \<Rightarrow> bool" where
  "is_digit c = (c \<in> set ''0123456789'')"

definition is_lower :: "char \<Rightarrow> bool" where
  "is_lower c = (c \<in> set ''abcdefghijklmnopqrstuvwxyz'')"

text \<open>\<open>str.lower\<close> on ASCII text.\<close>

definition lower_char :: "char \<Rightarrow> char" where
  "lower_char c =
     (case map_of (zip ''ABCDEFGHIJKLMNOPQRSTUVWXYZ'' ''abcdefghijklmnopqrstuvwxyz'') c of
        Some l \<Rightarrow> l
      | None \<Rightarrow> c)"

definition lower :: "string \<Rightarrow> string" where
  "lower s = map lower_char s"

text \<open>
  \<open>s.replace(old, new)\<close>: the occurrences of \<open>old\<close> are found from left to right
  and do not overlap. An empty \<open>old\<close> matches before every character and at the end.
\<close>

fun replace_nonempty :: "string \<Rightarrow> string \<Rightarrow> string \<Rightarrow> string" where
  "replace_nonempty [] old new = []"
| "replace_nonempty (c # cs) old new =
     (if take (length old) (c # cs) = old
      then new @ replace_nonempty (drop (length old - 1) cs) old new
      else c # replace_nonempty cs old new)"

definition replace :: "string \<Rightarrow> string \<Rightarrow> string \<Rightarrow> string" where
  "replace s old new =
     (if old = [] then new @ concat (map (\<lambda>c. c # new) s)
      else replace_nonempty s old new)"

subsection \<open>Tokens\<close>

text \<open>
  \<open>re.search(r'[^0-9+\-*/^().a-z]', expression)\<close> finds a character outside the
  class; \<open>valid_char\<close> is membership in the class.
\<close>

definition valid_char :: "char \<Rightarrow> bool" where
  "valid_char c = (is_digit c \<or> c \<in> set ''+-*/^().'' \<or> is_lower c)"

text \<open>
  The match of \<open>\d+\.?\d*\<close> at the start of a string that starts with a digit: the
  digits, one dot when it follows, the digits after it. The result is the token and the
  rest of the string.
\<close>

definition lex_number :: "string \<Rightarrow> string \<times> string" where
  "lex_number s =
     (let ds = takeWhile is_digit s;
          r1 = dropWhile is_digit s;
          dot = (case r1 of [] \<Rightarrow> [] | c # _ \<Rightarrow> if c = CHR ''.'' then [c] else []);
          r2 = drop (length dot) r1
      in (ds @ dot @ takeWhile is_digit r2, dropWhile is_digit r2))"

text \<open>
  \<open>re.findall(r'(\d+\.?\d*|\+|\-|\*|/|\^|\(|\)|[a-z]+)', expression)\<close>: the matches from
  left to right, the alternatives tried in their order at each position; a character at
  which no alternative matches is skipped.
\<close>

function findall_tokens :: "string \<Rightarrow> string list" where
  "findall_tokens [] = []"
| "findall_tokens (c # cs) =
     (if is_digit c then fst (lex_number (c # cs)) # findall_tokens (snd (lex_number (c # cs)))
      else if c \<in> set ''+-*/^()'' then [c] # findall_tokens cs
      else if is_lower c
        then takeWhile is_lower (c # cs) # findall_tokens (dropWhile is_lower cs)
      else findall_tokens cs)"
  by pat_completeness auto
termination
proof (relation "measure length")
  fix c :: char and cs :: string
  assume "is_digit c"
  have "length (dropWhile is_digit (drop n r)) \<le> length r" for n and r :: string
    by (rule order_trans [OF length_dropWhile_le]) simp
  then have "length (snd (lex_number (c # cs))) \<le> length (dropWhile is_digit (c # cs))"
    by (simp add: lex_number_def Let_def)
  also have "\<dots> \<le> length cs"
    using \<open>is_digit c\<close> by (simp add: length_dropWhile_le)
  finally show "(snd (lex_number (c # cs)), c # cs) \<in> measure length"
    by simp
next
  fix c :: char and cs :: string
  show "(dropWhile is_lower cs, c # cs) \<in> measure length"
    by (simp add: length_dropWhile_le le_imp_less_Suc)
qed simp_all

text \<open>\<open>token.replace('.', '').isdigit()\<close>\<close>

definition is_number_token :: "string \<Rightarrow> bool" where
  "is_number_token token =
     (let t = replace token ''.'' [] in t \<noteq> [] \<and> list_all is_digit t)"

subsection \<open>Infix to reverse Polish notation\<close>

definition precedence :: "string \<rightharpoonup> nat" where
  "precedence = map_of [(''+'', 1), (''-'', 1), (''*'', 2), (''/'', 2), (''^'', 3)]"

definition get_supported_functions :: "string list" where
  "get_supported_functions =
     [''sin'', ''cos'', ''tan'', ''asin'', ''acos'', ''atan'', ''sinh'', ''cosh'', ''tanh'',
      ''log'', ''log10'', ''exp'', ''sqrt'', ''abs'', ''ceil'', ''floor'', ''round'',
      ''factorial'', ''degrees'', ''radians'']"

text \<open>
  The operator stack is a list whose head is the top (\<open>operators[-1]\<close>); the output
  grows at its end.

  \<open>while operators and operators[-1] != '(': output.append(operators.pop())\<close>
\<close>

fun pop_to_paren :: "string list \<Rightarrow> string list \<Rightarrow> string list \<times> string list" where
  "pop_to_paren output [] = (output, [])"
| "pop_to_paren output (tp # operators) =
     (if tp \<noteq> ''('' then pop_to_paren (output @ [tp]) operators
      else (output, tp # operators))"

text \<open>
  \<open>while (operators and operators[-1] != '(' and
          precedence.get(operators[-1], 0) >= precedence[token]): output.append(operators.pop())\<close>,
  with \<open>p\<close> for \<open>precedence[token]\<close>.
\<close>

fun pop_higher :: "nat \<Rightarrow> string list \<Rightarrow> string list \<Rightarrow> string list \<times> string list" where
  "pop_higher p output [] = (output, [])"
| "pop_higher p output (tp # operators) =
     (if tp \<noteq> ''('' \<and> (case precedence tp of None \<Rightarrow> 0 | Some q \<Rightarrow> q) \<ge> p
      then pop_higher p (output @ [tp]) operators
      else (output, tp # operators))"

text \<open>
  The body of \<open>for token in tokens\<close>, on the pair of the output and the operator
  stack. \<open>operators.pop()\<close> on an empty stack raises \<open>IndexError\<close>. A token that is
  none of the five kinds is dropped.
\<close>

definition shunt :: "string \<Rightarrow> string list \<times> string list \<Rightarrow> exn + string list \<times> string list" where
  "shunt token st =
     (case st of (output, operators) \<Rightarrow>
        if is_number_token token then Inr (output @ [token], operators)
        else if token \<in> set get_supported_functions then Inr (output, token # operators)
        else if token = ''('' then Inr (output, token # operators)
        else if token = '')'' then
          (case pop_to_paren output operators of
             (output', []) \<Rightarrow> Inl (IndexError ''pop from empty list'')
           | (output', _ # operators') \<Rightarrow> Inr (output', operators'))
        else
          (case precedence token of
             Some p \<Rightarrow>
               (case pop_higher p output operators of
                  (output', operators') \<Rightarrow> Inr (output', token # operators'))
           | None \<Rightarrow> Inr (output, operators)))"

fun shunt_all :: "string list \<Rightarrow> string list \<times> string list \<Rightarrow> exn + string list \<times> string list" where
  "shunt_all [] st = Inr st"
| "shunt_all (token # tokens) st =
     (case shunt token st of Inl e \<Rightarrow> Inl e | Inr st' \<Rightarrow> shunt_all tokens st')"

text \<open>
  After the loop, \<open>while operators: output.append(operators.pop())\<close> moves the stack
  to the output from its top.
\<close>

definition infix_to_rpn :: "string list \<Rightarrow> exn + string list" where
  "infix_to_rpn tokens =
     (case shunt_all tokens ([], []) of
        Inl e \<Rightarrow> Inl e
      | Inr (output, operators) \<Rightarrow> Inr (output @ operators))"

subsection \<open>Evaluation of reverse Polish notation\<close>

text \<open>
  \<open>_get_function_args\<close>: the arguments are popped from the stack and put back in the
  order they were pushed. The evaluation stack is a list whose head is the top.
\<close>

definition get_function_args :: "string \<Rightarrow> pynum list \<Rightarrow> exn + pynum list \<times> pynum list" where
  "get_function_args func stack =
     (let args_count = (if func = ''log'' then 2 else 1 :: nat)
      in if length stack < args_count
         then Inl (ValueError (''Not enough arguments for '' @ func))
         else Inr (rev (take args_count stack), drop args_count stack))"

text \<open>\<open>args[i]\<close>\<close>

definition arg :: "pynum list \<Rightarrow> nat \<Rightarrow> exn + pynum" where
  "arg args i = (if i < length args then Inr (args ! i) else Inl (IndexError ''list index out of range''))"

text \<open>A call \<open>f(args[0])\<close> of a function of the runtime.\<close>

definition call1 :: "runtime \<Rightarrow> string \<Rightarrow> pynum list \<Rightarrow> exn + pynum" where
  "call1 rt f args = bindE (arg args 0) (\<lambda>x. builtin rt f [x])"

text \<open>
  \<open>_apply_function\<close>: the chain of comparisons of the source, inside the
  \<open>try\<close> whose handler turns every exception into a \<open>ValueError\<close>.
\<close>

definition apply_function :: "runtime \<Rightarrow> string \<Rightarrow> pynum list \<Rightarrow> exn + pynum" where
  "apply_function rt func args =
     (case (if func = ''sin'' then call1 rt ''math.sin'' args
            else if func = ''cos'' then call1 rt ''math.cos'' args
            else if func = ''tan'' then call1 rt ''math.tan'' args
            else if func = ''asin'' then call1 rt ''math.asin'' args
            else if func = ''acos'' then call1 rt ''math.acos'' args
            else if func = ''atan'' then call1 rt ''math.atan'' args
            else if func = ''sinh'' then call1 rt ''math.sinh'' args
            else if func = ''cosh'' then call1 rt ''math.cosh'' args
            else if func = ''tanh'' then call1 rt ''math.tanh'' args
            else if func = ''log'' then
              bindE (arg args 1) (\<lambda>x. bindE (arg args 0) (\<lambda>base. builtin rt ''math.log'' [x, base]))
            else if func = ''log10'' then call1 rt ''math.log10'' args
            else if func = ''exp'' then call1 rt ''math.exp'' args
            else if func = ''sqrt'' then call1 rt ''math.sqrt'' args
            else if func = ''abs'' then call1 rt ''abs'' args
            else if func = ''ceil'' then call1 rt ''math.ceil'' args
            else if func = ''floor'' then call1 rt ''math.floor'' args
            else if func = ''round'' then call1 rt ''round'' args
            else if func = ''factorial'' then
              bindE (call1 rt ''int'' args) (\<lambda>n. builtin rt ''math.factorial'' [n])
            else if func = ''degrees'' then call1 rt ''math.degrees'' args
            else if func = ''radians'' then call1 rt ''math.radians'' args
            else Inl (ValueError (''Unsupported function: '' @ func))) of
        Inl e \<Rightarrow> Inl (ValueError (''Error in function '' @ func @ '': '' @ str_exn e))
      | Inr v \<Rightarrow> Inr v)"

text \<open>\<open>stack.append(a op b)\<close>\<close>

definition push_result :: "runtime \<Rightarrow> string \<Rightarrow> pynum \<Rightarrow> pynum \<Rightarrow> pynum list \<Rightarrow> exn + pynum list" where
  "push_result rt op a b stack = bindE (operator rt op a b) (\<lambda>r. Inr (r # stack))"

text \<open>
  The body of \<open>for token in rpn\<close>. \<open>b, a = stack.pop(), stack.pop()\<close> raises
  \<open>IndexError\<close> on a stack of fewer than two values. A token that is no number, no
  supported function and no operator is dropped.
\<close>

definition rpn_step :: "runtime \<Rightarrow> string \<Rightarrow> pynum list \<Rightarrow> exn + pynum list" where
  "rpn_step rt token stack =
     (if is_number_token token then bindE (float_of rt token) (\<lambda>v. Inr (v # stack))
      else if token \<in> set get_supported_functions then
        bindE (get_function_args token stack) (\<lambda>(args, stack').
          bindE (apply_function rt token args) (\<lambda>result. Inr (result # stack')))
      else if token \<in> {''+'', ''-'', ''*'', ''/'', ''^''} then
        (case stack of
           b # a # stack' \<Rightarrow>
             if token = ''+'' then push_result rt ''+'' a b stack'
             else if token = ''-'' then push_result rt ''-'' a b stack'
             else if token = ''*'' then push_result rt ''*'' a b stack'
             else if token = ''/'' then
               (if eq_zero b then Inl (ValueError ''Division by zero'')
                else push_result rt ''/'' a b stack')
             else push_result rt ''**'' a b stack'
         | _ \<Rightarrow> Inl (IndexError ''pop from empty list''))
      else Inr stack)"

fun rpn_loop :: "runtime \<Rightarrow> string list \<Rightarrow> pynum list \<Rightarrow> exn + pynum list" where
  "rpn_loop rt [] stack = Inr stack"
| "rpn_loop rt (token # rpn) stack =
     (case rpn_step rt token stack of Inl e \<Rightarrow> Inl e | Inr stack' \<Rightarrow> rpn_loop rt rpn stack')"

definition evaluate_rpn :: "runtime \<Rightarrow> string list \<Rightarrow> exn + pynum" where
  "evaluate_rpn rt rpn =
     (case rpn_loop rt rpn [] of
        Inl e \<Rightarrow> Inl e
      | Inr stack \<Rightarrow>
          (case stack of [v] \<Rightarrow> Inr v | _ \<Rightarrow> Inl (ValueError ''Invalid expression'')))"

subsection \<open>The evaluator\<close>

text \<open>
  \<open>_safe_eval\<close> up to the conversion: the blanks removed and the text in lower case,
  the check of the characters, the tokens, the reverse Polish notation.
\<close>

definition expression_rpn :: "string \<Rightarrow> exn + string list" where
  "expression_rpn expression =
     (let expression' = lower (replace expression '' '' [])
      in if \<exists>c \<in> set expression'. \<not> valid_char c
         then Inl (ValueError ''Invalid characters in expression'')
         else infix_to_rpn (findall_tokens expression'))"

definition safe_eval :: "runtime \<Rightarrow> string \<Rightarrow> exn + pynum" where
  "safe_eval rt expression = bindE (expression_rpn expression) (evaluate_rpn rt)"

text \<open>
  The calculator object. \<open>constants\<close> is the dictionary in insertion order, each value
  in the form \<open>str(value)\<close> prints it in, which is all \<open>evaluate\<close> reads of it. A
  line \<open>f"{expression} = {result}"\<close> of the history is kept as the pair it is built from.
\<close>

record web_calculator =
  memory :: pynum
  history :: "(string \<times> pynum) list"
  constants :: "(string \<times> string) list"

definition init :: web_calculator where
  "init = \<lparr> memory = PyInt 0, history = [],
            constants = [(''pi'', ''3.141592653589793''), (''e'', ''2.718281828459045''),
                         (''phi'', ''1.618033988749895''), (''c'', ''299792458''),
                         (''g'', ''9.80665'')] \<rparr>"

text \<open>
  \<open>for const, value in self.constants.items():
      expression = expression.replace(const, str(value))\<close>
\<close>

definition substitute_constants :: "(string \<times> string) list \<Rightarrow> string \<Rightarrow> string" where
  "substitute_constants cs expression =
     foldl (\<lambda>e (const, value). replace e const value) expression cs"

text \<open>
  \<open>evaluate\<close> returns the result or, for every exception, the text
  \<open>f"Error: {str(e)}"\<close> (\<open>Inl\<close>), and the calculator with its history.
\<close>

definition evaluate :: "runtime \<Rightarrow> web_calculator \<Rightarrow> string \<Rightarrow> (string + pynum) \<times> web_calculator" where
  "evaluate rt self expression =
     (let expression' = substitute_constants (constants self) expression
      in case safe_eval rt expression' of
           Inr result \<Rightarrow>
             (Inr result, self\<lparr>history := history self @ [(expression', result)]\<rparr>)
         | Inl e \<Rightarrow> (Inl (''Error: '' @ str_exn e), self))"

subsection \<open>The interpreter on floats\<close>

text \<open>
  \<open>float(token)\<close>, on the tokens it is called with: digits and dots, with a digit.
  Such a token is a float literal when it has at most one dot, and its value is the
  float nearest to the decimal number it writes.
\<close>

definition digit_val :: "char \<Rightarrow> nat" where
  "digit_val c = of_char c - 48"

definition digits_val :: "string \<Rightarrow> nat" where
  "digits_val ds = foldl (\<lambda>n c. 10 * n + digit_val c) 0 ds"

text \<open>The decimal number that a token of digits with at most one dot writes.\<close>

definition decimal :: "string \<Rightarrow> real" where
  "decimal token =
     (let ip = takeWhile (\<lambda>c. c \<noteq> CHR ''.'') token;
          fp = drop 1 (dropWhile (\<lambda>c. c \<noteq> CHR ''.'') token)
      in real (digits_val ip) + real (digits_val fp) / 10 ^ length fp)"

definition py_float :: "string \<Rightarrow> exn + pynum" where
  "py_float token =
     (if is_number_token token \<and> length (filter (\<lambda>c. c = CHR ''.'') token) \<le> 1
      then Inr (PyFloat (to_double False (decimal token)))
      else Inl (ValueError (''could not convert string to float: ''
                  @ [CHR 0x27] @ token @ [CHR 0x27])))"

text \<open>
  An operator on two floats: \<open>+\<close>, \<open>-\<close> and \<open>*\<close> never raise, and \<open>/\<close> raises
  \<open>ZeroDivisionError\<close> for a divisor that is zero.
\<close>

definition float_operator :: "string \<Rightarrow> double \<Rightarrow> double \<Rightarrow> exn + pynum" where
  "float_operator op x y =
     (if op = ''+'' then Inr (PyFloat (double_add x y))
      else if op = ''-'' then Inr (PyFloat (double_sub x y))
      else if op = ''*'' then Inr (PyFloat (double_mul x y))
      else if is_zero y then Inl (ZeroDivisionError ''float division by zero'')
      else Inr (PyFloat (double_div x y)))"

text \<open>
  The interpreter as far as this model has it: \<open>float\<close>, and the four arithmetic
  operators on two floats. The operators on an int or a complex number, the operator
  \<open>**\<close> and the functions of the library are left to the parameter \<open>library\<close>.
\<close>

definition python :: "(string \<Rightarrow> pynum list \<Rightarrow> exn + pynum) \<Rightarrow> runtime" where
  "python library =
     \<lparr> float_of = py_float,
       operator = (\<lambda>op a b.
         case (a, b) of
           (PyFloat x, PyFloat y) \<Rightarrow>
             if op \<in> {''+'', ''-'', ''*'', ''/''} then float_operator op x y
             else library op [a, b]
         | _ \<Rightarrow> library op [a, b]),
       builtin = library \<rparr>"

subsection \<open>Unit conversion\<close>

text \<open>
  The three tables of \<open>convert_units\<close>. A factor written as a float literal is the
  float nearest to the decimal number; a factor written as an int (\<open>1\<close>,
  \<open>1000\<close>) is converted to the float of the same value when it is multiplied with a
  float or divides one.
\<close>

definition float_literal :: "real \<Rightarrow> double" where
  "float_literal r = to_double False r"

definition length_units :: "string \<rightharpoonup> double" where
  "length_units = map_of
     [(''m'', float_literal 1), (''km'', float_literal 1000), (''cm'', float_literal 0.01),
      (''mm'', float_literal 0.001), (''in'', float_literal 0.0254),
      (''ft'', float_literal 0.3048), (''yd'', float_literal 0.9144),
      (''mi'', float_literal 1609.344)]"

definition weight_units :: "string \<rightharpoonup> double" where
  "weight_units = map_of
     [(''kg'', float_literal 1), (''g'', float_literal 0.001), (''mg'', float_literal 0.000001),
      (''lb'', float_literal 0.45359237), (''oz'', float_literal 0.028349523125)]"

definition volume_units :: "string \<rightharpoonup> double" where
  "volume_units = map_of
     [(''l'', float_literal 1), (''ml'', float_literal 0.001), (''gal'', float_literal 3.78541),
      (''qt'', float_literal 0.946353), (''pt'', float_literal 0.473176),
      (''cup'', float_literal 0.236588), (''floz'', float_literal 0.0295735)]"

text \<open>
  \<open>base_value = value * category[from_unit]; converted_value = base_value / category[to_unit]\<close>,
  for a value that is a float, as the signature has it.
\<close>

definition convert_in :: "(string \<rightharpoonup> double) \<Rightarrow> double \<Rightarrow> string \<Rightarrow> string \<Rightarrow> exn + double" where
  "convert_in category v from_unit to_unit =
     (case category from_unit of
        None \<Rightarrow> Inl (KeyError from_unit)
      | Some f \<Rightarrow>
          (let base_value = double_mul v f in
           case category to_unit of
             None \<Rightarrow> Inl (KeyError to_unit)
           | Some t \<Rightarrow>
               if is_zero t then Inl (ZeroDivisionError ''float division by zero'')
               else Inr (double_div base_value t)))"

definition convert_units :: "double \<Rightarrow> string \<Rightarrow> string \<Rightarrow> exn + double" where
  "convert_units v from_unit to_unit =
     (if from_unit \<in> dom length_units \<and> to_unit \<in> dom length_units
        then convert_in length_units v from_unit to_unit
      else if from_unit \<in> dom weight_units \<and> to_unit \<in> dom weight_units
        then convert_in weight_units v from_unit to_unit
      else if from_unit \<in> dom volume_units \<and> to_unit \<in> dom volume_units
        then convert_in volume_units v from_unit to_unit
      else Inl (ValueError ''Unsupported or incompatible units''))"

section \<open>AluminumHistoryRemover\<close>

subsection \<open>The operating system\<close>

text \<open>
  A path is the list of its components. The calls the class makes to the operating
  system (through \<open>os\<close>, \<open>shutil\<close>, \<open>pathlib\<close>, \<open>open\<close> and \<open>sqlite3\<close>) are:
\<close>

type_synonym path = "string list"

datatype call =
    Makedirs path bool
  | Copy2 path path
  | PathExists path
  | OpenWB path
  | StatSize path
  | Urandom nat
  | FileWrite path string
  | FileClose path
  | OsRemove path
  | IsFile path
  | IsDir path
  | Rmtree path
  | SqliteConnect path
  | SqliteExecute path string
  | SqliteClose path

text \<open>
  The operating system is a parameter of the model. Its state has any type \<open>'s\<close>;
  every call returns a value or raises, and leaves a new state. Nothing is assumed of
  it: a call may fail in any state, with any exception. \<open>os_name\<close> is \<open>os.name\<close>
  and \<open>sysname\<close> is \<open>os.uname().sysname\<close>.
\<close>

record 's os =
  os_name :: string
  sysname :: string
  makedirs :: "path \<Rightarrow> bool \<Rightarrow> 's \<Rightarrow> (exn + unit) \<times> 's"
  copy2 :: "path \<Rightarrow> path \<Rightarrow> 's \<Rightarrow> (exn + unit) \<times> 's"
  path_exists :: "path \<Rightarrow> 's \<Rightarrow> (exn + bool) \<times> 's"
  open_wb :: "path \<Rightarrow> 's \<Rightarrow> (exn + unit) \<times> 's"
  stat_size :: "path \<Rightarrow> 's \<Rightarrow> (exn + nat) \<times> 's"
  urandom :: "nat \<Rightarrow> 's \<Rightarrow> (exn + string) \<times> 's"
  file_write :: "path \<Rightarrow> string \<Rightarrow> 's \<Rightarrow> (exn + unit) \<times> 's"
  file_close :: "path \<Rightarrow> 's \<Rightarrow> (exn + unit) \<times> 's"
  os_remove :: "path \<Rightarrow> 's \<Rightarrow> (exn + unit) \<times> 's"
  is_file :: "path \<Rightarrow> 's \<Rightarrow> (exn + bool) \<times> 's"
  is_dir :: "path \<Rightarrow> 's \<Rightarrow> (exn + bool) \<times> 's"
  rmtree :: "path \<Rightarrow> 's \<Rightarrow> (exn + unit) \<times> 's"
  sqlite_connect :: "path \<Rightarrow> 's \<Rightarrow> (exn + unit) \<times> 's"
  sqlite_execute :: "path \<Rightarrow> string \<Rightarrow> 's \<Rightarrow> (exn + unit) \<times> 's"
  sqlite_close :: "path \<Rightarrow> 's \<Rightarrow> (exn + unit) \<times> 's"

text \<open>
  The world a method runs in: the state of the operating system, and the calls made so
  far, each with \<open>True\<close> when it returned and \<open>False\<close> when it raised.
\<close>

record 's world =
  sys :: 's
  calls :: "(call \<times> bool) list"

text \<open>A call to the operating system, recorded.\<close>

definition sys_call :: "call \<Rightarrow> ('s \<Rightarrow> (exn + 'a) \<times> 's) \<Rightarrow> ('s world, 'a) action" where
  "sys_call c f w =
     (case f (sys w) of (r, s') \<Rightarrow>
        (r, \<lparr> sys = s', calls = calls w @ [(c, case r of Inl _ \<Rightarrow> False | Inr _ \<Rightarrow> True)] \<rparr>))"

subsection \<open>The class\<close>

record remover =
  browser_name :: string
  history_locations :: "(string \<times> path) list"
  backup_dir :: path

text \<open>
  \<open>__init__\<close>, given the directory \<open>LOCALAPPDATA\<close> names, the home directory and the
  digits of \<open>int(time.time())\<close>.
\<close>

definition remover_init :: "path \<Rightarrow> path \<Rightarrow> string \<Rightarrow> remover" where
  "remover_init localappdata home now =
     \<lparr> browser_name = ''Aluminum'',
       history_locations =
         [(''windows'', localappdata @ [''Aluminum'', ''User Data'', ''Default'', ''History'']),
          (''macos'', home @ [''Library'', ''Application Support'', ''Aluminum'', ''Default'',
                              ''History'']),
          (''linux'', home @ [''.config'', ''aluminum'', ''Default'', ''History''])],
       backup_dir = home @ [''Aluminum_History_Backup_'' @ now] \<rparr>"

definition determine_os :: "'s os \<Rightarrow> exn + string" where
  "determine_os os =
     (if os_name os = ''nt'' then Inr ''windows''
      else if os_name os = ''posix'' then
        (if lower (sysname os) = ''darwin'' then Inr ''macos'' else Inr ''linux'')
      else Inl (OSError ''Unsupported operating system''))"

text \<open>\<open>path.parent\<close> and \<open>path.name\<close>\<close>

definition parent :: "path \<Rightarrow> path" where
  "parent p = butlast p"

definition name :: "path \<Rightarrow> path" where
  "name p = (if p = [] then [] else [last p])"

text \<open>
  \<open>create_backup\<close>: the handler logs and raises the exception again, so the method
  raises what its body raises.
\<close>

definition create_backup :: "'s os \<Rightarrow> remover \<Rightarrow> path \<Rightarrow> ('s world, unit) action" where
  "create_backup os self history_path =
     catchA
       (bindA (sys_call (Makedirs (backup_dir self) True) (makedirs os (backup_dir self) True))
          (\<lambda>_. sys_call (Copy2 history_path (backup_dir self))
                  (copy2 os history_path (backup_dir self))))
       (\<lambda>e w. (Inl e, w))"

text \<open>
  \<open>remove_history_file\<close>. In
  \<open>with open(history_path, "wb") as f: f.write(os.urandom(history_path.stat().st_size))\<close>
  the file is opened first, then its size is read, then the random bytes are drawn and
  written.
\<close>

definition remove_history_file :: "'s os \<Rightarrow> path \<Rightarrow> ('s world, unit) action" where
  "remove_history_file os history_path =
     catchA
       (bindA (sys_call (PathExists history_path) (path_exists os history_path)) (\<lambda>found.
          if found then
            bindA (sys_call (OpenWB history_path) (open_wb os history_path)) (\<lambda>_.
            bindA (closingA
                     (bindA (sys_call (StatSize history_path) (stat_size os history_path)) (\<lambda>n.
                      bindA (sys_call (Urandom n) (urandom os n)) (\<lambda>bytes.
                      sys_call (FileWrite history_path bytes) (file_write os history_path bytes))))
                     (sys_call (FileClose history_path) (file_close os history_path))) (\<lambda>_.
            sys_call (OsRemove history_path) (os_remove os history_path)))
          else returnA ()))
       (\<lambda>e w. (Inl e, w))"

text \<open>
  \<open>clear_related_files\<close>: one round of the loop, whose handler logs the exception
  and goes on, and the loop over the six paths.
\<close>

definition clear_related :: "'s os \<Rightarrow> path \<Rightarrow> ('s world, unit) action" where
  "clear_related os p =
     catchA
       (bindA (sys_call (IsFile p) (is_file os p)) (\<lambda>file.
          if file then remove_history_file os p
          else bindA (sys_call (IsDir p) (is_dir os p)) (\<lambda>dir.
            if dir then sys_call (Rmtree p) (rmtree os p) else returnA ())))
       (\<lambda>e. returnA ())"

definition related_paths :: "path \<Rightarrow> path list" where
  "related_paths base_path =
     [parent base_path @ [''History-journal''], parent base_path @ [''Visited Links''],
      parent base_path @ [''Top Sites''], parent base_path @ [''Shortcuts''],
      parent base_path @ [''Login Data''], parent base_path @ [''Web Data'']]"

definition clear_related_files :: "'s os \<Rightarrow> path \<Rightarrow> ('s world, unit) action" where
  "clear_related_files os base_path = for_each (clear_related os) (related_paths base_path)"

definition vacuum_database :: "'s os \<Rightarrow> path \<Rightarrow> ('s world, unit) action" where
  "vacuum_database os db_path =
     catchA
       (bindA (sys_call (SqliteConnect db_path) (sqlite_connect os db_path)) (\<lambda>_.
        bindA (sys_call (SqliteExecute db_path ''VACUUM'') (sqlite_execute os db_path ''VACUUM''))
          (\<lambda>_. sys_call (SqliteClose db_path) (sqlite_close os db_path))))
       (\<lambda>e. returnA ())"

definition clear_cache :: "'s os \<Rightarrow> path \<Rightarrow> ('s world, unit) action" where
  "clear_cache os cache_dir =
     catchA
       (bindA (sys_call (PathExists cache_dir) (path_exists os cache_dir)) (\<lambda>found.
          if found then
            bindA (sys_call (Rmtree cache_dir) (rmtree os cache_dir)) (\<lambda>_.
            sys_call (Makedirs cache_dir False) (makedirs os cache_dir False))
          else returnA ()))
       (\<lambda>e. returnA ())"

definition restore_backup :: "'s os \<Rightarrow> remover \<Rightarrow> path \<Rightarrow> ('s world, unit) action" where
  "restore_backup os self history_path =
     catchA
       (let backup_file = backup_dir self @ name history_path in
        bindA (sys_call (PathExists backup_file) (path_exists os backup_file)) (\<lambda>found.
          if found then sys_call (Copy2 backup_file history_path) (copy2 os backup_file history_path)
          else returnA ()))
       (\<lambda>e. returnA ())"

text \<open>The five steps inside the \<open>try\<close> of \<open>remove_history_atomic\<close>.\<close>

definition removal_steps :: "'s os \<Rightarrow> remover \<Rightarrow> path \<Rightarrow> ('s world, unit) action" where
  "removal_steps os self history_path =
     bindA (create_backup os self history_path) (\<lambda>_.
     bindA (remove_history_file os history_path) (\<lambda>_.
     bindA (clear_related_files os history_path) (\<lambda>_.
     bindA (vacuum_database os (parent history_path @ [''Web Data''])) (\<lambda>_.
     clear_cache os (parent (parent history_path) @ [''Cache''])))))"

definition remove_history_atomic :: "'s os \<Rightarrow> remover \<Rightarrow> ('s world, unit) action" where
  "remove_history_atomic os self =
     (case determine_os os of
        Inl e \<Rightarrow> (\<lambda>w. (Inl e, w))
      | Inr os_type \<Rightarrow>
          (case map_of (history_locations self) os_type of
             None \<Rightarrow> (\<lambda>w. (Inl (ValueError (''Unsupported operating system: '' @ os_type)), w))
           | Some history_path \<Rightarrow>
               catchA (removal_steps os self history_path)
                 (\<lambda>e. restore_backup os self history_path)))"

definition run :: "'s os \<Rightarrow> remover \<Rightarrow> ('s world, unit) action" where
  "run os self = catchA (remove_history_atomic os self) (\<lambda>e. returnA ())"

subsection \<open>A reference file system\<close>

text \<open>
  One operating system to run the class on: a file system that maps a path to a file
  with its bytes or to a directory (the root is a directory), with the behaviour of a
  POSIX file system as far as the class uses it. \<open>open(p, "wb")\<close> creates the file or
  truncates it to no bytes; \<open>stat\<close> gives the number of bytes the file has then;
  \<open>os.urandom(n)\<close> gives \<open>n\<close> bytes of a source \<open>entropy\<close>.
\<close>

datatype node = File string | Dir

type_synonym fs = "path \<rightharpoonup> node"

definition node_at :: "fs \<Rightarrow> path \<Rightarrow> node option" where
  "node_at fs p = (if p = [] then Some Dir else fs p)"

fun mkdirs_from :: "path \<Rightarrow> path \<Rightarrow> fs \<Rightarrow> fs option" where
  "mkdirs_from pre [] fs = Some fs"
| "mkdirs_from pre (c # cs) fs =
     (case fs (pre @ [c]) of
        Some (File _) \<Rightarrow> None
      | _ \<Rightarrow> mkdirs_from (pre @ [c]) cs (fs(pre @ [c] \<mapsto> Dir)))"

definition fs_makedirs :: "path \<Rightarrow> bool \<Rightarrow> fs \<Rightarrow> (exn + unit) \<times> fs" where
  "fs_makedirs p exist_ok fs =
     (if node_at fs p = Some Dir \<and> \<not> exist_ok then (Inl (OSError ''File exists''), fs)
      else case mkdirs_from [] p fs of
             None \<Rightarrow> (Inl (OSError ''File exists''), fs)
           | Some fs' \<Rightarrow> (Inr (), fs'))"

definition fs_copy2 :: "path \<Rightarrow> path \<Rightarrow> fs \<Rightarrow> (exn + unit) \<times> fs" where
  "fs_copy2 src dst fs =
     (case node_at fs src of
        Some (File bytes) \<Rightarrow>
          (let target = (if node_at fs dst = Some Dir then dst @ name src else dst)
           in if node_at fs target \<noteq> Some Dir \<and> node_at fs (parent target) = Some Dir
              then (Inr (), fs(target \<mapsto> File bytes))
              else (Inl (OSError ''No such file or directory''), fs))
      | _ \<Rightarrow> (Inl (OSError ''No such file or directory''), fs))"

definition fs_open_wb :: "path \<Rightarrow> fs \<Rightarrow> (exn + unit) \<times> fs" where
  "fs_open_wb p fs =
     (if node_at fs p \<noteq> Some Dir \<and> node_at fs (parent p) = Some Dir
      then (Inr (), fs(p \<mapsto> File []))
      else (Inl (OSError ''No such file or directory''), fs))"

definition fs_stat_size :: "path \<Rightarrow> fs \<Rightarrow> (exn + nat) \<times> fs" where
  "fs_stat_size p fs =
     (case node_at fs p of
        Some (File bytes) \<Rightarrow> (Inr (length bytes), fs)
      | Some Dir \<Rightarrow> (Inr 4096, fs)
      | None \<Rightarrow> (Inl (OSError ''No such file or directory''), fs))"

definition fs_file_write :: "path \<Rightarrow> string \<Rightarrow> fs \<Rightarrow> (exn + unit) \<times> fs" where
  "fs_file_write p bytes fs =
     (case node_at fs p of
        Some (File old) \<Rightarrow> (Inr (), fs(p \<mapsto> File (old @ bytes)))
      | _ \<Rightarrow> (Inr (), fs))"

definition fs_os_remove :: "path \<Rightarrow> fs \<Rightarrow> (exn + unit) \<times> fs" where
  "fs_os_remove p fs =
     (case node_at fs p of
        Some (File _) \<Rightarrow> (Inr (), fs(p := None))
      | Some Dir \<Rightarrow> (Inl (OSError ''Is a directory''), fs)
      | None \<Rightarrow> (Inl (OSError ''No such file or directory''), fs))"

definition fs_rmtree :: "path \<Rightarrow> fs \<Rightarrow> (exn + unit) \<times> fs" where
  "fs_rmtree p fs =
     (if node_at fs p = Some Dir
      then (Inr (), (\<lambda>q. if take (length p) q = p then None else fs q))
      else (Inl (OSError ''Not a directory''), fs))"

definition fs_sqlite_connect :: "path \<Rightarrow> fs \<Rightarrow> (exn + unit) \<times> fs" where
  "fs_sqlite_connect p fs =
     (case node_at fs p of
        Some (File _) \<Rightarrow> (Inr (), fs)
      | Some Dir \<Rightarrow> (Inl (OperationalError ''unable to open database file''), fs)
      | None \<Rightarrow>
          if node_at fs (parent p) = Some Dir then (Inr (), fs(p \<mapsto> File []))
          else (Inl (OperationalError ''unable to open database file''), fs))"

definition fs_sqlite_execute :: "path \<Rightarrow> string \<Rightarrow> fs \<Rightarrow> (exn + unit) \<times> fs" where
  "fs_sqlite_execute p sql fs =
     (case node_at fs p of
        Some (File bytes) \<Rightarrow>
          if bytes = [] \<or> take 15 bytes = ''SQLite format 3'' then (Inr (), fs)
          else (Inl (DatabaseError ''file is not a database''), fs)
      | _ \<Rightarrow> (Inl (OperationalError ''unable to open database file''), fs))"

definition reference_os :: "(nat \<Rightarrow> char) \<Rightarrow> fs os" where
  "reference_os entropy =
     \<lparr> os_name = ''posix'', sysname = ''Linux'',
       makedirs = fs_makedirs,
       copy2 = fs_copy2,
       path_exists = (\<lambda>p fs. (Inr (node_at fs p \<noteq> None), fs)),
       open_wb = fs_open_wb,
       stat_size = fs_stat_size,
       urandom = (\<lambda>n fs. (Inr (map entropy [0..<n]), fs)),
       file_write = fs_file_write,
       file_close = (\<lambda>p fs. (Inr (), fs)),
       os_remove = fs_os_remove,
       is_file = (\<lambda>p fs. (Inr (case node_at fs p of Some (File _) \<Rightarrow> True | _ \<Rightarrow> False), fs)),
       is_dir = (\<lambda>p fs. (Inr (node_at fs p = Some Dir), fs)),
       rmtree = fs_rmtree,
       sqlite_connect = fs_sqlite_connect,
       sqlite_execute = fs_sqlite_execute,
       sqlite_close = (\<lambda>p fs. (Inr (), fs)) \<rparr>"

text \<open>
  A profile on Linux: the home directory \<open>/home/u\<close> with the directories down to
  \<open>.config/aluminum/Default\<close>, and the history file with the given bytes.
\<close>

definition linux_remover :: remover where
  "linux_remover = remover_init [] [''home'', ''u''] ''1700000000''"

definition history_file :: path where
  "history_file = [''home'', ''u'', ''.config'', ''aluminum'', ''Default'', ''History'']"

definition profile :: "string \<Rightarrow> fs" where
  "profile bytes =
     [[''home''] \<mapsto> Dir, [''home'', ''u''] \<mapsto> Dir, [''home'', ''u'', ''.config''] \<mapsto> Dir,
      [''home'', ''u'', ''.config'', ''aluminum''] \<mapsto> Dir,
      [''home'', ''u'', ''.config'', ''aluminum'', ''Default''] \<mapsto> Dir,
      history_file \<mapsto> File bytes]"


text \<open>
  Two operating systems with a fault: one on which \<open>os.remove\<close> is refused, one on
  which \<open>shutil.rmtree\<close> is refused.
\<close>

definition remove_refused :: "(nat \<Rightarrow> char) \<Rightarrow> fs os" where
  "remove_refused entropy =
     (reference_os entropy)\<lparr> os_remove := (\<lambda>p fs. (Inl (OSError ''Permission denied''), fs)) \<rparr>"

definition rmtree_refused :: "(nat \<Rightarrow> char) \<Rightarrow> fs os" where
  "rmtree_refused entropy =
     (reference_os entropy)\<lparr> rmtree := (\<lambda>p fs. (Inl (OSError ''Permission denied''), fs)) \<rparr>"

text \<open>
  The run of \<open>remove_history_atomic\<close> on the Linux profile, whose history file
  has the bytes \<open>abc\<close> and which has a cache directory, with \<open>shutil.rmtree\<close>
  refused.
\<close>

definition cache_directory :: path where
  "cache_directory = [''home'', ''u'', ''.config'', ''aluminum'', ''Cache'']"


section \<open>AluminumBrowserHistory\<close>

text \<open>
  A row of the table \<open>urls\<close>, in the order of the columns the queries select;
  \<open>last_visit_time\<close> may be \<open>NULL\<close>. The database the cursor reads has the table
  or not.
\<close>

record urls_row =
  urls_id :: int
  urls_url :: string
  urls_title :: string
  urls_visit_count :: int
  urls_last_visit_time :: "int option"

record history_database =
  urls_table :: "urls_row list option"

text \<open>
  The object: \<open>cursor\<close> is \<open>None\<close> until \<open>__enter__\<close> has made the connection,
  and then reads a database.
\<close>

record browser_history =
  profile_path :: string
  cursor :: "history_database option"

text \<open>
  An entry of the list \<open>get_history\<close> returns: the dictionary with the keys \<open>id\<close>,
  \<open>url\<close>, \<open>title\<close>, \<open>visit_count\<close> and \<open>last_visit_time\<close>, the last a
  \<open>datetime\<close>, kept as its microseconds since 1601-01-01.
\<close>

record history_entry =
  entry_id :: int
  entry_url :: string
  entry_title :: string
  entry_visit_count :: int
  entry_last_visit_time :: int

text \<open>
  \<open>_convert_chrome_time\<close>:
  \<open>datetime.datetime(1601, 1, 1) + datetime.timedelta(microseconds=chrome_timestamp)\<close>.
  \<open>timedelta\<close> takes no \<open>None\<close> and at most 999999999 days, and the sum is a
  \<open>datetime\<close> from year 1 (584388 days before 1601) to the end of year 9999
  (3067671 days after).
\<close>

definition convert_chrome_time :: "int option \<Rightarrow> exn + int" where
  "convert_chrome_time chrome_timestamp =
     (case chrome_timestamp of
        None \<Rightarrow>
          Inl (TypeError ''unsupported type for timedelta microseconds component: NoneType'')
      | Some t \<Rightarrow>
          if \<bar>t div 86400000000\<bar> > 999999999
            then Inl (OverflowError ''days must have magnitude <= 999999999'')
          else if t < - 584388 * 86400000000 \<or> 3067671 * 86400000000 \<le> t
            then Inl (OverflowError ''date value out of range'')
          else Inr t)"

text \<open>
  What SQLite does with
  \<open>SELECT ... FROM urls ORDER BY urls.last_visit_time DESC LIMIT ? OFFSET ?\<close>:
  the rows in descending order of the time (\<open>NULL\<close> is the least value; rows with equal
  times in the order of the table), without the first \<open>offset\<close> rows, and then at most
  \<open>limit\<close> rows; a negative limit is no limit and a negative offset is none. A
  parameter must be a 64-bit integer.
\<close>

definition time_le :: "int option \<Rightarrow> int option \<Rightarrow> bool" where
  "time_le a b =
     (case a of None \<Rightarrow> True | Some x \<Rightarrow> (case b of None \<Rightarrow> False | Some y \<Rightarrow> x \<le> y))"

fun insert_desc :: "urls_row \<Rightarrow> urls_row list \<Rightarrow> urls_row list" where
  "insert_desc r [] = [r]"
| "insert_desc r (x # xs) =
     (if time_le (urls_last_visit_time x) (urls_last_visit_time r) then r # x # xs
      else x # insert_desc r xs)"

definition order_by_time_desc :: "urls_row list \<Rightarrow> urls_row list" where
  "order_by_time_desc rows = foldr insert_desc rows []"

definition sql_limit :: "int \<Rightarrow> 'a list \<Rightarrow> 'a list" where
  "sql_limit limit rows = (if limit < 0 then rows else take (nat limit) rows)"

definition int64 :: "int \<Rightarrow> bool" where
  "int64 n = (- (2 ^ 63) \<le> n \<and> n < 2 ^ 63)"

definition select_urls :: "history_database \<Rightarrow> int \<Rightarrow> int \<Rightarrow> exn + urls_row list" where
  "select_urls db limit offset =
     (if \<not> int64 limit \<or> \<not> int64 offset
        then Inl (OverflowError ''Python int too large to convert to SQLite INTEGER'')
      else case urls_table db of
             None \<Rightarrow> Inl (OperationalError ''no such table: urls'')
           | Some rows \<Rightarrow> Inr (sql_limit limit (drop (nat offset) (order_by_time_desc rows))))"

text \<open>The loop \<open>for row in rows: history.append({...})\<close>.\<close>

definition to_entry :: "urls_row \<Rightarrow> exn + history_entry" where
  "to_entry row =
     bindE (convert_chrome_time (urls_last_visit_time row)) (\<lambda>t.
       Inr \<lparr> entry_id = urls_id row, entry_url = urls_url row, entry_title = urls_title row,
             entry_visit_count = urls_visit_count row, entry_last_visit_time = t \<rparr>)"

fun to_entries :: "urls_row list \<Rightarrow> exn + history_entry list" where
  "to_entries [] = Inr []"
| "to_entries (row # rows) =
     bindE (to_entry row) (\<lambda>e. bindE (to_entries rows) (\<lambda>es. Inr (e # es)))"

text \<open>\<open>AluminumBrowserHistory.get_history(limit, offset)\<close>\<close>

definition browser_get_history :: "browser_history \<Rightarrow> int \<Rightarrow> int \<Rightarrow> exn + history_entry list" where
  "browser_get_history self limit offset =
     (case cursor self of
        None \<Rightarrow>
          Inl (AttributeError (''NoneType object has no attribute '' @ [CHR 0x27] @ ''execute''
                 @ [CHR 0x27]))
      | Some db \<Rightarrow> bindE (select_urls db limit offset) to_entries)"

text \<open>
  What \<open>export_history\<close> leaves in the output file: the JSON text of a list of
  entries, or the CSV text of a header and the rows of the entries, or an incomplete text
  when \<open>json.dump\<close> raised.
\<close>

datatype export_file =
    Json "history_entry list"
  | Csv "string list" "history_entry list"
  | Incomplete

definition fieldnames :: "string list" where
  "fieldnames = [''id'', ''url'', ''title'', ''visit_count'', ''last_visit_time'']"

text \<open>
  \<open>export_history\<close>. \<open>can_open\<close> tells whether \<open>open(output_file, 'w')\<close>
  succeeds; when it raises, the handler of \<open>IOError\<close> and \<open>ValueError\<close> returns
  \<open>False\<close>, as it does for a format that is neither \<open>json\<close> nor \<open>csv\<close>. The
  call \<open>get_history(limit=0)\<close> is before the \<open>try\<close>. \<open>json.dump\<close> writes an empty list
  and raises \<open>TypeError\<close> at the \<open>datetime\<close> of an entry.
\<close>

definition export_history ::
  "(string \<Rightarrow> bool) \<Rightarrow> browser_history \<Rightarrow> string \<Rightarrow> string \<Rightarrow> (string \<rightharpoonup> export_file)
     \<Rightarrow> (exn + bool) \<times> (string \<rightharpoonup> export_file)" where
  "export_history can_open self output_file format files =
     (case browser_get_history self 0 0 of
        Inl e \<Rightarrow> (Inl e, files)
      | Inr entries \<Rightarrow>
          if lower format = ''json'' then
            (if \<not> can_open output_file then (Inr False, files)
             else if entries = [] then (Inr True, files(output_file \<mapsto> Json []))
             else (Inl (TypeError ''Object of type datetime is not JSON serializable''),
                   files(output_file \<mapsto> Incomplete)))
          else if lower format = ''csv'' then
            (if \<not> can_open output_file then (Inr False, files)
             else (Inr True, files(output_file \<mapsto> Csv fieldnames entries)))
          else (Inr False, files))"

section \<open>AluminumDatabase\<close>

subsection \<open>The database file\<close>

text \<open>
  A value of a column, a row as the dictionary \<open>dict(row)\<close> gives (the columns in
  their order), and a table with the constraints of its columns: \<open>col_key\<close> is
  \<open>PRIMARY KEY\<close> or \<open>UNIQUE\<close>, \<open>col_rowid\<close> is
  \<open>INTEGER PRIMARY KEY AUTOINCREMENT\<close>.
\<close>

datatype sqlval = Null | Integer int | Text string | Blob string

type_synonym sqlrow = "(string \<times> sqlval) list"

datatype default_value = DefaultValue sqlval | DefaultCurrentTimestamp

record column =
  col_name :: string
  col_type :: string
  col_not_null :: bool
  col_key :: bool
  col_rowid :: bool
  col_default :: "default_value option"

record table =
  table_columns :: "column list"
  table_rows :: "sqlrow list"

type_synonym database = "string \<rightharpoonup> table"

text \<open>
  The statements the class executes. \<open>CREATE TABLE IF NOT EXISTS\<close> and the forms of
  \<open>INSERT\<close> are kept with their structure, the parameters bound; every other statement
  (the queries, \<open>DELETE\<close>, \<open>VACUUM\<close>) is its text and its parameters.
\<close>

datatype expr = Value sqlval | CurrentTimestamp

datatype update = Increment | SetCurrentTimestamp

datatype conflict =
    Abort
  | Replace
  | DoUpdate string "(string \<times> update) list"

datatype sql =
    CreateTableIfNotExists string "column list"
  | Insert string "(string \<times> expr) list" conflict
  | Other string "sqlval list"

subsection \<open>What SQLite does with the statements kept with their structure\<close>

definition create_table :: "string \<Rightarrow> column list \<Rightarrow> database \<Rightarrow> database" where
  "create_table t cols db =
     (case db t of Some _ \<Rightarrow> db | None \<Rightarrow> db(t \<mapsto> \<lparr> table_columns = cols, table_rows = [] \<rparr>))"

definition eval_expr :: "string \<Rightarrow> expr \<Rightarrow> sqlval" where
  "eval_expr now e = (case e of Value v \<Rightarrow> v | CurrentTimestamp \<Rightarrow> Text now)"

definition cell :: "sqlrow \<Rightarrow> string \<Rightarrow> sqlval" where
  "cell row c = (case map_of row c of Some v \<Rightarrow> v | None \<Rightarrow> Null)"

text \<open>The next value of an \<open>INTEGER PRIMARY KEY\<close>: one more than the largest in the table.\<close>

definition next_rowid :: "table \<Rightarrow> string \<Rightarrow> int" where
  "next_rowid tbl c =
     1 + foldr (\<lambda>row m. case cell row c of Integer n \<Rightarrow> max n m | _ \<Rightarrow> m) (table_rows tbl) 0"

text \<open>
  The row an \<open>INSERT\<close> makes: for every column of the table the value given for it,
  else its default, else \<open>NULL\<close>; a \<open>NULL\<close> in the \<open>INTEGER PRIMARY KEY\<close> becomes
  the next value.
\<close>

definition new_row :: "string \<Rightarrow> table \<Rightarrow> (string \<times> expr) list \<Rightarrow> sqlrow" where
  "new_row now tbl assignments =
     map (\<lambda>c.
       (col_name c,
        (let v = (case map_of assignments (col_name c) of
                    Some e \<Rightarrow> eval_expr now e
                  | None \<Rightarrow>
                      (case col_default c of
                         Some (DefaultValue d) \<Rightarrow> d
                       | Some DefaultCurrentTimestamp \<Rightarrow> Text now
                       | None \<Rightarrow> Null))
         in if col_rowid c \<and> v = Null then Integer (next_rowid tbl (col_name c)) else v)))
       (table_columns tbl)"

definition is_key :: "table \<Rightarrow> string \<Rightarrow> bool" where
  "is_key tbl c = (\<exists>k \<in> set (table_columns tbl). col_name k = c \<and> col_key k)"

text \<open>Two rows clash on a key column when both have the same value there, not \<open>NULL\<close>.\<close>

definition clash_on :: "string \<Rightarrow> sqlrow \<Rightarrow> sqlrow \<Rightarrow> bool" where
  "clash_on c row old = (cell row c \<noteq> Null \<and> cell row c = cell old c)"

definition clashing_keys :: "table \<Rightarrow> sqlrow \<Rightarrow> string list" where
  "clashing_keys tbl row =
     filter (\<lambda>c. \<exists>old \<in> set (table_rows tbl). clash_on c row old)
       (map col_name (filter col_key (table_columns tbl)))"

definition apply_update :: "string \<Rightarrow> sqlrow \<Rightarrow> string \<times> update \<Rightarrow> sqlrow" where
  "apply_update now row cu =
     (case cu of (c, u) \<Rightarrow>
        map (\<lambda>(k, v).
          if k = c
          then (k, case u of
                     SetCurrentTimestamp \<Rightarrow> Text now
                   | Increment \<Rightarrow>
                       (case v of Integer n \<Rightarrow> Integer (n + 1) | Null \<Rightarrow> Null | _ \<Rightarrow> Integer 1))
          else (k, v)) row)"

text \<open>
  \<open>INSERT INTO t (...) VALUES (...)\<close>, plain, \<open>OR REPLACE\<close>, or with
  \<open>ON CONFLICT(target) DO UPDATE SET ...\<close>. The statement is compiled first: the
  table and the columns must exist, and the target of an \<open>ON CONFLICT\<close> clause must be
  a \<open>PRIMARY KEY\<close> or \<open>UNIQUE\<close> column of the table. Then the row is made and
  checked against \<open>NOT NULL\<close> and the keys.
\<close>

definition insert_row ::
  "string \<Rightarrow> string \<Rightarrow> (string \<times> expr) list \<Rightarrow> conflict \<Rightarrow> database \<Rightarrow> exn + database" where
  "insert_row now t assignments on_conflict db =
     (case db t of
        None \<Rightarrow> Inl (OperationalError (''no such table: '' @ t))
      | Some tbl \<Rightarrow>
          (case filter (\<lambda>c. c \<notin> set (map col_name (table_columns tbl))) (map fst assignments) of
             c # _ \<Rightarrow> Inl (OperationalError (''table '' @ t @ '' has no column named '' @ c))
           | [] \<Rightarrow>
               if (case on_conflict of DoUpdate target _ \<Rightarrow> \<not> is_key tbl target | _ \<Rightarrow> False)
               then Inl (OperationalError
                 ''ON CONFLICT clause does not match any PRIMARY KEY or UNIQUE constraint'')
               else
                 (let row = new_row now tbl assignments in
                  case filter (\<lambda>c. col_not_null c \<and> cell row (col_name c) = Null)
                         (table_columns tbl) of
                    c # _ \<Rightarrow>
                      Inl (IntegrityError (''NOT NULL constraint failed: '' @ t @ ''.'' @ col_name c))
                  | [] \<Rightarrow>
                      (case on_conflict of
                         Replace \<Rightarrow>
                           Inr (db(t \<mapsto> tbl\<lparr>table_rows :=
                             filter (\<lambda>old. \<forall>c \<in> set (clashing_keys tbl row). \<not> clash_on c row old)
                               (table_rows tbl) @ [row]\<rparr>))
                       | Abort \<Rightarrow>
                           (case clashing_keys tbl row of
                              c # _ \<Rightarrow>
                                Inl (IntegrityError (''UNIQUE constraint failed: '' @ t @ ''.'' @ c))
                            | [] \<Rightarrow> Inr (db(t \<mapsto> tbl\<lparr>table_rows := table_rows tbl @ [row]\<rparr>)))
                       | DoUpdate target updates \<Rightarrow>
                           if target \<in> set (clashing_keys tbl row) then
                             Inr (db(t \<mapsto> tbl\<lparr>table_rows :=
                               map (\<lambda>old. if clash_on target row old
                                          then foldl (apply_update now) old updates else old)
                                 (table_rows tbl)\<rparr>))
                           else
                             (case clashing_keys tbl row of
                                c # _ \<Rightarrow>
                                  Inl (IntegrityError
                                    (''UNIQUE constraint failed: '' @ t @ ''.'' @ c))
                              | [] \<Rightarrow> Inr (db(t \<mapsto> tbl\<lparr>table_rows := table_rows tbl @ [row]\<rparr>)))))))"

subsection \<open>The engine\<close>

text \<open>
  What the class calls outside itself, as functions on a store \<open>'d\<close> (the database
  files and the other files): \<open>sqlite3.connect(path)\<close>, \<open>close\<close> of a connection to a
  path, \<open>execute\<close> of a statement on the connection to the object's database with the
  rows it fetches, \<open>commit\<close>, \<open>source.backup(target)\<close> between the connections to two
  paths, \<open>os.path.exists\<close>, \<open>os.path.getsize\<close>, and \<open>json.dump\<close> to and
  \<open>json.load\<close> from a file (a list of objects). The engine is a parameter: nothing
  is assumed of it.
\<close>

record 'd engine =
  connect :: "string \<Rightarrow> 'd \<Rightarrow> (exn + unit) \<times> 'd"
  close :: "string \<Rightarrow> 'd \<Rightarrow> 'd"
  execute :: "sql \<Rightarrow> 'd \<Rightarrow> (exn + sqlrow list) \<times> 'd"
  commit :: "'d \<Rightarrow> (exn + unit) \<times> 'd"
  backup :: "string \<Rightarrow> string \<Rightarrow> 'd \<Rightarrow> (exn + unit) \<times> 'd"
  exists_path :: "string \<Rightarrow> 'd \<Rightarrow> bool"
  getsize :: "string \<Rightarrow> 'd \<Rightarrow> exn + int"
  json_dump :: "string \<Rightarrow> sqlrow list \<Rightarrow> 'd \<Rightarrow> (exn + unit) \<times> 'd"
  json_load :: "string \<Rightarrow> 'd \<Rightarrow> (exn + sqlrow list) \<times> 'd"

text \<open>
  The world of a method: the store, and every connection made so far with the path of
  its database and whether it is still open. A connection is known by its place in the
  list.
\<close>

record 'd db_world =
  store :: 'd
  connections :: "(string \<times> bool) list"

definition on_store :: "('d \<Rightarrow> (exn + 'a) \<times> 'd) \<Rightarrow> ('d db_world, 'a) action" where
  "on_store f w = (case f (store w) of (r, d) \<Rightarrow> (r, w\<lparr>store := d\<rparr>))"

definition raiseA :: "exn \<Rightarrow> ('w, 'a) action" where
  "raiseA e w = (Inl e, w)"

text \<open>\<open>sqlite3.connect(path)\<close>: the new connection is the last of the list.\<close>

definition open_connection :: "'d engine \<Rightarrow> string \<Rightarrow> ('d db_world, nat) action" where
  "open_connection eng path w =
     (case connect eng path (store w) of
        (Inl e, d) \<Rightarrow> (Inl e, w\<lparr>store := d\<rparr>)
      | (Inr _, d) \<Rightarrow>
          (Inr (length (connections w)),
           \<lparr> store = d, connections = connections w @ [(path, True)] \<rparr>))"

text \<open>\<open>conn.close()\<close>\<close>

definition close_connection :: "'d engine \<Rightarrow> string \<Rightarrow> nat \<Rightarrow> ('d db_world, unit) action" where
  "close_connection eng path conn w =
     (Inr (), \<lparr> store = close eng path (store w),
                connections = (connections w)[conn := (path, False)] \<rparr>)"

subsection \<open>The class\<close>

record aluminum_database =
  db_path :: string
  conn :: "nat option"

text \<open>
  \<open>with self.get_connection() as conn: body\<close>. The generator connects, yields, and
  closes the connection in its \<open>finally\<close>, whether the body returned or raised. When
  \<open>sqlite3.connect\<close> raises, \<open>conn\<close> is not bound and the test \<open>if conn\<close> of the
  \<open>finally\<close> raises \<open>UnboundLocalError\<close> in its place.
\<close>

definition get_connection ::
  "'d engine \<Rightarrow> aluminum_database \<Rightarrow> ('d db_world, 'a) action \<Rightarrow> ('d db_world, 'a) action" where
  "get_connection eng self body =
     bindA
       (catchA (open_connection eng (db_path self))
          (\<lambda>e. raiseA (UnboundLocalError
             (''cannot access local variable '' @ [CHR 0x27] @ ''conn'' @ [CHR 0x27]
                @ '' where it is not associated with a value''))))
       (\<lambda>conn w. case body w of (r, w') \<Rightarrow>
          (r, snd (close_connection eng (db_path self) conn w')))"

definition run_sql :: "'d engine \<Rightarrow> sql \<Rightarrow> ('d db_world, sqlrow list) action" where
  "run_sql eng stmt = on_store (execute eng stmt)"

definition history_columns :: "column list" where
  "history_columns =
     [\<lparr> col_name = ''id'', col_type = ''INTEGER'', col_not_null = False, col_key = True,
         col_rowid = True, col_default = None \<rparr>,
      \<lparr> col_name = ''url'', col_type = ''TEXT'', col_not_null = True, col_key = False,
         col_rowid = False, col_default = None \<rparr>,
      \<lparr> col_name = ''title'', col_type = ''TEXT'', col_not_null = False, col_key = False,
         col_rowid = False, col_default = None \<rparr>,
      \<lparr> col_name = ''visit_time'', col_type = ''TIMESTAMP'', col_not_null = False,
         col_key = False, col_rowid = False, col_default = Some DefaultCurrentTimestamp \<rparr>,
      \<lparr> col_name = ''visit_count'', col_type = ''INTEGER'', col_not_null = False,
         col_key = False, col_rowid = False, col_default = Some (DefaultValue (Integer 1)) \<rparr>]"

definition bookmarks_columns :: "column list" where
  "bookmarks_columns =
     [\<lparr> col_name = ''id'', col_type = ''INTEGER'', col_not_null = False, col_key = True,
         col_rowid = True, col_default = None \<rparr>,
      \<lparr> col_name = ''url'', col_type = ''TEXT'', col_not_null = True, col_key = False,
         col_rowid = False, col_default = None \<rparr>,
      \<lparr> col_name = ''title'', col_type = ''TEXT'', col_not_null = False, col_key = False,
         col_rowid = False, col_default = None \<rparr>,
      \<lparr> col_name = ''added_time'', col_type = ''TIMESTAMP'', col_not_null = False,
         col_key = False, col_rowid = False, col_default = Some DefaultCurrentTimestamp \<rparr>,
      \<lparr> col_name = ''folder'', col_type = ''TEXT'', col_not_null = False, col_key = False,
         col_rowid = False, col_default = Some (DefaultValue (Text ''root'')) \<rparr>]"

definition settings_columns :: "column list" where
  "settings_columns =
     [\<lparr> col_name = ''key'', col_type = ''TEXT'', col_not_null = False, col_key = True,
         col_rowid = False, col_default = None \<rparr>,
      \<lparr> col_name = ''value'', col_type = ''TEXT'', col_not_null = False, col_key = False,
         col_rowid = False, col_default = None \<rparr>]"

definition cache_columns :: "column list" where
  "cache_columns =
     [\<lparr> col_name = ''url'', col_type = ''TEXT'', col_not_null = False, col_key = True,
         col_rowid = False, col_default = None \<rparr>,
      \<lparr> col_name = ''content'', col_type = ''BLOB'', col_not_null = False, col_key = False,
         col_rowid = False, col_default = None \<rparr>,
      \<lparr> col_name = ''last_updated'', col_type = ''TIMESTAMP'', col_not_null = False,
         col_key = False, col_rowid = False, col_default = Some DefaultCurrentTimestamp \<rparr>]"

definition create_tables :: "'d engine \<Rightarrow> aluminum_database \<Rightarrow> ('d db_world, unit) action" where
  "create_tables eng self =
     get_connection eng self
       (bindA (run_sql eng (CreateTableIfNotExists ''history'' history_columns)) (\<lambda>_.
        bindA (run_sql eng (CreateTableIfNotExists ''bookmarks'' bookmarks_columns)) (\<lambda>_.
        bindA (run_sql eng (CreateTableIfNotExists ''settings'' settings_columns)) (\<lambda>_.
        bindA (run_sql eng (CreateTableIfNotExists ''cache'' cache_columns)) (\<lambda>_.
        on_store (commit eng))))))"

text \<open>\<open>__init__\<close>: the object, and the call of \<open>create_tables\<close>.\<close>

definition database_init ::
  "'d engine \<Rightarrow> string \<Rightarrow> ('d db_world, aluminum_database) action" where
  "database_init eng path =
     bindA (create_tables eng \<lparr> db_path = path, conn = None \<rparr>)
       (\<lambda>_. returnA \<lparr> db_path = path, conn = None \<rparr>)"

definition add_history_entry ::
  "'d engine \<Rightarrow> aluminum_database \<Rightarrow> sqlval \<Rightarrow> sqlval \<Rightarrow> ('d db_world, unit) action" where
  "add_history_entry eng self url title =
     get_connection eng self
       (bindA (run_sql eng
                 (Insert ''history'' [(''url'', Value url), (''title'', Value title)]
                    (DoUpdate ''url''
                       [(''visit_count'', Increment), (''visit_time'', SetCurrentTimestamp)])))
          (\<lambda>_. on_store (commit eng)))"

definition database_get_history ::
  "'d engine \<Rightarrow> aluminum_database \<Rightarrow> int \<Rightarrow> ('d db_world, sqlrow list) action" where
  "database_get_history eng self limit =
     get_connection eng self
       (run_sql eng
          (Other ''SELECT * FROM history ORDER BY visit_time DESC LIMIT ?'' [Integer limit]))"

definition add_bookmark ::
  "'d engine \<Rightarrow> aluminum_database \<Rightarrow> sqlval \<Rightarrow> sqlval \<Rightarrow> sqlval \<Rightarrow> ('d db_world, unit) action" where
  "add_bookmark eng self url title folder =
     get_connection eng self
       (bindA (run_sql eng
                 (Insert ''bookmarks''
                    [(''url'', Value url), (''title'', Value title), (''folder'', Value folder)]
                    Abort))
          (\<lambda>_. on_store (commit eng)))"

text \<open>The truth value of a parameter, for \<open>if folder\<close>.\<close>

definition truthy :: "sqlval \<Rightarrow> bool" where
  "truthy v = (case v of Null \<Rightarrow> False | Integer n \<Rightarrow> n \<noteq> 0 | Text s \<Rightarrow> s \<noteq> [] | Blob b \<Rightarrow> b \<noteq> [])"

definition get_bookmarks ::
  "'d engine \<Rightarrow> aluminum_database \<Rightarrow> sqlval \<Rightarrow> ('d db_world, sqlrow list) action" where
  "get_bookmarks eng self folder =
     get_connection eng self
       (if truthy folder
        then run_sql eng (Other ''SELECT * FROM bookmarks WHERE folder = ?'' [folder])
        else run_sql eng (Other ''SELECT * FROM bookmarks'' []))"

definition update_setting ::
  "'d engine \<Rightarrow> aluminum_database \<Rightarrow> sqlval \<Rightarrow> sqlval \<Rightarrow> ('d db_world, unit) action" where
  "update_setting eng self key v =
     get_connection eng self
       (bindA (run_sql eng (Insert ''settings'' [(''key'', Value key), (''value'', Value v)] Replace))
          (\<lambda>_. on_store (commit eng)))"

text \<open>
  \<open>result = cursor.fetchone(); return result[column] if result else None\<close>: a row
  without columns counts as false.
\<close>

definition fetchone_column :: "string \<Rightarrow> sqlrow list \<Rightarrow> exn + sqlval" where
  "fetchone_column c fetched =
     (case fetched of
        [] \<Rightarrow> Inr Null
      | row # _ \<Rightarrow>
          if row = [] then Inr Null
          else (case map_of row c of
                  Some v \<Rightarrow> Inr v
                | None \<Rightarrow> Inl (IndexError ''No item with that key'')))"

definition get_setting ::
  "'d engine \<Rightarrow> aluminum_database \<Rightarrow> sqlval \<Rightarrow> ('d db_world, sqlval) action" where
  "get_setting eng self key =
     get_connection eng self
       (bindA (run_sql eng (Other ''SELECT value FROM settings WHERE key = ?'' [key]))
          (\<lambda>fetched w. (fetchone_column ''value'' fetched, w)))"

definition add_to_cache ::
  "'d engine \<Rightarrow> aluminum_database \<Rightarrow> sqlval \<Rightarrow> sqlval \<Rightarrow> ('d db_world, unit) action" where
  "add_to_cache eng self url content =
     get_connection eng self
       (bindA (run_sql eng
                 (Insert ''cache''
                    [(''url'', Value url), (''content'', Value content),
                     (''last_updated'', CurrentTimestamp)]
                    Replace))
          (\<lambda>_. on_store (commit eng)))"

definition get_from_cache ::
  "'d engine \<Rightarrow> aluminum_database \<Rightarrow> sqlval \<Rightarrow> ('d db_world, sqlval) action" where
  "get_from_cache eng self url =
     get_connection eng self
       (bindA (run_sql eng (Other ''SELECT content FROM cache WHERE url = ?'' [url]))
          (\<lambda>fetched w. (fetchone_column ''content'' fetched, w)))"

definition database_clear_cache ::
  "'d engine \<Rightarrow> aluminum_database \<Rightarrow> ('d db_world, unit) action" where
  "database_clear_cache eng self =
     get_connection eng self
       (bindA (run_sql eng (Other ''DELETE FROM cache'' [])) (\<lambda>_. on_store (commit eng)))"

definition optimize_database ::
  "'d engine \<Rightarrow> aluminum_database \<Rightarrow> ('d db_world, unit) action" where
  "optimize_database eng self =
     get_connection eng self (bindA (run_sql eng (Other ''VACUUM'' [])) (\<lambda>_. returnA ()))"

text \<open>
  \<open>backup_database\<close> and \<open>restore_database\<close> make a second connection, to the backup
  path, by \<open>sqlite3.connect\<close> itself, and close it after the copy.
\<close>

definition backup_database ::
  "'d engine \<Rightarrow> aluminum_database \<Rightarrow> string \<Rightarrow> ('d db_world, unit) action" where
  "backup_database eng self backup_path =
     get_connection eng self
       (bindA (open_connection eng backup_path) (\<lambda>backup_conn.
        bindA (on_store (backup eng (db_path self) backup_path)) (\<lambda>_.
        close_connection eng backup_path backup_conn)))"

definition restore_database ::
  "'d engine \<Rightarrow> aluminum_database \<Rightarrow> string \<Rightarrow> ('d db_world, unit) action" where
  "restore_database eng self backup_path w =
     (if \<not> exists_path eng backup_path (store w)
      then (Inl (OSError (''Backup file not found: '' @ backup_path)), w)
      else get_connection eng self
             (bindA (open_connection eng backup_path) (\<lambda>backup_conn.
              bindA (on_store (backup eng backup_path (db_path self))) (\<lambda>_.
              close_connection eng backup_path backup_conn))) w)"

definition get_most_visited_sites ::
  "'d engine \<Rightarrow> aluminum_database \<Rightarrow> int \<Rightarrow> ('d db_world, sqlrow list) action" where
  "get_most_visited_sites eng self limit =
     get_connection eng self
       (run_sql eng
          (Other ''SELECT url, title, visit_count FROM history ORDER BY visit_count DESC LIMIT ?''
             [Integer limit]))"

definition search_history ::
  "'d engine \<Rightarrow> aluminum_database \<Rightarrow> string \<Rightarrow> int \<Rightarrow> ('d db_world, sqlrow list) action" where
  "search_history eng self query limit =
     get_connection eng self
       (run_sql eng
          (Other (''SELECT * FROM history WHERE url LIKE ? OR title LIKE ? ''
                    @ ''ORDER BY visit_time DESC LIMIT ?'')
             [Text (''%'' @ query @ ''%''), Text (''%'' @ query @ ''%''), Integer limit]))"

definition delete_history_entry ::
  "'d engine \<Rightarrow> aluminum_database \<Rightarrow> sqlval \<Rightarrow> ('d db_world, unit) action" where
  "delete_history_entry eng self url =
     get_connection eng self
       (bindA (run_sql eng (Other ''DELETE FROM history WHERE url = ?'' [url]))
          (\<lambda>_. on_store (commit eng)))"

text \<open>\<open>clear_history(days)\<close>; \<open>days\<close> is \<open>None\<close> or the text \<open>str(days)\<close>.\<close>

definition clear_history ::
  "'d engine \<Rightarrow> aluminum_database \<Rightarrow> string option \<Rightarrow> ('d db_world, unit) action" where
  "clear_history eng self days =
     get_connection eng self
       (bindA
          (case days of
             None \<Rightarrow> run_sql eng (Other ''DELETE FROM history'' [])
           | Some d \<Rightarrow>
               run_sql eng
                 (Other ''DELETE FROM history WHERE visit_time < datetime('now', ?)''
                    [Text (''-'' @ d @ '' days'')]))
          (\<lambda>_. on_store (commit eng)))"

definition get_database_size ::
  "'d engine \<Rightarrow> aluminum_database \<Rightarrow> ('d db_world, int) action" where
  "get_database_size eng self w = (getsize eng (db_path self) (store w), w)"

definition export_bookmarks ::
  "'d engine \<Rightarrow> aluminum_database \<Rightarrow> string \<Rightarrow> ('d db_world, unit) action" where
  "export_bookmarks eng self export_path =
     bindA (get_bookmarks eng self Null) (\<lambda>bookmarks.
       on_store (json_dump eng export_path bookmarks))"

text \<open>
  \<open>import_bookmarks\<close>: \<open>bookmark['url']\<close> and \<open>bookmark['title']\<close> raise
  \<open>KeyError\<close> when the key is missing; \<open>bookmark.get('folder', 'root')\<close> does not.
\<close>

definition item :: "sqlrow \<Rightarrow> string \<Rightarrow> exn + sqlval" where
  "item d k = (case map_of d k of Some v \<Rightarrow> Inr v | None \<Rightarrow> Inl (KeyError k))"

definition import_bookmark :: "'d engine \<Rightarrow> sqlrow \<Rightarrow> ('d db_world, unit) action" where
  "import_bookmark eng bookmark =
     bindA (\<lambda>w. (item bookmark ''url'', w)) (\<lambda>url.
     bindA (\<lambda>w. (item bookmark ''title'', w)) (\<lambda>title.
     bindA (run_sql eng
              (Insert ''bookmarks''
                 [(''url'', Value url), (''title'', Value title),
                  (''folder'', Value (case map_of bookmark ''folder'' of
                                        Some f \<Rightarrow> f | None \<Rightarrow> Text ''root''))]
                 Replace))
       (\<lambda>_. returnA ())))"

definition import_bookmarks ::
  "'d engine \<Rightarrow> aluminum_database \<Rightarrow> string \<Rightarrow> ('d db_world, unit) action" where
  "import_bookmarks eng self import_path =
     bindA (on_store (json_load eng import_path)) (\<lambda>bookmarks.
       get_connection eng self
         (bindA (for_each (import_bookmark eng) bookmarks) (\<lambda>_. on_store (commit eng))))"

text \<open>\<open>cursor.fetchone()[0]\<close>, after a statement that counts.\<close>

definition fetchone_first :: "sqlrow list \<Rightarrow> exn + sqlval" where
  "fetchone_first fetched =
     (case fetched of
        [] \<Rightarrow> Inl (TypeError ''NoneType object is not subscriptable'')
      | row # _ \<Rightarrow>
          (case row of
             [] \<Rightarrow> Inl (IndexError ''tuple index out of range'')
           | (_, v) # _ \<Rightarrow> Inr v))"

definition count_of :: "'d engine \<Rightarrow> string \<Rightarrow> ('d db_world, sqlval) action" where
  "count_of eng text =
     bindA (run_sql eng (Other text [])) (\<lambda>fetched w. (fetchone_first fetched, w))"

definition get_database_statistics ::
  "'d engine \<Rightarrow> aluminum_database \<Rightarrow> ('d db_world, sqlrow) action" where
  "get_database_statistics eng self =
     get_connection eng self
       (bindA (count_of eng ''SELECT COUNT(*) FROM history'') (\<lambda>n_history.
        bindA (count_of eng ''SELECT COUNT(*) FROM bookmarks'') (\<lambda>n_bookmarks.
        bindA (count_of eng ''SELECT COUNT(*) FROM cache'') (\<lambda>n_cache.
        bindA (get_database_size eng self) (\<lambda>size.
        bindA (count_of eng ''SELECT MAX(visit_time) FROM history'') (\<lambda>recent.
        returnA
          [(''total_history_entries'', n_history), (''total_bookmarks'', n_bookmarks),
           (''cached_pages'', n_cache), (''database_size_bytes'', Integer size),
           (''most_recent_visit'', recent)]))))))"

text \<open>
  A call of a public method with its arguments, and the value it returns, so that a
  statement can speak of every method.
\<close>

datatype db_call =
    Create_tables
  | Add_history_entry sqlval sqlval
  | Get_history int
  | Add_bookmark sqlval sqlval sqlval
  | Get_bookmarks sqlval
  | Update_setting sqlval sqlval
  | Get_setting sqlval
  | Add_to_cache sqlval sqlval
  | Get_from_cache sqlval
  | Clear_cache
  | Optimize_database
  | Backup_database string
  | Restore_database string
  | Get_most_visited_sites int
  | Search_history string int
  | Delete_history_entry sqlval
  | Clear_history "string option"
  | Get_database_size
  | Export_bookmarks string
  | Import_bookmarks string
  | Get_database_statistics

datatype db_result =
    Nothing
  | Rows "sqlrow list"
  | Cell sqlval
  | Size int
  | Statistics sqlrow

definition returning :: "('a \<Rightarrow> 'b) \<Rightarrow> ('w, 'a) action \<Rightarrow> ('w, 'b) action" where
  "returning f m = bindA m (\<lambda>x. returnA (f x))"

fun perform :: "'d engine \<Rightarrow> aluminum_database \<Rightarrow> db_call \<Rightarrow> ('d db_world, db_result) action" where
  "perform eng self Create_tables = returning (\<lambda>_. Nothing) (create_tables eng self)"
| "perform eng self (Add_history_entry url title) =
     returning (\<lambda>_. Nothing) (add_history_entry eng self url title)"
| "perform eng self (Get_history limit) = returning Rows (database_get_history eng self limit)"
| "perform eng self (Add_bookmark url title folder) =
     returning (\<lambda>_. Nothing) (add_bookmark eng self url title folder)"
| "perform eng self (Get_bookmarks folder) = returning Rows (get_bookmarks eng self folder)"
| "perform eng self (Update_setting key v) =
     returning (\<lambda>_. Nothing) (update_setting eng self key v)"
| "perform eng self (Get_setting key) = returning Cell (get_setting eng self key)"
| "perform eng self (Add_to_cache url content) =
     returning (\<lambda>_. Nothing) (add_to_cache eng self url content)"
| "perform eng self (Get_from_cache url) = returning Cell (get_from_cache eng self url)"
| "perform eng self Clear_cache = returning (\<lambda>_. Nothing) (database_clear_cache eng self)"
| "perform eng self Optimize_database = returning (\<lambda>_. Nothing) (optimize_database eng self)"
| "perform eng self (Backup_database backup_path) =
     returning (\<lambda>_. Nothing) (backup_database eng self backup_path)"
| "perform eng self (Restore_database backup_path) =
     returning (\<lambda>_. Nothing) (restore_database eng self backup_path)"
| "perform eng self (Get_most_visited_sites limit) =
     returning Rows (get_most_visited_sites eng self limit)"
| "perform eng self (Search_history query limit) =
     returning Rows (search_history eng self query limit)"
| "perform eng self (Delete_history_entry url) =
     returning (\<lambda>_. Nothing) (delete_history_entry eng self url)"
| "perform eng self (Clear_history days) = returning (\<lambda>_. Nothing) (clear_history eng self days)"
| "perform eng self Get_database_size = returning Size (get_database_size eng self)"
| "perform eng self (Export_bookmarks export_path) =
     returning (\<lambda>_. Nothing) (export_bookmarks eng self export_path)"
| "perform eng self (Import_bookmarks import_path) =
     returning (\<lambda>_. Nothing) (import_bookmarks eng self import_path)"
| "perform eng self Get_database_statistics =
     returning Statistics (get_database_statistics eng self)"

text \<open>The methods whose first step is \<open>get_connection\<close>.\<close>

fun connects_first :: "db_call \<Rightarrow> bool" where
  "connects_first Get_database_size = False"
| "connects_first (Restore_database _) = False"
| "connects_first (Import_bookmarks _) = False"
| "connects_first _ = True"

text \<open>
  The connections a call of \<open>get_connection\<close> adds to the list: none when
  \<open>sqlite3.connect\<close> raises, else its own, closed.
\<close>

definition made :: "'d engine \<Rightarrow> aluminum_database \<Rightarrow> 'd db_world \<Rightarrow> (string \<times> bool) list" where
  "made eng self w =
     (case fst (connect eng (db_path self) (store w)) of
        Inl _ \<Rightarrow> []
      | Inr _ \<Rightarrow> [(db_path self, False)])"

text \<open>
  A call of a public method on the object. No method assigns an attribute of the object
  (only \<open>__init__\<close> does), so the object after the call, whether the call returned or
  raised, is the object before it.
\<close>

definition perform_on ::
  "'d engine \<Rightarrow> db_call \<Rightarrow> aluminum_database \<times> 'd db_world
     \<Rightarrow> (exn + db_result) \<times> aluminum_database \<times> 'd db_world" where
  "perform_on eng c = (\<lambda>(self, w). case perform eng self c w of (r, w') \<Rightarrow> (r, self, w'))"

text \<open>\<open>__del__\<close>: \<open>if self.conn: self.conn.close()\<close>\<close>

definition database_del :: "'d engine \<Rightarrow> aluminum_database \<Rightarrow> ('d db_world, unit) action" where
  "database_del eng self w =
     (case conn self of
        None \<Rightarrow> (Inr (), w)
      | Some c \<Rightarrow> close_connection eng (db_path self) c w)"

subsection \<open>An engine for the statements kept with their structure\<close>

text \<open>
  The store of this engine is the database of the object, as it is committed, and the
  state of an open transaction. A \<open>CREATE TABLE\<close> outside a transaction takes effect
  at once; an \<open>INSERT\<close> opens a transaction, which \<open>commit\<close> writes and \<open>close\<close>
  drops. \<open>openable\<close> tells whether \<open>sqlite3.connect\<close> can open a path, \<open>now\<close> is
  the text of \<open>CURRENT_TIMESTAMP\<close>, \<open>main\<close> is the path of the object's database, and
  everything else (the other statements, the backup, the files) is left to an engine
  \<open>rest\<close>.
\<close>

record sqlite_store =
  committed :: database
  pending :: "database option"

definition current :: "sqlite_store \<Rightarrow> database" where
  "current st = (case pending st of None \<Rightarrow> committed st | Some db \<Rightarrow> db)"

definition sqlite_execute_on :: "string \<Rightarrow> sqlite_store engine \<Rightarrow> sql \<Rightarrow> sqlite_store
    \<Rightarrow> (exn + sqlrow list) \<times> sqlite_store" where
  "sqlite_execute_on now rest stmt st =
     (case stmt of
        CreateTableIfNotExists t cols \<Rightarrow>
          (Inr [],
           case pending st of
             None \<Rightarrow> st\<lparr>committed := create_table t cols (committed st)\<rparr>
           | Some db \<Rightarrow> st\<lparr>pending := Some (create_table t cols db)\<rparr>)
      | Insert t assignments on_conflict \<Rightarrow>
          (case insert_row now t assignments on_conflict (current st) of
             Inl e \<Rightarrow> (Inl e, st)
           | Inr db \<Rightarrow> (Inr [], st\<lparr>pending := Some db\<rparr>))
      | Other _ _ \<Rightarrow> execute rest stmt st)"

definition sqlite_engine ::
  "string \<Rightarrow> string \<Rightarrow> (string \<Rightarrow> bool) \<Rightarrow> sqlite_store engine \<Rightarrow> sqlite_store engine" where
  "sqlite_engine now main openable rest =
     rest\<lparr>
       connect := (\<lambda>path st.
         if \<not> openable path then (Inl (OperationalError ''unable to open database file''), st)
         else if path = main then (Inr (), st\<lparr>pending := None\<rparr>)
         else (Inr (), st)),
       close := (\<lambda>path st. if path = main then st\<lparr>pending := None\<rparr> else st),
       execute := sqlite_execute_on now rest,
       commit := (\<lambda>st.
         (Inr (), case pending st of
                    None \<Rightarrow> st
                  | Some db \<Rightarrow> \<lparr> committed = db, pending = None \<rparr>)) \<rparr>"

text \<open>
  One engine for the rest, to run the class on: no other statement fetches a row or
  changes the store, and no file exists.
\<close>

definition idle_engine :: "sqlite_store engine" where
  "idle_engine =
     \<lparr> connect = (\<lambda>path st. (Inr (), st)),
       close = (\<lambda>path st. st),
       execute = (\<lambda>stmt st. (Inr [], st)),
       commit = (\<lambda>st. (Inr (), st)),
       backup = (\<lambda>source target st. (Inr (), st)),
       exists_path = (\<lambda>path st. False),
       getsize = (\<lambda>path st. Inr 0),
       json_dump = (\<lambda>path bookmarks st. (Inr (), st)),
       json_load = (\<lambda>path st. (Inl (OSError ''No such file or directory''), st)) \<rparr>"

text \<open>A new database file \<open>aluminum_data.db\<close>, and the object \<open>AluminumDatabase()\<close>.\<close>

definition new_store :: sqlite_store where
  "new_store = \<lparr> committed = Map.empty, pending = None \<rparr>"

definition default_database :: aluminum_database where
  "default_database = \<lparr> db_path = ''aluminum_data.db'', conn = None \<rparr>"

definition default_engine :: "sqlite_store engine" where
  "default_engine =
     sqlite_engine ''2024-01-01 00:00:00'' ''aluminum_data.db'' (\<lambda>path. True) idle_engine"

section \<open>AluminumCodingUtility\<close>

text \<open>
  The arguments of a method are Python objects of any type (the annotations are not
  checked); the value every method returns is \<open>None\<close>.
\<close>

datatype pyvalue =
    PyNone
  | PyBool bool
  | PyInt int
  | PyStr string
  | PyList "pyvalue list"

record coding_utility =
  language_extensions :: "(string \<times> string) list"
  code_snippets :: "(string \<times> pyvalue) list"
  api_endpoints :: "(string \<times> pyvalue) list"
  current_project :: pyvalue

definition coding_utility_init :: coding_utility where
  "coding_utility_init =
     \<lparr> language_extensions =
         [(''python'', ''.py''), (''javascript'', ''.js''), (''html'', ''.html''),
          (''css'', ''.css''), (''java'', ''.java''), (''c++'', ''.cpp''), (''ruby'', ''.rb''),
          (''php'', ''.php''), (''swift'', ''.swift''), (''go'', ''.go''), (''rust'', ''.rs''),
          (''typescript'', ''.ts'')],
       code_snippets = [], api_endpoints = [], current_project = PyNone \<rparr>"

text \<open>
  A call of a method other than \<open>__init__\<close>: the method and its arguments. The body of
  each is \<open>pass\<close> (after a docstring and comments), so the call returns \<open>None\<close>
  and the object is as before.
\<close>

datatype method_call =
    Detect_language pyvalue
  | Format_code pyvalue pyvalue
  | Generate_documentation pyvalue pyvalue
  | Analyze_complexity pyvalue
  | Suggest_optimizations pyvalue pyvalue
  | Search_documentation pyvalue pyvalue
  | Generate_unit_tests pyvalue pyvalue
  | Lint_code pyvalue pyvalue
  | Encrypt_code pyvalue pyvalue
  | Decrypt_code pyvalue pyvalue
  | Compress_code pyvalue
  | Decompress_code pyvalue
  | Convert_language pyvalue pyvalue pyvalue
  | Generate_api_documentation pyvalue pyvalue
  | Analyze_dependencies pyvalue pyvalue
  | Generate_code_snippet pyvalue pyvalue
  | Analyze_code_quality pyvalue pyvalue
  | Generate_commit_message pyvalue
  | Suggest_code_reviews pyvalue pyvalue
  | Generate_code_metrics pyvalue pyvalue
  | Suggest_refactoring pyvalue pyvalue
  | Generate_code_summary pyvalue pyvalue
  | Detect_security_vulnerabilities pyvalue pyvalue
  | Generate_performance_profile pyvalue pyvalue
  | Suggest_design_patterns pyvalue pyvalue
  | Generate_code_visualization pyvalue pyvalue
  | Analyze_code_similarity pyvalue pyvalue pyvalue
  | Generate_code_documentation_website pyvalue pyvalue
  | Suggest_code_completions pyvalue pyvalue pyvalue
  | Generate_code_quiz pyvalue pyvalue
  | Suggest_code_optimizations pyvalue pyvalue
  | Generate_code_documentation_pdf pyvalue pyvalue
  | Analyze_code_readability pyvalue pyvalue

fun invoke :: "coding_utility \<Rightarrow> method_call \<Rightarrow> pyvalue \<times> coding_utility" where
  "invoke self (Detect_language code) = (PyNone, self)"
| "invoke self (Format_code code language) = (PyNone, self)"
| "invoke self (Generate_documentation code language) = (PyNone, self)"
| "invoke self (Analyze_complexity code) = (PyNone, self)"
| "invoke self (Suggest_optimizations code language) = (PyNone, self)"
| "invoke self (Search_documentation query language) = (PyNone, self)"
| "invoke self (Generate_unit_tests code language) = (PyNone, self)"
| "invoke self (Lint_code code language) = (PyNone, self)"
| "invoke self (Encrypt_code code key) = (PyNone, self)"
| "invoke self (Decrypt_code encrypted_code key) = (PyNone, self)"
| "invoke self (Compress_code code) = (PyNone, self)"
| "invoke self (Decompress_code compressed_code) = (PyNone, self)"
| "invoke self (Convert_language code from_language to_language) = (PyNone, self)"
| "invoke self (Generate_api_documentation code language) = (PyNone, self)"
| "invoke self (Analyze_dependencies code language) = (PyNone, self)"
| "invoke self (Generate_code_snippet description language) = (PyNone, self)"
| "invoke self (Analyze_code_quality code language) = (PyNone, self)"
| "invoke self (Generate_commit_message diff) = (PyNone, self)"
| "invoke self (Suggest_code_reviews code language) = (PyNone, self)"
| "invoke self (Generate_code_metrics code language) = (PyNone, self)"
| "invoke self (Suggest_refactoring code language) = (PyNone, self)"
| "invoke self (Generate_code_summary code language) = (PyNone, self)"
| "invoke self (Detect_security_vulnerabilities code language) = (PyNone, self)"
| "invoke self (Generate_performance_profile code language) = (PyNone, self)"
| "invoke self (Suggest_design_patterns code language) = (PyNone, self)"
| "invoke self (Generate_code_visualization code language) = (PyNone, self)"
| "invoke self (Analyze_code_similarity code1 code2 language) = (PyNone, self)"
| "invoke self (Generate_code_documentation_website code language) = (PyNone, self)"
| "invoke self (Suggest_code_completions code cursor_position language) = (PyNone, self)"
| "invoke self (Generate_code_quiz code language) = (PyNone, self)"
| "invoke self (Suggest_code_optimizations code language) = (PyNone, self)"
| "invoke self (Generate_code_documentation_pdf code language) = (PyNone, self)"
| "invoke self (Analyze_code_readability code language) = (PyNone, self)"

section \<open>Properties of the floating-point arithmetic\<close>

text \<open>
  The search for the binade finds it, and rounding a number of the normal range changes
  it by at most the fraction \<open>2 ^ (- 53)\<close> of itself.
\<close>

lemma log2_ge1_spec: "1 \<le> x \<Longrightarrow> 2 ^ log2_ge1 x \<le> x \<and> x < 2 ^ Suc (log2_ge1 x)"
proof (induction x rule: log2_ge1.induct)
  case (1 x)
  show ?case
  proof (cases "x < 2")
    case True
    with 1(2) show ?thesis by (simp add: log2_ge1.simps)
  next
    case False
    then have "1 \<le> x / 2" by simp
    from 1(1) [OF False this] False show ?thesis
      by (simp add: log2_ge1.simps [of x])
  qed
qed

lemma log2_lt1_spec:
  "0 < x \<Longrightarrow> x < 1 \<Longrightarrow> 1 \<le> x * 2 ^ log2_lt1 x \<and> x * 2 ^ log2_lt1 x < 2"
proof (induction x rule: log2_lt1.induct)
  case (1 x)
  have step: "log2_lt1 x = Suc (log2_lt1 (2 * x))"
    using 1(2,3) by (simp add: log2_lt1.simps [of x])
  show ?case
  proof (cases "2 * x < 1")
    case True
    from 1(1) [OF _ _ True] 1(2,3) show ?thesis
      by (simp add: step mult.assoc mult.left_commute)
  next
    case False
    then have "log2_lt1 (2 * x) = 0"
      by (simp add: log2_lt1.simps [of "2 * x"])
    with False 1(3) show ?thesis
      by (simp add: step)
  qed
qed

lemma binade_spec:
  assumes "0 < x"
  shows "2 powi binade x \<le> x \<and> x < 2 powi (binade x + 1)"
proof (cases "1 \<le> x")
  case True
  with log2_ge1_spec [OF True] show ?thesis
    by (simp add: binade_def power_int_add)
next
  case False
  then have "x < 1" by simp
  from log2_lt1_spec [OF assms this]
  have lo: "1 \<le> x * 2 ^ log2_lt1 x" and hi: "x * 2 ^ log2_lt1 x < 2"
    by simp_all
  have pos: "(0 :: real) < 2 ^ log2_lt1 x" by simp
  have "(2 :: real) powi binade x = 1 / 2 ^ log2_lt1 x"
    using False by (simp add: binade_def power_int_minus field_simps)
  moreover have "(2 :: real) powi (binade x + 1) = 2 powi binade x * 2"
    by (simp add: power_int_add)
  moreover have "1 / 2 ^ log2_lt1 x \<le> x"
    using lo pos by (simp add: field_simps)
  moreover have "x < 2 / 2 ^ log2_lt1 x"
    using hi pos by (simp add: field_simps)
  ultimately show ?thesis by simp
qed

lemma round_half_even_error: "\<bar>of_int (round_half_even y) - y\<bar> \<le> 1 / 2"
  unfolding round_half_even_def Let_def by (auto; linarith)

lemma nearest_error:
  assumes "1 / 2 ^ 1022 \<le> x"
  shows "\<bar>nearest x - x\<bar> \<le> x / 2 ^ 53"
proof -
  have pos: "0 < x"
    using assms by (rule less_le_trans [rotated]) simp
  from binade_spec [OF pos]
  have lo: "2 powi binade x \<le> x" and hi: "x < 2 powi (binade x + 1)"
    by simp_all
  have "- 1022 \<le> binade x"
  proof (rule ccontr)
    assume "\<not> - 1022 \<le> binade x"
    then have "binade x + 1 \<le> - 1022"
      by simp
    then have "(2 :: real) powi (binade x + 1) \<le> 2 powi (- 1022)"
      by (rule power_int_increasing) simp
    also have "\<dots> = 1 / 2 ^ 1022"
      by (simp add: power_int_minus field_simps)
    finally show False
      using hi assms by simp
  qed
  then have e: "max (binade x - 52) (- 1074) = binade x - 52"
    by simp
  define p :: real where "p = 2 powi (binade x - 52)"
  have p: "0 < p"
    by (simp add: p_def)
  have inv: "2 powi (- (binade x - 52)) = 1 / p"
    unfolding p_def by (simp only: power_int_minus inverse_eq_divide)
  then have inv': "2 powi (52 - binade x) = 1 / p"
    by simp
  define m where "m = round_half_even (x / p)"
  have near: "nearest x = of_int m * p"
    using pos by (simp add: nearest_def e Let_def m_def inv' flip: p_def)
  have "\<bar>of_int m - x / p\<bar> \<le> 1 / 2"
    unfolding m_def by (rule round_half_even_error)
  then have "\<bar>of_int m - x / p\<bar> * p \<le> 1 / 2 * p"
    using p by (simp only: mult_le_cancel_right_pos)
  moreover have "(of_int m - x / p) * p = of_int m * p - x"
    using p by (simp add: left_diff_distrib)
  then have "\<bar>of_int m - x / p\<bar> * p = \<bar>of_int m * p - x\<bar>"
    using p abs_mult [of "of_int m - x / p" p] by simp
  ultimately have "\<bar>of_int m * p - x\<bar> \<le> p / 2"
    by simp
  moreover have "p * 2 ^ 52 = 2 powi binade x"
    unfolding p_def by (simp add: power_int_diff)
  then have "p / 2 = 2 powi binade x / 2 ^ 53"
    by (simp add: field_simps)
  moreover have "2 powi binade x / 2 ^ 53 \<le> x / 2 ^ 53"
    using lo by (simp add: divide_right_mono)
  ultimately show ?thesis
    using near by simp
qed

lemma to_double_finite:
  assumes "1 / 2 ^ 1022 \<le> x" and "x \<le> 2 ^ 1023"
  shows "\<exists>y. to_double s x = Finite s y \<and> \<bar>y - x\<bar> \<le> x / 2 ^ 53"
proof -
  have pos: "0 < x"
    using assms(1) by (rule less_le_trans [rotated]) simp
  have err: "\<bar>nearest x - x\<bar> \<le> x / 2 ^ 53"
    using assms(1) by (rule nearest_error)
  have "x / 2 ^ 53 < x"
    using pos by (simp add: field_simps)
  with err have "nearest x < 2 * x"
    by linarith
  also have "\<dots> \<le> 2 * 2 ^ 1023"
    using assms(2) by simp
  also have "\<dots> = (2 :: real) ^ 1024"
    by simp
  finally have "\<not> 2 ^ 1024 \<le> nearest x"
    by simp
  then have "to_double s x = Finite s (nearest x)"
    by (simp add: to_double_def Let_def)
  with err show ?thesis
    by blast
qed

lemma round_step:
  assumes t: "1 / 2 ^ 991 \<le> t" "t \<le> 2 ^ 991"
    and r: "lo * t \<le> r" "r \<le> hi * t"
    and bounds: "1 / 2 \<le> lo" "hi \<le> 2"
  shows "\<exists>y. to_double s r = Finite s y
           \<and> (1 - 1 / 2 ^ 53) * lo * t \<le> y \<and> y \<le> (1 + 1 / 2 ^ 53) * hi * t"
proof -
  have pos: "0 < t"
    using t(1) by (rule less_le_trans [rotated]) simp
  have "1 / 2 * t \<le> lo * t"
    using bounds(1) pos by (simp only: mult_le_cancel_right_pos)
  with r(1) have "1 / 2 * (1 / 2 ^ 991) \<le> r"
    using t(1) by linarith
  then have low: "1 / 2 ^ 1022 \<le> r"
    by (rule order_trans [rotated]) simp
  have "hi * t \<le> 2 * t"
    using bounds(2) pos by (simp only: mult_le_cancel_right_pos)
  with r(2) have "r \<le> 2 * 2 ^ 991"
    using t(2) by linarith
  then have high: "r \<le> 2 ^ 1023"
    by (rule order_trans) simp
  from to_double_finite [OF low high, of s]
  obtain y where y: "to_double s r = Finite s y" "\<bar>y - r\<bar> \<le> r / 2 ^ 53"
    by blast
  have "(1 - 1 / 2 ^ 53) * (lo * t) \<le> (1 - 1 / 2 ^ 53) * r"
    using r(1) by (intro mult_left_mono) simp_all
  moreover have "(1 + 1 / 2 ^ 53) * r \<le> (1 + 1 / 2 ^ 53) * (hi * t)"
    using r(2) by (intro mult_left_mono) simp_all
  moreover have "r - r / 2 ^ 53 \<le> y" "y \<le> r + r / 2 ^ 53"
    using y(2) by linarith+
  then have "(1 - 1 / 2 ^ 53) * r \<le> y" "y \<le> (1 + 1 / 2 ^ 53) * r"
    by (simp_all add: algebra_simps)
  ultimately have "(1 - 1 / 2 ^ 53) * lo * t \<le> y \<and> y \<le> (1 + 1 / 2 ^ 53) * hi * t"
    by (simp add: mult.assoc)
  with y(1) show ?thesis
    by blast
qed

lemma float_literal_bounds:
  assumes "1 / 1000000 \<le> r" and "r \<le> 1610"
  shows "\<exists>f. float_literal r = Finite False f \<and> 1 / 2 ^ 20 \<le> f \<and> f \<le> 2 ^ 11"
proof -
  have "1 / 2 ^ 1022 \<le> r"
    using assms(1) by (rule order_trans [rotated]) simp
  moreover have "r \<le> 2 ^ 1023"
    using assms(2) by (rule order_trans) simp
  ultimately obtain f where f: "to_double False r = Finite False f" "\<bar>f - r\<bar> \<le> r / 2 ^ 53"
    using to_double_finite by blast
  from f(2) have "r - r / 2 ^ 53 \<le> f" "f \<le> r + r / 2 ^ 53"
    by linarith+
  with assms have "1 / 2 ^ 20 \<le> f \<and> f \<le> 2 ^ 11"
    by simp
  with f(1) show ?thesis
    by (simp add: float_literal_def)
qed

lemma factor_bounds:
  assumes "category \<in> {length_units, weight_units, volume_units}" and "category u = Some fu"
  shows "\<exists>f. fu = Finite False f \<and> 1 / 2 ^ 20 \<le> f \<and> f \<le> 2 ^ 11"
proof -
  define ok where "ok d \<longleftrightarrow> (\<exists>f. d = Finite False f \<and> 1 / 2 ^ 20 \<le> f \<and> f \<le> 2 ^ 11)" for d
  have literal: "ok (float_literal r)" if "1 / 1000000 \<le> r" and "r \<le> 1610" for r
    unfolding ok_def using that by (rule float_literal_bounds)
  from assms have "ok fu"
    by (auto simp: length_units_def weight_units_def volume_units_def split: if_splits
        intro!: literal)
  then show ?thesis
    by (simp only: ok_def)
qed

text \<open>The definitions that evaluate the rounding of a given number.\<close>

lemmas ieee_defs =
  to_double_def nearest_def binade_def log2_ge1.simps log2_lt1.simps round_half_even_def
  float_literal_def Let_def

section \<open>Properties of the expression evaluator\<close>

lemmas calc_defs =
  expression_rpn_def safe_eval_def
  lower_def lower_char_def is_lower_def is_digit_def valid_char_def
  replace_def lex_number_def is_number_token_def
  infix_to_rpn_def shunt_def precedence_def get_supported_functions_def
  evaluate_rpn_def rpn_step_def push_result_def get_function_args_def apply_function_def
  call1_def arg_def bindE_def Let_def

lemma substitute_init_unfold:
  "substitute_constants (constants init) s =
     replace (replace (replace (replace (replace s ''pi'' ''3.141592653589793'')
       ''e'' ''2.718281828459045'') ''phi'' ''1.618033988749895'') ''c'' ''299792458'')
       ''g'' ''9.80665''"
  by (simp add: substitute_constants_def init_def)

lemma evaluate_result:
  assumes "substitute_constants (constants self) expression = text"
    and "safe_eval rt text = r"
  shows "evaluate rt self expression =
     (case r of
        Inr result \<Rightarrow> (Inr result, self\<lparr>history := history self @ [(text, result)]\<rparr>)
      | Inl e \<Rightarrow> (Inl (''Error: '' @ str_exn e), self))"
  using assms by (simp add: evaluate_def Let_def)

lemma rpn_loop_append:
  "rpn_loop rt (xs @ ys) stack =
     (case rpn_loop rt xs stack of Inl e \<Rightarrow> Inl e | Inr stack' \<Rightarrow> rpn_loop rt ys stack')"
  by (induction xs arbitrary: stack) (auto split: sum.splits)

lemma rpn_step_division_by_zero:
  "eq_zero b \<Longrightarrow> rpn_step rt ''/'' (b # a # stack) = Inl (ValueError ''Division by zero'')"
  by (simp add: rpn_step_def is_number_token_def replace_def is_digit_def
      get_supported_functions_def)

lemma operator_precedence:
  "precedence op = Some p \<Longrightarrow>
     (op, p) \<in> {(''+'', 1), (''-'', 1), (''*'', 2), (''/'', 2), (''^'', 3)}"
  by (auto simp: precedence_def split: if_splits)

lemma shunt_number:
  "is_number_token token \<Longrightarrow> shunt token (output, operators) = Inr (output @ [token], operators)"
  by (simp add: shunt_def)

lemma shunt_operator:
  "precedence op = Some p \<Longrightarrow>
     shunt op (output, operators) =
       (case pop_higher p output operators of
          (output', operators') \<Rightarrow> Inr (output', op # operators'))"
  by (drule operator_precedence)
    (auto simp: shunt_def is_number_token_def replace_def is_digit_def
      get_supported_functions_def precedence_def)

lemma infix_to_rpn_two_operators:
  assumes "is_number_token a" and "is_number_token b" and "is_number_token c"
    and o1: "precedence o1 = Some p" and o2: "precedence o2 = Some q"
  shows "infix_to_rpn [a, o1, b, o2, c] =
     Inr (if p \<ge> q then [a, b, o1, c, o2] else [a, b, c, o2, o1])"
proof -
  have "o1 \<noteq> ''(''"
    using operator_precedence [OF o1] by auto
  then show ?thesis
    using assms by (simp add: infix_to_rpn_def shunt_number shunt_operator)
qed

lemma safe_eval_2_plus_3_times_4:
  "safe_eval rt ''2+3*4'' =
     bindE (float_of rt ''2'') (\<lambda>a. bindE (float_of rt ''3'') (\<lambda>b.
     bindE (float_of rt ''4'') (\<lambda>c. bindE (operator rt ''*'' b c) (\<lambda>p.
     operator rt ''+'' a p))))"
  by (simp add: calc_defs split: sum.splits)

lemma safe_eval_2_times_3_plus_4:
  "safe_eval rt ''2*3+4'' =
     bindE (float_of rt ''2'') (\<lambda>a. bindE (float_of rt ''3'') (\<lambda>b.
     bindE (operator rt ''*'' a b) (\<lambda>p. bindE (float_of rt ''4'') (\<lambda>c.
     operator rt ''+'' p c))))"
  by (simp add: calc_defs split: sum.splits)

lemma safe_eval_8_minus_3_minus_2:
  "safe_eval rt ''8-3-2'' =
     bindE (float_of rt ''8'') (\<lambda>a. bindE (float_of rt ''3'') (\<lambda>b.
     bindE (operator rt ''-'' a b) (\<lambda>d. bindE (float_of rt ''2'') (\<lambda>c.
     operator rt ''-'' d c))))"
  by (simp add: calc_defs split: sum.splits)

lemma python_float_of: "float_of (python library) = py_float"
  by (simp add: python_def)

lemma python_operator:
  "operator (python library) ''+'' (PyFloat x) (PyFloat y) = Inr (PyFloat (double_add x y))"
  "operator (python library) ''-'' (PyFloat x) (PyFloat y) = Inr (PyFloat (double_sub x y))"
  "operator (python library) ''*'' (PyFloat x) (PyFloat y) = Inr (PyFloat (double_mul x y))"
  "operator (python library) ''/'' (PyFloat x) (PyFloat y) =
     (if is_zero y then Inl (ZeroDivisionError ''float division by zero'')
      else Inr (PyFloat (double_div x y)))"
  by (simp_all add: python_def float_operator_def)

lemma py_float_digit:
  "py_float ''0'' = Inr (PyFloat (Finite False 0))"
  "py_float ''1'' = Inr (PyFloat (Finite False 1))"
  "py_float ''2'' = Inr (PyFloat (Finite False 2))"
  "py_float ''3'' = Inr (PyFloat (Finite False 3))"
  "py_float ''4'' = Inr (PyFloat (Finite False 4))"
  "py_float ''8'' = Inr (PyFloat (Finite False 8))"
  by (simp_all add: py_float_def is_number_token_def replace_def is_digit_def decimal_def
      digits_val_def digit_val_def ieee_defs)

lemma decimal_tenths:
  "decimal ''0.1'' = 1 / 10" "decimal ''0.2'' = 1 / 5" "decimal ''0.3'' = 3 / 10"
  by (simp_all add: decimal_def digits_val_def digit_val_def)

lemma nearest_tenths:
  "to_double False (1 / 10) = Finite False (3602879701896397 / 2 ^ 55)"
  "to_double False (1 / 5) = Finite False (3602879701896397 / 2 ^ 54)"
  "to_double False (3 / 10) = Finite False (5404319552844595 / 2 ^ 54)"
  by (simp_all add: ieee_defs)

lemma py_float_tenths:
  "py_float ''0.1'' = Inr (PyFloat (Finite False (3602879701896397 / 2 ^ 55)))"
  "py_float ''0.2'' = Inr (PyFloat (Finite False (3602879701896397 / 2 ^ 54)))"
  "py_float ''0.3'' = Inr (PyFloat (Finite False (5404319552844595 / 2 ^ 54)))"
  by (simp_all add: py_float_def is_number_token_def replace_def is_digit_def
      decimal_tenths nearest_tenths)

lemma small_numbers:
  "double_mul (Finite False 3) (Finite False 4) = Finite False 12"
  "double_add (Finite False 2) (Finite False 12) = Finite False 14"
  "double_mul (Finite False 2) (Finite False 3) = Finite False 6"
  "double_add (Finite False 6) (Finite False 4) = Finite False 10"
  "double_sub (Finite False 8) (Finite False 3) = Finite False 5"
  "double_sub (Finite False 5) (Finite False 2) = Finite False 3"
  "double_add (Finite False 2) (Finite False 3) = Finite False 5"
  "double_mul (Finite False 5) (Finite False 4) = Finite False 20"
  by (simp_all add: double_sub_def double_of_real_def ieee_defs)

lemmas python_steps =
  python_float_of py_float_digit python_operator small_numbers bindE_def sum.case

lemma python_values:
  "safe_eval (python library) ''2+3*4'' = Inr (PyFloat (Finite False 14))"
  "safe_eval (python library) ''2*3+4'' = Inr (PyFloat (Finite False 10))"
  "safe_eval (python library) ''8-3-2'' = Inr (PyFloat (Finite False 3))"
  by (simp_all only: safe_eval_2_plus_3_times_4 safe_eval_2_times_3_plus_4
      safe_eval_8_minus_3_minus_2 python_steps)

lemma safe_eval_parentheses:
  "safe_eval rt ''(2+3)*4'' =
     bindE (float_of rt ''2'') (\<lambda>a. bindE (float_of rt ''3'') (\<lambda>b.
     bindE (operator rt ''+'' a b) (\<lambda>p. bindE (float_of rt ''4'') (\<lambda>c.
     operator rt ''*'' p c))))"
  by (simp add: calc_defs split: sum.splits)

lemma python_parentheses:
  "safe_eval (python library) ''(2+3)*4'' = Inr (PyFloat (Finite False 20))"
  by (simp only: safe_eval_parentheses python_steps)

text \<open>
  The floats are rounded as the interpreter rounds them: \<open>0.1 + 0.2 - 0.3\<close> is not
  zero but \<open>2 ^ (- 54)\<close>, and its reciprocal is \<open>18014398509481984.0\<close>.
\<close>

lemma safe_eval_reciprocal:
  "safe_eval rt ''1/(0.1+0.2-0.3)'' =
     bindE (float_of rt ''1'') (\<lambda>a. bindE (float_of rt ''0.1'') (\<lambda>b.
     bindE (float_of rt ''0.2'') (\<lambda>c. bindE (operator rt ''+'' b c) (\<lambda>d.
     bindE (float_of rt ''0.3'') (\<lambda>e. bindE (operator rt ''-'' d e) (\<lambda>f.
     if eq_zero f then Inl (ValueError ''Division by zero'') else operator rt ''/'' a f))))))"
  by (simp add: calc_defs split: sum.splits)

lemma rounded_difference:
  "double_sub (double_add (Finite False (3602879701896397 / 2 ^ 55))
       (Finite False (3602879701896397 / 2 ^ 54))) (Finite False (5404319552844595 / 2 ^ 54))
     = Finite False (1 / 2 ^ 54)"
  by (simp add: double_sub_def double_of_real_def ieee_defs)

lemma reciprocal: "double_div (Finite False 1) (Finite False (1 / 2 ^ 54)) = Finite False (2 ^ 54)"
  by (simp add: ieee_defs)

lemma rounding_is_kept:
  "safe_eval (python library) ''1/(0.1+0.2-0.3)'' = Inr (PyFloat (Finite False (2 ^ 54)))"
proof -
  have "\<not> is_zero (Finite False (1 / 2 ^ 54))"
    by simp
  then show ?thesis
    by (simp only: safe_eval_reciprocal python_float_of py_float_digit py_float_tenths
        python_operator rounded_difference reciprocal bindE_def sum.case eq_zero.simps if_False)
qed

text \<open>
  C1. The expression \<open>2+3*4\<close> evaluates to 14.0. Its reverse Polish notation is
  \<open>2 3 4 * +\<close>: for every runtime the product of the floats of \<open>3\<close> and \<open>4\<close> is
  taken first and added to the float of \<open>2\<close>, and on floats that is 14.0, which
  \<open>evaluate\<close> returns and records in the history. The operator that comes first is
  applied first when its precedence is not lower: \<open>2*3+4\<close> is \<open>2 3 * 4 +\<close> and
  10.0, and \<open>8-3-2\<close> is 3.0. With parentheses, \<open>(2+3)*4\<close> is 20.0. In general, for
  three numbers and two operators, the first operator is applied first if and only if
  its precedence is at least that of the second.
\<close>

theorem precedence_2_plus_3_times_4:
  "expression_rpn ''2+3*4'' = Inr [''2'', ''3'', ''4'', ''*'', ''+'']
   \<and> safe_eval rt ''2+3*4'' =
       bindE (float_of rt ''2'') (\<lambda>a. bindE (float_of rt ''3'') (\<lambda>b.
       bindE (float_of rt ''4'') (\<lambda>c. bindE (operator rt ''*'' b c) (\<lambda>p.
       operator rt ''+'' a p))))
   \<and> safe_eval (python library) ''2+3*4'' = Inr (PyFloat (Finite False 14))
   \<and> evaluate (python library) init ''2+3*4''
       = (Inr (PyFloat (Finite False 14)),
          init\<lparr>history := [(''2+3*4'', PyFloat (Finite False 14))]\<rparr>)
   \<and> expression_rpn ''2*3+4'' = Inr [''2'', ''3'', ''*'', ''4'', ''+'']
   \<and> safe_eval (python library) ''2*3+4'' = Inr (PyFloat (Finite False 10))
   \<and> expression_rpn ''8-3-2'' = Inr [''8'', ''3'', ''-'', ''2'', ''-'']
   \<and> safe_eval (python library) ''8-3-2'' = Inr (PyFloat (Finite False 3))
   \<and> safe_eval (python library) ''(2+3)*4'' = Inr (PyFloat (Finite False 20))
   \<and> (\<forall>a b c o1 o2 p q.
         is_number_token a \<and> is_number_token b \<and> is_number_token c
         \<and> precedence o1 = Some p \<and> precedence o2 = Some q
         \<longrightarrow> infix_to_rpn [a, o1, b, o2, c]
               = Inr (if p \<ge> q then [a, b, o1, c, o2] else [a, b, c, o2, o1]))"
proof -
  have rpn: "expression_rpn ''2+3*4'' = Inr [''2'', ''3'', ''4'', ''*'', ''+'']"
    "expression_rpn ''2*3+4'' = Inr [''2'', ''3'', ''*'', ''4'', ''+'']"
    "expression_rpn ''8-3-2'' = Inr [''8'', ''3'', ''-'', ''2'', ''-'']"
    by (simp_all add: calc_defs)
  have unchanged: "substitute_constants (constants init) ''2+3*4'' = ''2+3*4''"
    by (simp add: substitute_init_unfold replace_def)
  have "evaluate (python library) init ''2+3*4''
       = (Inr (PyFloat (Finite False 14)),
          init\<lparr>history := [(''2+3*4'', PyFloat (Finite False 14))]\<rparr>)"
    by (simp add: evaluate_result [OF unchanged python_values(1)]) (simp add: init_def)
  moreover have "\<forall>a b c o1 o2 p q.
         is_number_token a \<and> is_number_token b \<and> is_number_token c
         \<and> precedence o1 = Some p \<and> precedence o2 = Some q
         \<longrightarrow> infix_to_rpn [a, o1, b, o2, c]
               = Inr (if p \<ge> q then [a, b, o1, c, o2] else [a, b, c, o2, o1])"
    using infix_to_rpn_two_operators by blast
  ultimately show ?thesis
    using rpn safe_eval_2_plus_3_times_4 [of rt] python_values [of library]
      python_parentheses [of library]
    by (intro conjI)
qed

theorem precedence_2_plus_3_times_4_witness:
  "is_number_token ''2'' \<and> is_number_token ''3'' \<and> is_number_token ''4''
   \<and> precedence ''+'' = Some 1 \<and> precedence ''*'' = Some 2
   \<and> infix_to_rpn [''2'', ''+'', ''3'', ''*'', ''4''] = Inr [''2'', ''3'', ''4'', ''*'', ''+'']
   \<and> infix_to_rpn [''2'', ''*'', ''3'', ''+'', ''4''] = Inr [''2'', ''3'', ''*'', ''4'', ''+'']
   \<and> infix_to_rpn [''8'', ''-'', ''3'', ''-'', ''2''] = Inr [''8'', ''3'', ''-'', ''2'', ''-'']"
proof -
  have numbers: "is_number_token ''2''" "is_number_token ''3''" "is_number_token ''4''"
    "is_number_token ''8''"
    by (simp_all add: is_number_token_def replace_def is_digit_def)
  have operators: "precedence ''+'' = Some 1" "precedence ''*'' = Some 2"
    "precedence ''-'' = Some 1"
    by (simp_all add: precedence_def)
  note general = precedence_2_plus_3_times_4 [THEN conjunct2,
      THEN conjunct2, THEN conjunct2, THEN conjunct2, THEN conjunct2, THEN conjunct2,
      THEN conjunct2, THEN conjunct2, THEN conjunct2, rule_format]
  from general [of "''2''" "''3''" "''4''" "''+''" 1 "''*''" 2]
    general [of "''2''" "''3''" "''4''" "''*''" 2 "''+''" 1]
    general [of "''8''" "''3''" "''2''" "''-''" 1 "''-''" 1]
    numbers operators
  show ?thesis
    by simp
qed

text \<open>
  C4. When the evaluation of a reverse Polish input reaches a division with the values
  \<open>a\<close> and \<open>b\<close> on top of the stack and \<open>b == 0\<close>, \<open>_evaluate_rpn\<close> raises
  \<open>ValueError("Division by zero")\<close>, whatever follows the division and whatever the
  runtime computes (so for the floats as the interpreter rounds them). Hence
  \<open>_safe_eval\<close> raises it for every expression with such a reverse Polish notation,
  and \<open>evaluate\<close> returns the error text and leaves the calculator as it was.
\<close>

theorem division_by_zero_raises:
  assumes reach: "rpn_loop rt pre [] = Inr (b # a # stack)"
    and zero: "eq_zero b"
  shows "rpn_step rt ''/'' (b # a # stack) = Inl (ValueError ''Division by zero'')
    \<and> evaluate_rpn rt (pre @ ''/'' # rest) = Inl (ValueError ''Division by zero'')
    \<and> (\<forall>expression. expression_rpn expression = Inr (pre @ ''/'' # rest)
          \<longrightarrow> safe_eval rt expression = Inl (ValueError ''Division by zero''))
    \<and> (\<forall>self expression.
          expression_rpn (substitute_constants (constants self) expression)
            = Inr (pre @ ''/'' # rest)
          \<longrightarrow> evaluate rt self expression = (Inl ''Error: Division by zero'', self))"
proof -
  have step: "rpn_step rt ''/'' (b # a # stack) = Inl (ValueError ''Division by zero'')"
    using zero by (rule rpn_step_division_by_zero)
  have raise: "evaluate_rpn rt (pre @ ''/'' # rest) = Inl (ValueError ''Division by zero'')"
    using reach by (simp add: evaluate_rpn_def rpn_loop_append step)
  then show ?thesis
    using step by (simp add: safe_eval_def evaluate_def bindE_def)
qed

theorem division_by_zero_raises_witness:
  "\<forall>library.
     rpn_loop (python library) [''1'', ''0''] []
       = Inr [PyFloat (Finite False 0), PyFloat (Finite False 1)]
     \<and> eq_zero (PyFloat (Finite False 0))
     \<and> expression_rpn ''1/0'' = Inr [''1'', ''0'', ''/'']
     \<and> evaluate_rpn (python library) [''1'', ''0'', ''/''] = Inl (ValueError ''Division by zero'')
     \<and> safe_eval (python library) ''1/0'' = Inl (ValueError ''Division by zero'')
     \<and> evaluate (python library) init ''1/0'' = (Inl ''Error: Division by zero'', init)"
proof
  fix library
  have reach: "rpn_loop (python library) [''1'', ''0''] []
       = Inr [PyFloat (Finite False 0), PyFloat (Finite False 1)]"
    by (simp add: rpn_step_def is_number_token_def replace_def is_digit_def
        python_float_of py_float_digit bindE_def)
  have zero: "eq_zero (PyFloat (Finite False 0))"
    by simp
  have rpn: "expression_rpn ''1/0'' = Inr ([''1'', ''0''] @ ''/'' # [])"
    by (simp add: calc_defs)
  have subst: "substitute_constants (constants init) ''1/0'' = ''1/0''"
    by (simp add: substitute_init_unfold replace_def)
  from division_by_zero_raises [OF reach zero, of "[]"] rpn subst reach zero
  show "rpn_loop (python library) [''1'', ''0''] []
       = Inr [PyFloat (Finite False 0), PyFloat (Finite False 1)]
     \<and> eq_zero (PyFloat (Finite False 0))
     \<and> expression_rpn ''1/0'' = Inr [''1'', ''0'', ''/'']
     \<and> evaluate_rpn (python library) [''1'', ''0'', ''/''] = Inl (ValueError ''Division by zero'')
     \<and> safe_eval (python library) ''1/0'' = Inl (ValueError ''Division by zero'')
     \<and> evaluate (python library) init ''1/0'' = (Inl ''Error: Division by zero'', init)"
    by simp
qed

lemma replace_removes_char:
  "c \<notin> set new \<Longrightarrow> c \<notin> set (replace s [c] new)"
  by (induction s) (auto simp: replace_def)

lemma replace_keeps_absent:
  "c \<notin> set s \<Longrightarrow> c \<notin> set new \<Longrightarrow> old \<noteq> [] \<Longrightarrow> c \<notin> set (replace s old new)"
proof (induction s old new rule: replace_nonempty.induct)
  case (1 old new)
  then show ?case by (simp add: replace_def)
next
  case (2 x xs old new)
  then show ?case
    by (auto simp: replace_def dest: in_set_dropD)
qed

lemma substituted_no_letters:
  "set (substitute_constants (constants init) s) \<inter> {CHR ''c'', CHR ''e'', CHR ''g''} = {}"
proof -
  let ?s1 = "replace s ''pi'' ''3.141592653589793''"
  let ?s2 = "replace ?s1 ''e'' ''2.718281828459045''"
  let ?s3 = "replace ?s2 ''phi'' ''1.618033988749895''"
  let ?s4 = "replace ?s3 ''c'' ''299792458''"
  let ?s5 = "replace ?s4 ''g'' ''9.80665''"
  have e2: "CHR ''e'' \<notin> set ?s2" by (rule replace_removes_char) simp
  have e3: "CHR ''e'' \<notin> set ?s3" by (rule replace_keeps_absent [OF e2]) simp_all
  have e4: "CHR ''e'' \<notin> set ?s4" by (rule replace_keeps_absent [OF e3]) simp_all
  have e5: "CHR ''e'' \<notin> set ?s5" by (rule replace_keeps_absent [OF e4]) simp_all
  have c4: "CHR ''c'' \<notin> set ?s4" by (rule replace_removes_char) simp
  have c5: "CHR ''c'' \<notin> set ?s5" by (rule replace_keeps_absent [OF c4]) simp_all
  have g5: "CHR ''g'' \<notin> set ?s5" by (rule replace_removes_char) simp
  show ?thesis
    unfolding substitute_init_unfold using e5 c5 g5 by simp
qed

lemma apply_function_cos:
  "apply_function rt ''cos'' [x] =
     (case builtin rt ''math.cos'' [x] of
        Inl e \<Rightarrow> Inl (ValueError (''Error in function cos: '' @ str_exn e))
      | Inr v \<Rightarrow> Inr v)"
  by (simp add: apply_function_def call1_def arg_def bindE_def split: sum.split)

lemma safe_eval_cos_0:
  "safe_eval rt ''cos(0)'' =
     bindE (float_of rt ''0'') (\<lambda>x.
       case builtin rt ''math.cos'' [x] of
         Inl e \<Rightarrow> Inl (ValueError (''Error in function cos: '' @ str_exn e))
       | Inr v \<Rightarrow> Inr v)"
proof -
  have "expression_rpn ''cos(0)'' = Inr [''0'', ''cos'']"
    by (simp add: calc_defs)
  moreover have "evaluate_rpn rt [''0'', ''cos''] =
     bindE (float_of rt ''0'') (\<lambda>x.
       case builtin rt ''math.cos'' [x] of
         Inl e \<Rightarrow> Inl (ValueError (''Error in function cos: '' @ str_exn e))
       | Inr v \<Rightarrow> Inr v)"
    by (simp add: evaluate_rpn_def rpn_step_def apply_function_cos is_number_token_def
        replace_def is_digit_def get_supported_functions_def get_function_args_def bindE_def
        split: sum.splits)
  ultimately show ?thesis
    by (simp add: safe_eval_def bindE_def)
qed

text \<open>
  C8. \<open>evaluate\<close> replaces the names of the constants in the text of the expression
  before it is parsed. \<open>cos(0)\<close> becomes \<open>299792458os(0)\<close> and \<open>exp(1)\<close> becomes
  \<open>2.718281828459045xp(1)\<close>, and \<open>evaluate\<close> returns the text
  \<open>Error: Invalid expression\<close> for both (and an error text for every runtime),
  although \<open>_safe_eval\<close> itself, given \<open>cos(0)\<close>, calls \<open>math.cos\<close> on the float
  of \<open>0\<close>, which is \<open>0.0\<close>. For every
  expression, the text that reaches the parser has no letter \<open>c\<close>, \<open>e\<close> or \<open>g\<close>, so
  none of the function names \<open>cos\<close>, \<open>acos\<close>, \<open>cosh\<close>, \<open>log\<close>, \<open>log10\<close>,
  \<open>exp\<close>, \<open>ceil\<close>, \<open>factorial\<close> and \<open>degrees\<close> occurs in it.
\<close>

theorem constants_corrupt_function_names:
  "substitute_constants (constants init) ''cos(0)'' = ''299792458os(0)''
   \<and> evaluate (python library) init ''cos(0)'' = (Inl ''Error: Invalid expression'', init)
   \<and> (\<exists>message. evaluate rt init ''cos(0)'' = (Inl message, init))
   \<and> substitute_constants (constants init) ''exp(1)'' = ''2.718281828459045xp(1)''
   \<and> evaluate (python library) init ''exp(1)'' = (Inl ''Error: Invalid expression'', init)
   \<and> (\<exists>message. evaluate rt init ''exp(1)'' = (Inl message, init))
   \<and> safe_eval rt ''cos(0)'' =
       bindE (float_of rt ''0'') (\<lambda>x.
         case builtin rt ''math.cos'' [x] of
           Inl e \<Rightarrow> Inl (ValueError (''Error in function cos: '' @ str_exn e))
         | Inr v \<Rightarrow> Inr v)
   \<and> safe_eval (python library) ''cos(0)'' =
       (case library ''math.cos'' [PyFloat (Finite False 0)] of
          Inl e \<Rightarrow> Inl (ValueError (''Error in function cos: '' @ str_exn e))
        | Inr v \<Rightarrow> Inr v)
   \<and> set (substitute_constants (constants init) expression)
         \<inter> {CHR ''c'', CHR ''e'', CHR ''g''} = {}
   \<and> (\<forall>f \<in> {''cos'', ''acos'', ''cosh'', ''log'', ''log10'', ''exp'', ''ceil'',
               ''factorial'', ''degrees''}.
         \<forall>before after. substitute_constants (constants init) expression \<noteq> before @ f @ after)"
proof (intro conjI ballI allI)
  show "substitute_constants (constants init) ''cos(0)'' = ''299792458os(0)''"
    by (simp add: substitute_init_unfold replace_def)
  show "substitute_constants (constants init) ''exp(1)'' = ''2.718281828459045xp(1)''"
    by (simp add: substitute_init_unfold replace_def)
  have cos_text: "substitute_constants (constants init) ''cos(0)'' = ''299792458os(0)''"
    by (simp add: substitute_init_unfold replace_def)
  have cos_rpn: "expression_rpn ''299792458os(0)'' = Inr [''299792458'', ''0'']"
    by (simp add: calc_defs)
  have cos_value:
    "safe_eval (python library) ''299792458os(0)'' = Inl (ValueError ''Invalid expression'')"
    by (simp add: safe_eval_def cos_rpn evaluate_rpn_def rpn_step_def is_number_token_def
        replace_def is_digit_def python_float_of py_float_def bindE_def)
  show "evaluate (python library) init ''cos(0)'' = (Inl ''Error: Invalid expression'', init)"
    by (simp add: evaluate_result [OF cos_text cos_value])
  have "\<exists>e. safe_eval rt ''299792458os(0)'' = Inl e"
    by (simp add: safe_eval_def cos_rpn evaluate_rpn_def rpn_step_def is_number_token_def
        replace_def is_digit_def bindE_def split: sum.splits)
  then obtain e where "safe_eval rt ''299792458os(0)'' = Inl e" ..
  from evaluate_result [OF cos_text this]
  show "\<exists>message. evaluate rt init ''cos(0)'' = (Inl message, init)"
    by simp
  have exp_text: "substitute_constants (constants init) ''exp(1)'' = ''2.718281828459045xp(1)''"
    by (simp add: substitute_init_unfold replace_def)
  have exp_rpn: "expression_rpn ''2.718281828459045xp(1)'' = Inr [''2.718281828459045'', ''1'']"
    by (simp add: calc_defs)
  have exp_value:
    "safe_eval (python library) ''2.718281828459045xp(1)''
       = Inl (ValueError ''Invalid expression'')"
    by (simp add: safe_eval_def exp_rpn evaluate_rpn_def rpn_step_def is_number_token_def
        replace_def is_digit_def python_float_of py_float_def bindE_def)
  show "evaluate (python library) init ''exp(1)'' = (Inl ''Error: Invalid expression'', init)"
    by (simp add: evaluate_result [OF exp_text exp_value])
  have "\<exists>e. safe_eval rt ''2.718281828459045xp(1)'' = Inl e"
    by (simp add: safe_eval_def exp_rpn evaluate_rpn_def rpn_step_def is_number_token_def
        replace_def is_digit_def bindE_def split: sum.splits)
  then obtain e where "safe_eval rt ''2.718281828459045xp(1)'' = Inl e" ..
  from evaluate_result [OF exp_text this]
  show "\<exists>message. evaluate rt init ''exp(1)'' = (Inl message, init)"
    by simp
  show "safe_eval rt ''cos(0)'' =
       bindE (float_of rt ''0'') (\<lambda>x.
         case builtin rt ''math.cos'' [x] of
           Inl e \<Rightarrow> Inl (ValueError (''Error in function cos: '' @ str_exn e))
         | Inr v \<Rightarrow> Inr v)"
    by (fact safe_eval_cos_0)
  show "safe_eval (python library) ''cos(0)'' =
       (case library ''math.cos'' [PyFloat (Finite False 0)] of
          Inl e \<Rightarrow> Inl (ValueError (''Error in function cos: '' @ str_exn e))
        | Inr v \<Rightarrow> Inr v)"
    by (simp add: safe_eval_cos_0 python_float_of py_float_digit bindE_def) (simp add: python_def)
  show "set (substitute_constants (constants init) expression)
         \<inter> {CHR ''c'', CHR ''e'', CHR ''g''} = {}"
    by (fact substituted_no_letters)
next
  fix f before after
  assume f: "f \<in> {''cos'', ''acos'', ''cosh'', ''log'', ''log10'', ''exp'', ''ceil'',
              ''factorial'', ''degrees''}"
  show "substitute_constants (constants init) expression \<noteq> before @ f @ after"
  proof
    assume eq: "substitute_constants (constants init) expression = before @ f @ after"
    from f have "set f \<inter> {CHR ''c'', CHR ''e'', CHR ''g''} \<noteq> {}"
      by auto
    moreover have "set f \<subseteq> set (substitute_constants (constants init) expression)"
      unfolding eq by auto
    ultimately show False
      using substituted_no_letters [of expression] by blast
  qed
qed

theorem constants_corrupt_function_names_witness:
  "\<forall>library. evaluate (python library) init ''cos(0)'' = (Inl ''Error: Invalid expression'', init)
     \<and> CHR ''c'' \<notin> set (substitute_constants (constants init) ''cos(0)'')
     \<and> (\<forall>before after. substitute_constants (constants init) ''acos(cos(1))''
           \<noteq> before @ ''cos'' @ after)"
proof (intro allI conjI)
  fix library
  note inst = constants_corrupt_function_names
    [where library = library and expression = "''cos(0)''"]
  show "evaluate (python library) init ''cos(0)'' = (Inl ''Error: Invalid expression'', init)"
    by (rule inst [THEN conjunct2, THEN conjunct1])
  have "set (substitute_constants (constants init) ''cos(0)'')
         \<inter> {CHR ''c'', CHR ''e'', CHR ''g''} = {}"
    by (rule inst [THEN conjunct2, THEN conjunct2, THEN conjunct2, THEN conjunct2,
          THEN conjunct2, THEN conjunct2, THEN conjunct2, THEN conjunct2, THEN conjunct1])
  then show "CHR ''c'' \<notin> set (substitute_constants (constants init) ''cos(0)'')"
    by blast
next
  fix library :: "string \<Rightarrow> pynum list \<Rightarrow> exn + pynum" and before after
  have member: "''cos'' \<in> {''cos'', ''acos'', ''cosh'', ''log'', ''log10'', ''exp'', ''ceil'',
               ''factorial'', ''degrees''}"
    by simp
  show "substitute_constants (constants init) ''acos(cos(1))'' \<noteq> before @ ''cos'' @ after"
    by (rule constants_corrupt_function_names
          [where library = library and expression = "''acos(cos(1))''", THEN conjunct2,
          THEN conjunct2, THEN conjunct2, THEN conjunct2, THEN conjunct2, THEN conjunct2,
          THEN conjunct2, THEN conjunct2, THEN conjunct2, THEN bspec, OF member, THEN spec,
          THEN spec])
qed

section \<open>Properties of the unit conversion\<close>

lemma length_not_other: "length_units u = Some f \<Longrightarrow> weight_units u = None \<and> volume_units u = None"
  by (simp add: length_units_def weight_units_def volume_units_def split: if_splits)

lemma weight_not_other: "weight_units u = Some f \<Longrightarrow> length_units u = None \<and> volume_units u = None"
  by (simp add: length_units_def weight_units_def volume_units_def split: if_splits)

lemma volume_not_other: "volume_units u = Some f \<Longrightarrow> length_units u = None \<and> weight_units u = None"
  by (simp add: length_units_def weight_units_def volume_units_def split: if_splits)

lemma convert_units_in:
  assumes "category \<in> {length_units, weight_units, volume_units}"
    and "category a = Some fa" and "category b = Some fb" and "\<not> is_zero fb"
  shows "convert_units x a b = Inr (double_div (double_mul x fa) fb)"
  using assms
  by (auto simp: convert_units_def convert_in_def dom_def
      dest: length_not_other weight_not_other volume_not_other)

lemma round_step_with:
  assumes a: "a = 1 - 1 / 2 ^ 53" and b: "b = 1 + 1 / 2 ^ 53"
    and t: "1 / 2 ^ 991 \<le> t" "t \<le> 2 ^ 991"
    and r: "lo * t \<le> r" "r \<le> hi * t"
    and bounds: "1 / 2 \<le> lo" "hi \<le> 2"
  shows "\<exists>y. to_double s r = Finite s y \<and> a * (lo * t) \<le> y \<and> y \<le> b * (hi * t)"
  using round_step [OF t r bounds, of s] unfolding a b by (simp add: mult.assoc)

lemma scaled_bounds:
  fixes m f g :: real
  assumes m: "1 / 2 ^ 960 \<le> m" "m \<le> 2 ^ 960"
    and f: "1 / 2 ^ 20 \<le> f" "f \<le> 2 ^ 11"
    and g: "1 / 2 ^ 20 \<le> g" "g \<le> 2 ^ 11"
  shows "1 / 2 ^ 991 \<le> m * f" "m * f \<le> 2 ^ 991"
    and "1 / 2 ^ 991 \<le> m * f / g" "m * f / g \<le> 2 ^ 991"
    and "1 / 2 ^ 991 \<le> m" "m \<le> 2 ^ 991"
proof -
  have pos: "0 < m" "0 < f" "0 < g"
    using m(1) f(1) g(1) by (simp_all add: less_le_trans [rotated])
  have lo: "1 / 2 ^ 960 * (1 / 2 ^ 20) \<le> m * f"
    using m(1) f(1) by (intro mult_mono) simp_all
  have hi: "m * f \<le> 2 ^ 960 * 2 ^ 11"
    using m(2) f(2) pos by (intro mult_mono) simp_all
  from lo show "1 / 2 ^ 991 \<le> m * f"
    by (rule order_trans [rotated]) simp
  from hi show "m * f \<le> 2 ^ 991"
    by (rule order_trans) simp
  have "1 / 2 ^ 960 * (1 / 2 ^ 20) / 2 ^ 11 \<le> m * f / g"
    using lo g pos by (intro frac_le) simp_all
  then show "1 / 2 ^ 991 \<le> m * f / g"
    by (rule order_trans [rotated]) simp
  have "m * f / g \<le> 2 ^ 960 * 2 ^ 11 / (1 / 2 ^ 20)"
    using hi g pos by (intro frac_le) simp_all
  then show "m * f / g \<le> 2 ^ 991"
    by (rule order_trans) simp
  from m(1) show "1 / 2 ^ 991 \<le> m"
    by (rule order_trans [rotated]) simp
  from m(2) show "m \<le> 2 ^ 991"
    by (rule order_trans) simp
qed

lemma to_double_zero: "to_double s 0 = Finite s 0"
  by (simp add: to_double_def nearest_def)

lemma within_relative_error:
  fixes q y c :: real
  assumes "(1 - c) * q \<le> y" and "y \<le> (1 + c) * q"
  shows "\<bar>y - q\<bar> \<le> c * q"
  using assms by (simp add: abs_le_iff algebra_simps)

text \<open>
  C5, as the code has it. For two units \<open>u\<close> and \<open>v\<close> of one category (length, weight
  or volume) with the float factors \<open>fu\<close> and \<open>fv\<close>, and a float \<open>x\<close> of the sign
  \<open>s\<close> and the magnitude \<open>m\<close> that is zero or lies between \<open>2 ^ (- 960)\<close> and
  \<open>2 ^ 960\<close>: \<open>convert_units\<close> returns the float \<open>(x * fu) / fv\<close>, each of the two
  operations rounded; it has the sign of \<open>x\<close> and its magnitude is within the fraction
  \<open>3 / 2 ^ 53\<close> of \<open>m * fu / fv\<close>, the value of the linear map. Converting the
  result back returns a float of the sign of \<open>x\<close> whose magnitude is within the fraction
  \<open>5 / 2 ^ 53\<close> of \<open>m\<close>.
\<close>

theorem convert_units_round_trip:
  assumes cat: "category \<in> {length_units, weight_units, volume_units}"
    and u: "category u = Some fu" and v: "category v = Some fv"
    and range: "m = 0 \<or> 1 / 2 ^ 960 \<le> m \<and> m \<le> 2 ^ 960"
  shows "\<exists>y z. convert_units (Finite s m) u v = Inr (Finite s y)
           \<and> Finite s y = double_div (double_mul (Finite s m) fu) fv
           \<and> \<bar>y - m * magnitude fu / magnitude fv\<bar>
               \<le> 3 / 2 ^ 53 * (m * magnitude fu / magnitude fv)
           \<and> convert_units (Finite s y) v u = Inr (Finite s z)
           \<and> \<bar>z - m\<bar> \<le> 5 / 2 ^ 53 * m"
proof -
  from factor_bounds [OF cat u] obtain f
    where fu: "fu = Finite False f" and f: "1 / 2 ^ 20 \<le> f" "f \<le> 2 ^ 11"
    by blast
  from factor_bounds [OF cat v] obtain g
    where fv: "fv = Finite False g" and g: "1 / 2 ^ 20 \<le> g" "g \<le> 2 ^ 11"
    by blast
  have pos: "0 < f" "0 < g"
    using f(1) g(1) by (simp_all add: less_le_trans [rotated])
  have to_v: "convert_units x u v = Inr (double_div (double_mul x fu) fv)" for x
    using pos by (intro convert_units_in [OF cat u v]) (simp add: fv)
  have to_u: "convert_units x v u = Inr (double_div (double_mul x fv) fu)" for x
    using pos by (intro convert_units_in [OF cat v u]) (simp add: fu)
  show ?thesis
  proof (cases "m = 0")
    case True
    have "double_div (double_mul (Finite s 0) fu) fv = Finite s 0"
      "double_div (double_mul (Finite s 0) fv) fu = Finite s 0"
      using pos by (simp_all add: fu fv to_double_zero)
    with True show ?thesis
      by (intro exI [of _ 0]) (simp add: to_v to_u)
  next
    case False
    with range have m: "1 / 2 ^ 960 \<le> m" "m \<le> 2 ^ 960"
      by simp_all
    have m_pos: "0 < m"
      using m(1) by (simp add: less_le_trans [rotated])
    note t = scaled_bounds [OF m f g]
    define a :: real where "a = 1 - 1 / 2 ^ 53"
    define b :: real where "b = 1 + 1 / 2 ^ 53"
    note step = round_step_with [OF a_def b_def]
    have a_bounds: "1 / 2 \<le> a" "1 / 2 \<le> a * a" "1 / 2 \<le> a * (a * a)"
      and b_bounds: "b \<le> 2" "b * b \<le> 2" "b * (b * b) \<le> 2"
      and two: "1 - 3 / 2 ^ 53 \<le> a * a" "b * b \<le> 1 + 3 / 2 ^ 53"
      and four: "1 - 5 / 2 ^ 53 \<le> a * (a * (a * a))" "b * (b * (b * b)) \<le> 1 + 5 / 2 ^ 53"
      by (simp_all add: a_def b_def)
    from step [OF t(1,2), of 1 "m * f" 1 s]
    obtain y1 where y1: "to_double s (m * f) = Finite s y1"
      "a * (m * f) \<le> y1" "y1 \<le> b * (m * f)"
      by auto
    have "a * (m * f / g) \<le> y1 / g" "y1 / g \<le> b * (m * f / g)"
      using y1(2,3) pos(2) by (simp_all add: field_simps)
    from step [OF t(3,4) this a_bounds(1) b_bounds(1), of s]
    obtain y2 where y2: "to_double s (y1 / g) = Finite s y2"
      "a * (a * (m * f / g)) \<le> y2" "y2 \<le> b * (b * (m * f / g))"
      by auto
    have "a * a * (m * f) \<le> y2 * g" "y2 * g \<le> b * b * (m * f)"
      using y2(2,3) pos(2) by (simp_all add: field_simps)
    from step [OF t(1,2) this a_bounds(2) b_bounds(2), of s]
    obtain y3 where y3: "to_double s (y2 * g) = Finite s y3"
      "a * (a * a * (m * f)) \<le> y3" "y3 \<le> b * (b * b * (m * f))"
      by auto
    have "a * (a * a) * m \<le> y3 / f" "y3 / f \<le> b * (b * b) * m"
      using y3(2,3) pos(1) by (simp_all add: field_simps)
    from step [OF t(5,6) this a_bounds(3) b_bounds(3), of s]
    obtain z where z: "to_double s (y3 / f) = Finite s z"
      "a * (a * (a * a) * m) \<le> z" "z \<le> b * (b * (b * b) * m)"
      by auto
    have first: "double_div (double_mul (Finite s m) fu) fv = Finite s y2"
      using pos by (simp add: fu fv y1(1) y2(1))
    have second: "double_div (double_mul (Finite s y2) fv) fu = Finite s z"
      using pos by (simp add: fu fv y3(1) z(1))
    have ratio: "0 \<le> m * f / g"
      using m_pos pos by simp
    have "(1 - 3 / 2 ^ 53) * (m * f / g) \<le> a * a * (m * f / g)"
      "b * b * (m * f / g) \<le> (1 + 3 / 2 ^ 53) * (m * f / g)"
      using two ratio by (simp_all only: mult_right_mono)
    with y2(2,3) have "(1 - 3 / 2 ^ 53) * (m * f / g) \<le> y2"
      "y2 \<le> (1 + 3 / 2 ^ 53) * (m * f / g)"
      by (simp_all only: mult.assoc)
    then have near_linear: "\<bar>y2 - m * f / g\<bar> \<le> 3 / 2 ^ 53 * (m * f / g)"
      by (rule within_relative_error)
    have "(1 - 5 / 2 ^ 53) * m \<le> a * (a * (a * a)) * m"
      "b * (b * (b * b)) * m \<le> (1 + 5 / 2 ^ 53) * m"
      using four m_pos by (simp_all only: mult_right_mono less_imp_le)
    with z(2,3) have "(1 - 5 / 2 ^ 53) * m \<le> z" "z \<le> (1 + 5 / 2 ^ 53) * m"
      by (simp_all only: mult.assoc)
    then have near_x: "\<bar>z - m\<bar> \<le> 5 / 2 ^ 53 * m"
      by (rule within_relative_error)
    show ?thesis
      using first second near_linear near_x
      by (intro exI [of _ y2] exI [of _ z]) (simp add: to_v to_u fu fv)
  qed
qed

lemma length_factors:
  "length_units ''m'' = Some (Finite False 1)"
  "length_units ''km'' = Some (Finite False 1000)"
  "length_units ''mm'' = Some (Finite False (4611686018427388 / 2 ^ 62))"
  "length_units ''ft'' = Some (Finite False (5490788665690109 / 2 ^ 54))"
  by (simp_all add: length_units_def ieee_defs)

lemma length_category: "length_units \<in> {length_units, weight_units, volume_units}"
  by simp

lemma convert_length:
  assumes "length_units a = Some fa" and "length_units b = Some fb" and "\<not> is_zero fb"
  shows "convert_units x a b = Inr (double_div (double_mul x fa) fb)"
  using length_category assms by (rule convert_units_in)

lemma m_to_ft:
  "convert_units (Finite False 1) ''m'' ''ft'' = Inr (Finite False (7387794664321679 / 2 ^ 51))"
  by (simp add: convert_length [OF length_factors(1) length_factors(4)]) (simp add: ieee_defs)

lemma ft_to_m:
  "convert_units (Finite False (7387794664321679 / 2 ^ 51)) ''ft'' ''m''
     = Inr (Finite False (9007199254740991 / 2 ^ 53))"
  by (simp add: convert_length [OF length_factors(4) length_factors(1)]) (simp add: ieee_defs)

lemma km_to_mm_overflow:
  "convert_units (Finite False (2 ^ 1023)) ''km'' ''mm'' = Inr (Infinity False)"
  by (simp add: convert_length [OF length_factors(2) length_factors(3)]) (simp add: ieee_defs)

lemma mm_to_km_infinity:
  "convert_units (Infinity False) ''mm'' ''km'' = Inr (Infinity False)"
  by (simp add: convert_length [OF length_factors(3) length_factors(2)])

lemma mm_to_km_underflow:
  "convert_units (Finite False (1 / 2 ^ 1074)) ''mm'' ''km'' = Inr (Finite False 0)"
  by (simp add: convert_length [OF length_factors(3) length_factors(2)]) (simp add: ieee_defs)

lemma km_to_mm_zero:
  "convert_units (Finite False 0) ''km'' ''mm'' = Inr (Finite False 0)"
  by (simp add: convert_length [OF length_factors(2) length_factors(3)]) (simp add: ieee_defs)

lemma m_to_ft_nan: "convert_units NaN ''m'' ''ft'' = Inr NaN"
  by (simp add: convert_length [OF length_factors(1) length_factors(4)])

theorem convert_units_round_trip_witness:
  "length_units \<in> {length_units, weight_units, volume_units}
   \<and> length_units ''m'' = Some (Finite False 1)
   \<and> length_units ''ft'' = Some (Finite False (5490788665690109 / 2 ^ 54))
   \<and> ((1 :: real) = 0 \<or> 1 / 2 ^ 960 \<le> (1 :: real) \<and> (1 :: real) \<le> 2 ^ 960)
   \<and> convert_units (Finite False 1) ''m'' ''ft'' = Inr (Finite False (7387794664321679 / 2 ^ 51))
   \<and> \<bar>7387794664321679 / 2 ^ 51 - 1 * 1 / (5490788665690109 / 2 ^ 54)\<bar>
        \<le> 3 / 2 ^ 53 * (1 * 1 / (5490788665690109 / 2 ^ 54) :: real)
   \<and> convert_units (Finite False (7387794664321679 / 2 ^ 51)) ''ft'' ''m''
        = Inr (Finite False (9007199254740991 / 2 ^ 53))
   \<and> \<bar>9007199254740991 / 2 ^ 53 - 1\<bar> \<le> (5 / 2 ^ 53 * 1 :: real)"
proof -
  have range: "(1 :: real) = 0 \<or> 1 / 2 ^ 960 \<le> (1 :: real) \<and> (1 :: real) \<le> 2 ^ 960"
    by simp
  from convert_units_round_trip
    [OF length_category length_factors(1) length_factors(4) range, of False]
  obtain y z where yz:
    "convert_units (Finite False 1) ''m'' ''ft'' = Inr (Finite False y)"
    "\<bar>y - 1 * 1 / (5490788665690109 / 2 ^ 54)\<bar>
        \<le> 3 / 2 ^ 53 * (1 * 1 / (5490788665690109 / 2 ^ 54))"
    "convert_units (Finite False y) ''ft'' ''m'' = Inr (Finite False z)"
    "\<bar>z - 1\<bar> \<le> 5 / 2 ^ 53 * 1"
    by auto
  from yz(1) [unfolded m_to_ft] have y: "y = 7387794664321679 / 2 ^ 51"
    by simp
  from yz(3) [unfolded y ft_to_m] have z: "z = 9007199254740991 / 2 ^ 53"
    by simp
  from yz(2) [unfolded y] yz(4) [unfolded z]
  show ?thesis
    using length_category length_factors(1,4) range m_to_ft ft_to_m
    by (intro conjI)
qed

text \<open>
  C5, as it is stated, fails on floats. The round trip is not exact: one metre in feet
  and back is \<open>0.9999999999999999\<close>. Outside the range of the theorem above it is not
  near the value either: \<open>2 ^ 1023\<close> km (about \<open>9e307\<close>) in millimetres is
  \<open>inf\<close> and stays \<open>inf\<close> on the way back, \<open>2 ^ (- 1074)\<close> mm (the smallest
  float, \<open>5e-324\<close>) in kilometres is \<open>0.0\<close> and stays \<open>0.0\<close>, and a NaN stays a
  NaN.
\<close>

theorem round_trip_is_not_the_value:
  "convert_units (Finite False 1) ''m'' ''ft'' = Inr (Finite False (7387794664321679 / 2 ^ 51))
   \<and> convert_units (Finite False (7387794664321679 / 2 ^ 51)) ''ft'' ''m''
        = Inr (Finite False (9007199254740991 / 2 ^ 53))
   \<and> convert_units (Finite False (2 ^ 1023)) ''km'' ''mm'' = Inr (Infinity False)
   \<and> convert_units (Infinity False) ''mm'' ''km'' = Inr (Infinity False)
   \<and> convert_units (Finite False (1 / 2 ^ 1074)) ''mm'' ''km'' = Inr (Finite False 0)
   \<and> convert_units (Finite False 0) ''km'' ''mm'' = Inr (Finite False 0)
   \<and> convert_units NaN ''m'' ''ft'' = Inr NaN"
  using m_to_ft ft_to_m km_to_mm_overflow mm_to_km_infinity mm_to_km_underflow km_to_mm_zero
    m_to_ft_nan
  by (intro conjI)

section \<open>Properties of the coding utility\<close>

text \<open>
  C9. Every method of \<open>AluminumCodingUtility\<close> other than \<open>__init__\<close> is a stub:
  for every object, every method and all arguments, the call returns \<open>None\<close> and
  leaves \<open>language_extensions\<close>, \<open>code_snippets\<close>, \<open>api_endpoints\<close> and
  \<open>current_project\<close> as they were.
\<close>

theorem every_method_is_a_stub:
  "invoke self m = (PyNone, self)"
  by (cases m) simp_all

theorem every_method_is_a_stub_witness:
  "invoke coding_utility_init (Format_code (PyStr ''x=1'') (PyStr ''python''))
     = (PyNone, coding_utility_init)
   \<and> invoke coding_utility_init (Analyze_code_readability (PyInt 3) PyNone)
     = (PyNone, coding_utility_init)"
  using every_method_is_a_stub [of coding_utility_init] by simp

section \<open>Properties of the history remover\<close>

lemmas remover_defs =
  remove_history_atomic_def removal_steps_def create_backup_def remove_history_file_def
  clear_related_files_def clear_related_def related_paths_def vacuum_database_def
  clear_cache_def restore_backup_def determine_os_def parent_def name_def
  returnA_def bindA_def catchA_def closingA_def sys_call_def Let_def

lemmas reference_defs =
  reference_os_def remove_refused_def rmtree_refused_def cache_directory_def
  fs_makedirs_def fs_copy2_def fs_open_wb_def fs_stat_size_def
  fs_file_write_def fs_os_remove_def fs_rmtree_def fs_sqlite_connect_def
  fs_sqlite_execute_def node_at_def linux_remover_def remover_init_def history_file_def
  profile_def lower_def lower_char_def










subsection \<open>The order of the calls\<close>

lemma create_backup_calls:
  "\<exists>ok1 rest. calls (snd (create_backup os self h w))
       = calls w @ (Makedirs (backup_dir self) True, ok1) # rest
     \<and> (rest = [] \<or> (ok1 \<and> (\<exists>ok2. rest = [(Copy2 h (backup_dir self), ok2)]
            \<and> ok2 = (case fst (create_backup os self h w) of Inl _ \<Rightarrow> False | Inr _ \<Rightarrow> True))))
     \<and> (rest = [] \<longrightarrow> fst (create_backup os self h w) \<noteq> Inr ())"
  by (auto simp: create_backup_def catchA_def bindA_def sys_call_def split: prod.split sum.split)

lemma sys_call_extends: "\<exists>tr. calls (snd (sys_call c f w)) = calls w @ tr"
  by (simp add: sys_call_def split: prod.split)

lemma returnA_extends: "\<exists>tr. calls (snd (returnA x w)) = calls w @ tr"
  by (simp add: returnA_def)

lemma raise_extends: "\<exists>tr. calls (snd ((\<lambda>w. (Inl e, w)) w)) = calls w @ tr"
  by simp

lemma bindA_extends:
  assumes "\<And>w. \<exists>tr. calls (snd (m w)) = calls w @ tr"
    and "\<And>x w. \<exists>tr. calls (snd (f x w)) = calls w @ tr"
  shows "\<exists>tr. calls (snd (bindA m f w)) = calls w @ tr"
proof (cases "m w")
  case (Pair r w')
  from assms(1) [of w] Pair obtain tr where tr: "calls w' = calls w @ tr"
    by auto
  show ?thesis
  proof (cases r)
    case (Inl e)
    with Pair tr show ?thesis by (simp add: bindA_def)
  next
    case (Inr x)
    from assms(2) [of x w'] obtain tr' where "calls (snd (f x w')) = calls w' @ tr'"
      by auto
    with Pair Inr tr show ?thesis by (simp add: bindA_def)
  qed
qed

lemma catchA_extends:
  assumes "\<And>w. \<exists>tr. calls (snd (m w)) = calls w @ tr"
    and "\<And>e w. \<exists>tr. calls (snd (h e w)) = calls w @ tr"
  shows "\<exists>tr. calls (snd (catchA m h w)) = calls w @ tr"
proof (cases "m w")
  case (Pair r w')
  from assms(1) [of w] Pair obtain tr where tr: "calls w' = calls w @ tr"
    by auto
  show ?thesis
  proof (cases r)
    case (Inr x)
    with Pair tr show ?thesis by (simp add: catchA_def)
  next
    case (Inl e)
    from assms(2) [of e w'] obtain tr' where "calls (snd (h e w')) = calls w' @ tr'"
      by auto
    with Pair Inl tr show ?thesis by (simp add: catchA_def)
  qed
qed

lemma closingA_extends:
  assumes "\<And>w. \<exists>tr. calls (snd (m w)) = calls w @ tr"
    and "\<And>w. \<exists>tr. calls (snd (fin w)) = calls w @ tr"
  shows "\<exists>tr. calls (snd (closingA m fin w)) = calls w @ tr"
proof (cases "m w")
  case (Pair r w')
  from assms(1) [of w] Pair obtain tr where tr: "calls w' = calls w @ tr"
    by auto
  from assms(2) [of w'] obtain tr' where "calls (snd (fin w')) = calls w' @ tr'"
    by auto
  with Pair tr show ?thesis
    by (auto simp: closingA_def split: prod.split sum.split)
qed

lemma for_each_extends:
  assumes "\<And>x w. \<exists>tr. calls (snd (body x w)) = calls w @ tr"
  shows "\<exists>tr. calls (snd (for_each body xs w)) = calls w @ tr"
proof (induction xs arbitrary: w)
  case Nil
  show ?case by (simp add: returnA_def)
next
  case (Cons x xs)
  show ?case
    unfolding for_each.simps by (rule bindA_extends) (rule assms, rule Cons.IH)
qed

lemma if_extends:
  assumes "b \<Longrightarrow> \<exists>tr. calls (snd (m w)) = calls w @ tr"
    and "\<not> b \<Longrightarrow> \<exists>tr. calls (snd (n w)) = calls w @ tr"
  shows "\<exists>tr. calls (snd ((if b then m else n) w)) = calls w @ tr"
  using assms by (cases b) simp_all

lemmas extends =
  bindA_extends catchA_extends closingA_extends for_each_extends if_extends sys_call_extends
  returnA_extends raise_extends

lemma remove_history_file_extends:
  "\<exists>tr. calls (snd (remove_history_file os p w)) = calls w @ tr"
  unfolding remove_history_file_def
  by (intro extends)

lemma later_steps_extend:
  "\<exists>tr. calls (snd (bindA (remove_history_file os h) (\<lambda>_.
            bindA (clear_related_files os h) (\<lambda>_.
            bindA (vacuum_database os (parent h @ [''Web Data''])) (\<lambda>_.
            clear_cache os (parent (parent h) @ [''Cache''])))) w)) = calls w @ tr"
  unfolding clear_related_files_def clear_related_def vacuum_database_def clear_cache_def
  by (intro extends remove_history_file_extends)

text \<open>
  The order of the steps, for every operating system: the first call of the sequence
  makes the backup directory, the second, when there is one, copies the history file
  into it, and every later call (of the removal, of the related files, of the vacuum, of
  the cache) is made only after that copy has succeeded.
\<close>

theorem backup_precedes_every_other_call:
  "\<exists>ok1 rest. calls (snd (removal_steps os self h w))
       = calls w @ (Makedirs (backup_dir self) True, ok1) # rest
     \<and> (rest = [] \<or> (ok1 \<and> (\<exists>ok2 later. rest = (Copy2 h (backup_dir self), ok2) # later
                                  \<and> (later = [] \<or> ok2))))"
proof (cases "create_backup os self h w")
  case (Pair r w1)
  from create_backup_calls [of os self h w] Pair obtain ok1 rest where backup:
    "calls w1 = calls w @ (Makedirs (backup_dir self) True, ok1) # rest"
    "rest = [] \<or> (ok1 \<and> (\<exists>ok2. rest = [(Copy2 h (backup_dir self), ok2)]
            \<and> ok2 = (case r of Inl _ \<Rightarrow> False | Inr _ \<Rightarrow> True)))"
    "rest = [] \<longrightarrow> r \<noteq> Inr ()"
    by auto
  show ?thesis
  proof (cases r)
    case (Inl e)
    with Pair have "removal_steps os self h w = (Inl e, w1)"
      by (simp add: removal_steps_def bindA_def)
    with backup(1,2) show ?thesis by auto
  next
    case (Inr u)
    with backup(2,3) have copied: "ok1" "rest = [(Copy2 h (backup_dir self), True)]"
      by auto
    from later_steps_extend [of os h w1] obtain tr where
      "calls (snd (bindA (remove_history_file os h) (\<lambda>_.
            bindA (clear_related_files os h) (\<lambda>_.
            bindA (vacuum_database os (parent h @ [''Web Data''])) (\<lambda>_.
            clear_cache os (parent (parent h) @ [''Cache''])))) w1)) = calls w1 @ tr"
      by blast
    with Pair Inr have "calls (snd (removal_steps os self h w)) = calls w1 @ tr"
      by (simp add: removal_steps_def bindA_def)
    with backup(1) copied show ?thesis by auto
  qed
qed

text \<open>
  C2. The step that is to overwrite the bytes of the history file with random data
  before the file is deleted. On the reference file system, for a history file with any
  bytes: \<open>open(history_path, "wb")\<close> has truncated the file when its size is read, so the
  size is 0, \<open>os.urandom(0)\<close> gives no bytes, and no byte is written before
  \<open>os.remove\<close>. The calls come in the order of the steps: the backup, the opening, the
  write, the removal.
\<close>

theorem overwrite_writes_no_random_bytes:
  "calls (snd (remove_history_file (reference_os entropy) history_file
                 \<lparr> sys = profile bytes, calls = [] \<rparr>))
     = [(PathExists history_file, True), (OpenWB history_file, True),
        (StatSize history_file, True), (Urandom 0, True), (FileWrite history_file [], True),
        (FileClose history_file, True), (OsRemove history_file, True)]
   \<and> take 9 (calls (snd (remove_history_atomic (reference_os entropy) linux_remover
                 \<lparr> sys = profile bytes, calls = [] \<rparr>)))
     = [(Makedirs (backup_dir linux_remover) True, True),
        (Copy2 history_file (backup_dir linux_remover), True),
        (PathExists history_file, True), (OpenWB history_file, True),
        (StatSize history_file, True), (Urandom 0, True), (FileWrite history_file [], True),
        (FileClose history_file, True), (OsRemove history_file, True)]"
  by (simp add: remover_defs reference_defs)




section \<open>Properties of the browser history\<close>

lemma select_urls_limit_0: "urls_table db = Some rows \<Longrightarrow> select_urls db 0 0 = Inr []"
  by (simp add: select_urls_def sql_limit_def int64_def)

text \<open>
  C6. For every database with a table \<open>urls\<close>, whatever its rows, and for the formats
  \<open>json\<close> and \<open>csv\<close> (in any case of the letters): \<open>get_history(limit=0)\<close>
  returns no entry, and \<open>export_history\<close>, when the output file can be opened, writes
  an empty JSON list or a CSV file with the header only, and returns \<open>True\<close>.
\<close>

theorem export_history_exports_nothing:
  assumes "cursor self = Some db" and "urls_table db = Some rows"
    and "lower format = ''json'' \<or> lower format = ''csv''"
    and "can_open output_file"
  shows "browser_get_history self 0 0 = Inr []
    \<and> export_history can_open self output_file format files
        = (Inr True,
           files(output_file \<mapsto>
             (if lower format = ''json'' then Json [] else Csv fieldnames [])))"
proof -
  have "browser_get_history self 0 0 = Inr []"
    using assms(1,2) by (simp add: browser_get_history_def select_urls_limit_0 bindE_def)
  then show ?thesis
    using assms(3,4) by (auto simp: export_history_def)
qed

theorem export_history_exports_nothing_witness:
  "browser_get_history
       \<lparr> profile_path = ''p'',
         cursor = Some \<lparr> urls_table = Some
           [\<lparr> urls_id = 1, urls_url = ''https://a.example'', urls_title = ''A'',
              urls_visit_count = 3, urls_last_visit_time = Some 13350000000000000 \<rparr>,
            \<lparr> urls_id = 2, urls_url = ''https://b.example'', urls_title = ''B'',
              urls_visit_count = 1, urls_last_visit_time = Some 13360000000000000 \<rparr>] \<rparr> \<rparr>
       0 0 = Inr []
   \<and> export_history (\<lambda>f. True)
       \<lparr> profile_path = ''p'',
         cursor = Some \<lparr> urls_table = Some
           [\<lparr> urls_id = 1, urls_url = ''https://a.example'', urls_title = ''A'',
              urls_visit_count = 3, urls_last_visit_time = Some 13350000000000000 \<rparr>,
            \<lparr> urls_id = 2, urls_url = ''https://b.example'', urls_title = ''B'',
              urls_visit_count = 1, urls_last_visit_time = Some 13360000000000000 \<rparr>] \<rparr> \<rparr>
       ''out.csv'' ''CSV'' Map.empty
     = (Inr True, [''out.csv'' \<mapsto> Csv fieldnames []])"
proof -
  have csv: "lower ''CSV'' = ''json'' \<or> lower ''CSV'' = ''csv''"
    by (simp add: lower_def lower_char_def)
  have not_json: "lower ''CSV'' \<noteq> ''json''"
    by (simp add: lower_def lower_char_def)
  show ?thesis
    using export_history_exports_nothing [OF _ _ csv, of _ _ _ "\<lambda>f. True" "''out.csv''" Map.empty]
      not_json
    by simp
qed

section \<open>Properties of the database class\<close>

subsection \<open>Connections\<close>

lemma on_store_connections: "connections (snd (on_store f w)) = connections w"
  by (simp add: on_store_def split: prod.split)

lemma run_sql_connections: "connections (snd (run_sql eng stmt w)) = connections w"
  by (simp add: run_sql_def on_store_connections)

lemma returnA_connections: "connections (snd (returnA x w)) = connections w"
  by (simp add: returnA_def)

lemma pure_connections: "connections (snd ((\<lambda>w. (r, w)) w)) = connections w"
  by simp

lemma bindA_connections:
  assumes "\<And>w. connections (snd (m w)) = connections w"
    and "\<And>x w. connections (snd (f x w)) = connections w"
  shows "connections (snd (bindA m f w)) = connections w"
proof (cases "m w")
  case (Pair r w')
  with assms(1) [of w] have same: "connections w' = connections w"
    by simp
  show ?thesis
  proof (cases r)
    case (Inl e)
    with Pair same show ?thesis by (simp add: bindA_def)
  next
    case (Inr x)
    with Pair same assms(2) [of x w'] show ?thesis by (simp add: bindA_def)
  qed
qed

lemma for_each_connections:
  assumes "\<And>x w. connections (snd (body x w)) = connections w"
  shows "connections (snd (for_each body xs w)) = connections w"
proof (induction xs arbitrary: w)
  case Nil
  show ?case by (simp add: returnA_def)
next
  case (Cons x xs)
  show ?case
    unfolding for_each.simps by (rule bindA_connections) (rule assms, rule Cons.IH)
qed

text \<open>
  A body that only adds connections after those it found: \<open>get_connection\<close> closes
  its own, which is the first after those of the caller, and leaves the added ones.
\<close>

lemma get_connection_connections:
  assumes body: "\<And>v. \<exists>added. connections (snd (body v)) = connections v @ added
                     \<and> added \<in> allowed"
  shows "\<exists>added. connections (snd (get_connection eng self body w))
           = connections w @ (case fst (connect eng (db_path self) (store w)) of
                                Inl _ \<Rightarrow> []
                              | Inr _ \<Rightarrow> (db_path self, False) # added)
         \<and> added \<in> allowed"
proof (cases "connect eng (db_path self) (store w)")
  case (Pair r d)
  show ?thesis
  proof (cases r)
    case (Inl e)
    from body [of w] obtain added where "added \<in> allowed" by blast
    with Pair Inl show ?thesis
      by (auto simp: get_connection_def bindA_def catchA_def raiseA_def open_connection_def)
  next
    case (Inr u)
    let ?v = "\<lparr> store = d, connections = connections w @ [(db_path self, True)] \<rparr>"
    from body [of ?v] obtain added
      where added: "connections (snd (body ?v)) = connections ?v @ added" "added \<in> allowed"
      by blast
    have "connections (snd (get_connection eng self body w))
            = (connections (snd (body ?v)))[length (connections w) := (db_path self, False)]"
      using Pair Inr
      by (simp add: get_connection_def bindA_def catchA_def open_connection_def
          close_connection_def split: prod.split)
    also have "\<dots> = connections w @ (db_path self, False) # added"
      using added(1) by (simp add: list_update_append)
    finally show ?thesis
      using Pair Inr added(2) by auto
  qed
qed

lemma get_connection_plain:
  assumes body: "\<And>v. connections (snd (body v)) = connections v"
  shows "connections (snd (get_connection eng self body w))
           = connections w @ (case fst (connect eng (db_path self) (store w)) of
                                Inl _ \<Rightarrow> []
                              | Inr _ \<Rightarrow> [(db_path self, False)])"
proof -
  have "\<exists>added. connections (snd (body v)) = connections v @ added \<and> added \<in> {[]}" for v
    using body [of v] by simp
  from get_connection_connections [where allowed = "{[]}", OF this, of eng self w]
  show ?thesis by (auto split: sum.splits)
qed

lemma returning_connections:
  "connections (snd (returning f m w)) = connections (snd (m w))"
  by (simp add: returning_def bindA_def returnA_def split: prod.split sum.split)

lemmas keep_connections =
  bindA_connections for_each_connections on_store_connections run_sql_connections
  returnA_connections pure_connections

lemma get_connection_made:
  assumes "\<And>v. connections (snd (body v)) = connections v"
  shows "connections (snd (get_connection eng self body w)) = connections w @ made eng self w"
  unfolding made_def using assms by (rule get_connection_plain)

lemma create_tables_connections:
  "connections (snd (create_tables eng self w)) = connections w @ made eng self w"
  unfolding create_tables_def
  by (rule get_connection_made) ((intro keep_connections
        | simp add: count_of_def get_database_size_def run_sql_connections on_store_connections
            returnA_connections split: option.split)+)

lemma add_history_entry_connections:
  "connections (snd (add_history_entry eng self url title w)) = connections w @ made eng self w"
  unfolding add_history_entry_def
  by (rule get_connection_made) ((intro keep_connections
        | simp add: count_of_def get_database_size_def run_sql_connections on_store_connections
            returnA_connections split: option.split)+)

lemma database_get_history_connections:
  "connections (snd (database_get_history eng self limit w)) = connections w @ made eng self w"
  unfolding database_get_history_def
  by (rule get_connection_made) ((intro keep_connections
        | simp add: count_of_def get_database_size_def run_sql_connections on_store_connections
            returnA_connections split: option.split)+)

lemma add_bookmark_connections:
  "connections (snd (add_bookmark eng self url title folder w)) = connections w @ made eng self w"
  unfolding add_bookmark_def
  by (rule get_connection_made) ((intro keep_connections
        | simp add: count_of_def get_database_size_def run_sql_connections on_store_connections
            returnA_connections split: option.split)+)

lemma get_bookmarks_connections:
  "connections (snd (get_bookmarks eng self folder w)) = connections w @ made eng self w"
  unfolding get_bookmarks_def
  by (rule get_connection_made) ((intro keep_connections
        | simp add: count_of_def get_database_size_def run_sql_connections on_store_connections
            returnA_connections split: option.split)+)

lemma update_setting_connections:
  "connections (snd (update_setting eng self key v w)) = connections w @ made eng self w"
  unfolding update_setting_def
  by (rule get_connection_made) ((intro keep_connections
        | simp add: count_of_def get_database_size_def run_sql_connections on_store_connections
            returnA_connections split: option.split)+)

lemma get_setting_connections:
  "connections (snd (get_setting eng self key w)) = connections w @ made eng self w"
  unfolding get_setting_def
  by (rule get_connection_made) ((intro keep_connections
        | simp add: count_of_def get_database_size_def run_sql_connections on_store_connections
            returnA_connections split: option.split)+)

lemma add_to_cache_connections:
  "connections (snd (add_to_cache eng self url content w)) = connections w @ made eng self w"
  unfolding add_to_cache_def
  by (rule get_connection_made) ((intro keep_connections
        | simp add: count_of_def get_database_size_def run_sql_connections on_store_connections
            returnA_connections split: option.split)+)

lemma get_from_cache_connections:
  "connections (snd (get_from_cache eng self url w)) = connections w @ made eng self w"
  unfolding get_from_cache_def
  by (rule get_connection_made) ((intro keep_connections
        | simp add: count_of_def get_database_size_def run_sql_connections on_store_connections
            returnA_connections split: option.split)+)

lemma database_clear_cache_connections:
  "connections (snd (database_clear_cache eng self w)) = connections w @ made eng self w"
  unfolding database_clear_cache_def
  by (rule get_connection_made) ((intro keep_connections
        | simp add: count_of_def get_database_size_def run_sql_connections on_store_connections
            returnA_connections split: option.split)+)

lemma optimize_database_connections:
  "connections (snd (optimize_database eng self w)) = connections w @ made eng self w"
  unfolding optimize_database_def
  by (rule get_connection_made) ((intro keep_connections
        | simp add: count_of_def get_database_size_def run_sql_connections on_store_connections
            returnA_connections split: option.split)+)

lemma get_most_visited_sites_connections:
  "connections (snd (get_most_visited_sites eng self limit w)) = connections w @ made eng self w"
  unfolding get_most_visited_sites_def
  by (rule get_connection_made) ((intro keep_connections
        | simp add: count_of_def get_database_size_def run_sql_connections on_store_connections
            returnA_connections split: option.split)+)

lemma search_history_connections:
  "connections (snd (search_history eng self query limit w)) = connections w @ made eng self w"
  unfolding search_history_def
  by (rule get_connection_made) ((intro keep_connections
        | simp add: count_of_def get_database_size_def run_sql_connections on_store_connections
            returnA_connections split: option.split)+)

lemma delete_history_entry_connections:
  "connections (snd (delete_history_entry eng self url w)) = connections w @ made eng self w"
  unfolding delete_history_entry_def
  by (rule get_connection_made) ((intro keep_connections
        | simp add: count_of_def get_database_size_def run_sql_connections on_store_connections
            returnA_connections split: option.split)+)

lemma clear_history_connections:
  "connections (snd (clear_history eng self days w)) = connections w @ made eng self w"
  unfolding clear_history_def
  by (rule get_connection_made) ((intro keep_connections
        | simp add: count_of_def get_database_size_def run_sql_connections on_store_connections
            returnA_connections split: option.split)+)

lemma get_database_statistics_connections:
  "connections (snd (get_database_statistics eng self w)) = connections w @ made eng self w"
  unfolding get_database_statistics_def
  by (rule get_connection_made) ((intro keep_connections
        | simp add: count_of_def get_database_size_def run_sql_connections on_store_connections
            returnA_connections split: option.split)+)

lemma get_database_size_connections:
  "connections (snd (get_database_size eng self w)) = connections w"
  by (simp add: get_database_size_def)

lemma bindA_then_keeps:
  assumes "\<And>x v. connections (snd (f x v)) = connections v"
  shows "connections (snd (bindA m f w)) = connections (snd (m w))"
  using assms by (simp add: bindA_def split: prod.split sum.split)

lemma export_bookmarks_connections:
  "connections (snd (export_bookmarks eng self export_path w))
     = connections w @ made eng self w"
  unfolding export_bookmarks_def
  by (simp add: bindA_then_keeps on_store_connections get_bookmarks_connections)

lemma made_cases: "made eng self w = [] \<or> made eng self w = [(db_path self, False)]"
  by (simp add: made_def split: sum.split)

lemma made_connected:
  "fst (connect eng (db_path self) (store w)) = Inr () \<Longrightarrow> made eng self w = [(db_path self, False)]"
  by (simp add: made_def)

lemma import_bookmarks_connections:
  "\<exists>new. connections (snd (import_bookmarks eng self import_path w)) = connections w @ new
     \<and> (new = [] \<or> new = [(db_path self, False)])"
proof (cases "on_store (json_load eng import_path) w")
  case (Pair r w')
  have same: "connections w' = connections w"
    using on_store_connections [of "json_load eng import_path" w] Pair by simp
  show ?thesis
  proof (cases r)
    case (Inl e)
    with Pair same show ?thesis by (simp add: import_bookmarks_def bindA_def)
  next
    case (Inr bookmarks)
    have "connections (snd (get_connection eng self
             (bindA (for_each (import_bookmark eng) bookmarks) (\<lambda>_. on_store (commit eng))) w'))
          = connections w' @ made eng self w'"
      by (rule get_connection_made)
        ((intro keep_connections
          | simp add: import_bookmark_def run_sql_connections on_store_connections
              returnA_connections)+)
    with Pair Inr same made_cases [of eng self w'] show ?thesis
      by (auto simp: import_bookmarks_def bindA_def)
  qed
qed

lemma backup_database_outcome:
  "\<exists>new. connections (snd (backup_database eng self backup_path w)) = connections w @ new
     \<and> (new = [] \<or> new = [(db_path self, False)]
          \<or> new = [(db_path self, False), (backup_path, False)]
          \<or> new = [(db_path self, False), (backup_path, True)]
             \<and> (\<exists>e. fst (backup_database eng self backup_path w) = Inl e))
     \<and> (fst (connect eng (db_path self) (store w)) = Inr () \<longrightarrow> new \<noteq> [])"
  by (auto simp: backup_database_def get_connection_def bindA_def catchA_def raiseA_def
      open_connection_def on_store_def close_connection_def list_update_append
      split: prod.splits sum.splits)

lemma restore_database_outcome:
  "\<exists>new. connections (snd (restore_database eng self backup_path w)) = connections w @ new
     \<and> (new = [] \<or> new = [(db_path self, False)]
          \<or> new = [(db_path self, False), (backup_path, False)]
          \<or> new = [(db_path self, False), (backup_path, True)]
             \<and> (\<exists>e. fst (restore_database eng self backup_path w) = Inl e))"
  by (auto simp: restore_database_def get_connection_def bindA_def catchA_def raiseA_def
      open_connection_def on_store_def close_connection_def list_update_append
      split: prod.splits sum.splits)

lemma returning_raises: "fst (m w) = Inl e \<Longrightarrow> fst (returning f m w) = Inl e"
  by (cases "m w") (simp add: returning_def bindA_def)

lemma plain_call:
  assumes "connections (snd (perform eng self c w)) = connections w @ made eng self w"
    and "c \<noteq> Get_database_size"
  shows "\<exists>new. connections (snd (perform eng self c w)) = connections w @ new
     \<and> (new = [] \<or> new = [(db_path self, False)]
          \<or> (\<exists>p. (c = Backup_database p \<or> c = Restore_database p)
                \<and> (new = [(db_path self, False), (p, False)]
                     \<or> new = [(db_path self, False), (p, True)]
                        \<and> (\<exists>e. fst (perform eng self c w) = Inl e))))
     \<and> (c = Get_database_size \<longrightarrow> new = [])
     \<and> (connects_first c \<and> fst (connect eng (db_path self) (store w)) = Inr ()
          \<longrightarrow> new \<noteq> [])"
  using assms made_cases [of eng self w] made_connected [of eng self w]
  by (intro exI [of _ "made eng self w"]) auto

text \<open>
  C10, as the code has it. For every engine, every object, every public method with its
  arguments and every world: the connections the call found are as they were, and the
  call adds at most its own, the one \<open>get_connection\<close> makes to \<open>db_path\<close>, which is
  closed when the call returns, whether the call returned or raised, and after it, for
  \<open>backup_database\<close> and \<open>restore_database\<close> only, one connection to the backup
  path, which is closed unless the call raised. \<open>get_database_size\<close> adds none, and a
  method whose first step is \<open>get_connection\<close> adds its own whenever
  \<open>sqlite3.connect\<close> succeeds. The object after the call is the object before it;
  \<open>__init__\<close> leaves \<open>self.conn\<close> at \<open>None\<close>, and with it \<open>__del__\<close> closes
  nothing.
\<close>

theorem connection_closed_per_call:
  "\<exists>new. connections (snd (perform eng self c w)) = connections w @ new
     \<and> (new = [] \<or> new = [(db_path self, False)]
          \<or> (\<exists>p. (c = Backup_database p \<or> c = Restore_database p)
                \<and> (new = [(db_path self, False), (p, False)]
                     \<or> new = [(db_path self, False), (p, True)]
                        \<and> (\<exists>e. fst (perform eng self c w) = Inl e))))
     \<and> (c = Get_database_size \<longrightarrow> new = [])
     \<and> (connects_first c \<and> fst (connect eng (db_path self) (store w)) = Inr ()
          \<longrightarrow> new \<noteq> [])
     \<and> perform_on eng c (self, w)
         = (fst (perform eng self c w), self, snd (perform eng self c w))
     \<and> (\<forall>path obj w'. database_init eng path w = (Inr obj, w')
           \<longrightarrow> obj = \<lparr> db_path = path, conn = None \<rparr>)
     \<and> (conn self = None \<longrightarrow> database_del eng self w = (Inr (), w))"
proof -
  have object: "perform_on eng c (self, w)
         = (fst (perform eng self c w), self, snd (perform eng self c w))"
    by (simp add: perform_on_def split: prod.split)
  have created: "\<forall>path obj w'. database_init eng path w = (Inr obj, w')
           \<longrightarrow> obj = \<lparr> db_path = path, conn = None \<rparr>"
    by (auto simp: database_init_def bindA_def returnA_def split: prod.splits sum.splits)
  have deleted: "conn self = None \<longrightarrow> database_del eng self w = (Inr (), w)"
    by (simp add: database_del_def)
  have "\<exists>new. connections (snd (perform eng self c w)) = connections w @ new
     \<and> (new = [] \<or> new = [(db_path self, False)]
          \<or> (\<exists>p. (c = Backup_database p \<or> c = Restore_database p)
                \<and> (new = [(db_path self, False), (p, False)]
                     \<or> new = [(db_path self, False), (p, True)]
                        \<and> (\<exists>e. fst (perform eng self c w) = Inl e))))
     \<and> (c = Get_database_size \<longrightarrow> new = [])
     \<and> (connects_first c \<and> fst (connect eng (db_path self) (store w)) = Inr ()
          \<longrightarrow> new \<noteq> [])"
  proof (cases c)
    case Create_tables
    then show ?thesis
      by (intro plain_call) (simp_all add: returning_connections create_tables_connections)
  next
    case (Add_history_entry url title)
    then show ?thesis
      by (intro plain_call) (simp_all add: returning_connections add_history_entry_connections)
  next
    case (Get_history limit)
    then show ?thesis
      by (intro plain_call) (simp_all add: returning_connections database_get_history_connections)
  next
    case (Add_bookmark url title folder)
    then show ?thesis
      by (intro plain_call) (simp_all add: returning_connections add_bookmark_connections)
  next
    case (Get_bookmarks folder)
    then show ?thesis
      by (intro plain_call) (simp_all add: returning_connections get_bookmarks_connections)
  next
    case (Update_setting key v)
    then show ?thesis
      by (intro plain_call) (simp_all add: returning_connections update_setting_connections)
  next
    case (Get_setting key)
    then show ?thesis
      by (intro plain_call) (simp_all add: returning_connections get_setting_connections)
  next
    case (Add_to_cache url content)
    then show ?thesis
      by (intro plain_call) (simp_all add: returning_connections add_to_cache_connections)
  next
    case (Get_from_cache url)
    then show ?thesis
      by (intro plain_call) (simp_all add: returning_connections get_from_cache_connections)
  next
    case Clear_cache
    then show ?thesis
      by (intro plain_call) (simp_all add: returning_connections database_clear_cache_connections)
  next
    case Optimize_database
    then show ?thesis
      by (intro plain_call) (simp_all add: returning_connections optimize_database_connections)
  next
    case (Get_most_visited_sites limit)
    then show ?thesis
      by (intro plain_call)
        (simp_all add: returning_connections get_most_visited_sites_connections)
  next
    case (Search_history query limit)
    then show ?thesis
      by (intro plain_call) (simp_all add: returning_connections search_history_connections)
  next
    case (Delete_history_entry url)
    then show ?thesis
      by (intro plain_call) (simp_all add: returning_connections delete_history_entry_connections)
  next
    case (Clear_history days)
    then show ?thesis
      by (intro plain_call) (simp_all add: returning_connections clear_history_connections)
  next
    case (Export_bookmarks export_path)
    then show ?thesis
      by (intro plain_call) (simp_all add: returning_connections export_bookmarks_connections)
  next
    case Get_database_statistics
    then show ?thesis
      by (intro plain_call)
        (simp_all add: returning_connections get_database_statistics_connections)
  next
    case Get_database_size
    then show ?thesis
      by (intro exI [of _ "[]"]) (simp add: returning_connections get_database_size_connections)
  next
    case (Import_bookmarks import_path)
    then show ?thesis
      using import_bookmarks_connections [of eng self import_path w]
      by (auto simp: returning_connections)
  next
    case (Restore_database backup_path)
    from restore_database_outcome [of eng self backup_path w]
    obtain new where new:
      "connections (snd (restore_database eng self backup_path w)) = connections w @ new"
      "new = [] \<or> new = [(db_path self, False)]
          \<or> new = [(db_path self, False), (backup_path, False)]
          \<or> new = [(db_path self, False), (backup_path, True)]
             \<and> (\<exists>e. fst (restore_database eng self backup_path w) = Inl e)"
      by blast
    with Restore_database show ?thesis
      by (intro exI [of _ new]) (auto simp: returning_connections dest: returning_raises)
  next
    case (Backup_database backup_path)
    from backup_database_outcome [of eng self backup_path w]
    obtain new where new:
      "connections (snd (backup_database eng self backup_path w)) = connections w @ new"
      "new = [] \<or> new = [(db_path self, False)]
          \<or> new = [(db_path self, False), (backup_path, False)]
          \<or> new = [(db_path self, False), (backup_path, True)]
             \<and> (\<exists>e. fst (backup_database eng self backup_path w) = Inl e)"
      "fst (connect eng (db_path self) (store w)) = Inr () \<longrightarrow> new \<noteq> []"
      by blast
    with Backup_database show ?thesis
      by (intro exI [of _ new]) (auto simp: returning_connections dest: returning_raises)
  qed
  then obtain new where
    "connections (snd (perform eng self c w)) = connections w @ new"
    "new = [] \<or> new = [(db_path self, False)]
          \<or> (\<exists>p. (c = Backup_database p \<or> c = Restore_database p)
                \<and> (new = [(db_path self, False), (p, False)]
                     \<or> new = [(db_path self, False), (p, True)]
                        \<and> (\<exists>e. fst (perform eng self c w) = Inl e)))"
    "c = Get_database_size \<longrightarrow> new = []"
    "connects_first c \<and> fst (connect eng (db_path self) (store w)) = Inr ()
          \<longrightarrow> new \<noteq> []"
    by blast
  with object created deleted show ?thesis
    by (intro exI [of _ new] conjI)
qed

theorem connection_closed_per_call_witness:
  "connects_first (Get_history 5)
   \<and> fst (connect default_engine (db_path default_database) new_store) = Inr ()
   \<and> connections (snd (perform default_engine default_database (Get_history 5)
         \<lparr> store = new_store, connections = [] \<rparr>)) = [(''aluminum_data.db'', False)]
   \<and> fst (snd (perform_on default_engine (Get_history 5)
         (default_database, \<lparr> store = new_store, connections = [] \<rparr>))) = default_database
   \<and> fst (database_init default_engine ''aluminum_data.db''
         \<lparr> store = new_store, connections = [] \<rparr>) = Inr default_database
   \<and> conn default_database = None
   \<and> database_del default_engine default_database \<lparr> store = new_store, connections = [] \<rparr>
       = (Inr (), \<lparr> store = new_store, connections = [] \<rparr>)"
proof -
  let ?w = "\<lparr> store = new_store, connections = [] \<rparr>"
  have first: "connects_first (Get_history 5)"
    by simp
  have connected: "fst (connect default_engine (db_path default_database) (store ?w)) = Inr ()"
    by (simp add: default_engine_def sqlite_engine_def default_database_def)
  have none: "conn default_database = None"
    by (simp add: default_database_def)
  have "fst (database_init default_engine ''aluminum_data.db'' ?w) = Inr default_database"
    by (simp add: database_init_def create_tables_def get_connection_def bindA_def catchA_def
        returnA_def open_connection_def close_connection_def run_sql_def on_store_def
        default_engine_def sqlite_engine_def sqlite_execute_on_def default_database_def
        new_store_def)
  then obtain w' where init:
    "database_init default_engine ''aluminum_data.db'' ?w = (Inr default_database, w')"
    by (cases "database_init default_engine ''aluminum_data.db'' ?w") simp
  from connection_closed_per_call [of default_engine default_database "Get_history 5" ?w]
  obtain new where new:
    "connections (snd (perform default_engine default_database (Get_history 5) ?w)) = new"
    "new = [] \<or> new = [(db_path default_database, False)]"
    "new \<noteq> []"
    and object: "perform_on default_engine (Get_history 5) (default_database, ?w)
         = (fst (perform default_engine default_database (Get_history 5) ?w), default_database,
            snd (perform default_engine default_database (Get_history 5) ?w))"
    and created: "default_database = \<lparr> db_path = ''aluminum_data.db'', conn = None \<rparr>"
    and deleted: "database_del default_engine default_database ?w = (Inr (), ?w)"
    using first connected none init by auto
  from new have "connections (snd (perform default_engine default_database (Get_history 5) ?w))
      = [(''aluminum_data.db'', False)]"
    by (auto simp: default_database_def)
  with first connected object init none deleted show ?thesis
    by simp
qed

text \<open>
  C10, as it is stated, fails for \<open>get_database_size\<close>: it is a public method and it
  opens no connection; it asks the file system for the size of the file.
\<close>

theorem get_database_size_opens_no_connection:
  "perform default_engine default_database Get_database_size
       \<lparr> store = new_store, connections = [] \<rparr>
     = (Inr (Size 0), \<lparr> store = new_store, connections = [] \<rparr>)"
  by (simp add: returning_def bindA_def returnA_def get_database_size_def default_engine_def
      sqlite_engine_def idle_engine_def)

text \<open>
  The second connection of \<open>backup_database\<close>, made by \<open>sqlite3.connect\<close> itself, is
  closed only after the copy: when the copy raises, the connection that
  \<open>get_connection\<close> made is closed and the second one is left open.
\<close>

lemma backup_connection_left_open:
  "perform (default_engine\<lparr> backup :=
              (\<lambda>source target st. (Inl (DatabaseError ''file is not a database''), st)) \<rparr>)
       default_database (Backup_database ''notes.txt'')
       \<lparr> store = new_store, connections = [] \<rparr>
     = (Inl (DatabaseError ''file is not a database''),
        \<lparr> store = new_store,
          connections = [(''aluminum_data.db'', False), (''notes.txt'', True)] \<rparr>)"
  by (simp add: returning_def bindA_def catchA_def returnA_def backup_database_def
      get_connection_def open_connection_def close_connection_def on_store_def
      default_engine_def sqlite_engine_def idle_engine_def default_database_def new_store_def)

subsection \<open>The history table\<close>

lemma url_is_no_key: "\<not> is_key \<lparr> table_columns = history_columns, table_rows = rs \<rparr> ''url''"
  by (simp add: is_key_def history_columns_def)

lemma insert_history_fails:
  assumes "db ''history'' = Some \<lparr> table_columns = history_columns, table_rows = rs \<rparr>"
  shows "insert_row now ''history'' [(''url'', Value url), (''title'', Value title)]
           (DoUpdate ''url'' updates) db
         = Inl (OperationalError
             ''ON CONFLICT clause does not match any PRIMARY KEY or UNIQUE constraint'')"
proof -
  have "filter (\<lambda>c. c \<notin> set (map col_name history_columns)) [''url'', ''title''] = []"
    by (simp add: history_columns_def)
  with assms url_is_no_key [of rs] show ?thesis
    by (simp add: insert_row_def)
qed

text \<open>
  C7. On a database whose table \<open>history\<close> has the columns \<open>create_tables\<close> gives it
  (with any rows), that can be opened and has no transaction open: \<open>url\<close> is no
  \<open>PRIMARY KEY\<close> or \<open>UNIQUE\<close> column of the table, and every call of
  \<open>add_history_entry\<close>, with any url and title, raises the \<open>OperationalError\<close> of the
  \<open>ON CONFLICT\<close> clause and leaves the store as it was; its connection is made and
  closed.
\<close>

theorem add_history_entry_always_raises:
  assumes table: "committed st ''history'' = Some \<lparr> table_columns = history_columns, table_rows = rs \<rparr>"
    and idle: "pending st = None"
    and openable: "openable (db_path self)"
  shows "\<not> is_key \<lparr> table_columns = history_columns, table_rows = rs \<rparr> ''url''
    \<and> add_history_entry (sqlite_engine now (db_path self) openable rest) self url title
          \<lparr> store = st, connections = cs \<rparr>
        = (Inl (OperationalError
              ''ON CONFLICT clause does not match any PRIMARY KEY or UNIQUE constraint''),
           \<lparr> store = st, connections = cs @ [(db_path self, False)] \<rparr>)"
proof -
  have "insert_row now ''history'' [(''url'', Value url), (''title'', Value title)]
           (DoUpdate ''url'' [(''visit_count'', Increment), (''visit_time'', SetCurrentTimestamp)])
           (current st)
         = Inl (OperationalError
             ''ON CONFLICT clause does not match any PRIMARY KEY or UNIQUE constraint'')"
    using table idle by (intro insert_history_fails) (simp add: current_def)
  moreover have "st\<lparr>pending := None\<rparr> = st"
    using idle by simp
  ultimately show ?thesis
    using openable url_is_no_key [of rs]
    by (simp add: add_history_entry_def get_connection_def bindA_def catchA_def
        open_connection_def close_connection_def run_sql_def on_store_def
        sqlite_engine_def sqlite_execute_on_def)
qed

theorem add_history_entry_always_raises_witness:
  "fst (create_tables default_engine default_database \<lparr> store = new_store, connections = [] \<rparr>)
     = Inr ()
   \<and> committed (store (snd (create_tables default_engine default_database
         \<lparr> store = new_store, connections = [] \<rparr>))) ''history''
     = Some \<lparr> table_columns = history_columns, table_rows = [] \<rparr>
   \<and> add_history_entry default_engine default_database
         (Text ''https://www.example.com'') (Text ''Example Website'')
         (snd (create_tables default_engine default_database
            \<lparr> store = new_store, connections = [] \<rparr>))
     = (Inl (OperationalError
           ''ON CONFLICT clause does not match any PRIMARY KEY or UNIQUE constraint''),
        \<lparr> store = store (snd (create_tables default_engine default_database
            \<lparr> store = new_store, connections = [] \<rparr>)),
          connections = [(''aluminum_data.db'', False), (''aluminum_data.db'', False)] \<rparr>)"
proof -
  let ?w = "snd (create_tables default_engine default_database
                  \<lparr> store = new_store, connections = [] \<rparr>)"
  have created: "create_tables default_engine default_database
                   \<lparr> store = new_store, connections = [] \<rparr>
      = (Inr (),
         \<lparr> store = \<lparr> committed =
                     create_table ''cache'' cache_columns
                       (create_table ''settings'' settings_columns
                          (create_table ''bookmarks'' bookmarks_columns
                             (create_table ''history'' history_columns Map.empty))),
                    pending = None \<rparr>,
           connections = [(''aluminum_data.db'', False)] \<rparr>)"
    by (simp add: create_tables_def get_connection_def bindA_def catchA_def
        open_connection_def close_connection_def run_sql_def on_store_def
        default_engine_def sqlite_engine_def sqlite_execute_on_def default_database_def
        new_store_def)
  have table: "committed (store ?w) ''history'' = Some \<lparr> table_columns = history_columns, table_rows = [] \<rparr>"
    by (simp add: created create_table_def)
  have idle: "pending (store ?w) = None"
    by (simp add: created)
  have world: "?w = \<lparr> store = store ?w, connections = [(''aluminum_data.db'', False)] \<rparr>"
    by (simp add: created)
  have path: "db_path default_database = ''aluminum_data.db''"
    by (simp add: default_database_def)
  note inst = add_history_entry_always_raises
    [where st = "store ?w" and rs = "[]" and openable = "\<lambda>path. True"
       and self = default_database and now = "''2024-01-01 00:00:00''" and rest = idle_engine
       and url = "Text ''https://www.example.com''" and title = "Text ''Example Website''"
       and cs = "[(''aluminum_data.db'', False)]"]
  have "add_history_entry default_engine default_database
         (Text ''https://www.example.com'') (Text ''Example Website'')
         \<lparr> store = store ?w, connections = [(''aluminum_data.db'', False)] \<rparr>
     = (Inl (OperationalError
           ''ON CONFLICT clause does not match any PRIMARY KEY or UNIQUE constraint''),
        \<lparr> store = store ?w,
          connections = [(''aluminum_data.db'', False), (''aluminum_data.db'', False)] \<rparr>)"
    using inst [OF table idle] by (simp add: default_engine_def path)
  then have "add_history_entry default_engine default_database
         (Text ''https://www.example.com'') (Text ''Example Website'') ?w
     = (Inl (OperationalError
           ''ON CONFLICT clause does not match any PRIMARY KEY or UNIQUE constraint''),
        \<lparr> store = store ?w,
          connections = [(''aluminum_data.db'', False), (''aluminum_data.db'', False)] \<rparr>)"
    using world by simp
  with created table show ?thesis
    by simp
qed

end
